(* ===== verification/Prelude.thy ===== *)
theory Prelude
  imports Complex_Main "HOL-Library.Sublist"
begin

text \<open>
  Shared vocabulary of the development. The application is TypeScript running in a
  browser; its handlers use a handful of JavaScript built-ins on strings
  (\<open>trim\<close>, \<open>split\<close>, \<open>join\<close>, \<open>toLowerCase\<close>, \<open>includes\<close>) and the
  \<open>err instanceof Error ? err.message : default\<close> idiom for reporting caught values.
  This theory models those built-ins on \<open>string\<close> (a list of 8-bit characters, so a
  character outside ASCII is several \<open>char\<close>s), proves the list facts the
  components share, and declares the collections the component proofs draw on:
  \<^item> \<open>svc_simps\<close>: characteristic equations of the remote-service requests;
  \<^item> \<open>handler_simps\<close>: unfolding rules of the UI handlers.
\<close>

named_theorems svc_simps "characteristic equations of remote-service requests"
named_theorems handler_simps "unfolding rules of UI event handlers"

section \<open>Values thrown by handlers\<close>

text \<open>
  A JavaScript \<open>throw\<close> may throw anything. The handlers distinguish instances of
  \<open>Error\<close> (carrying a message) from other values (\<open>catch (error) { ...
  error instanceof Error ? error.message : 'An error occurred' }\<close>).
\<close>

datatype thrown = Error_obj string | Other_obj

fun message_or :: "string \<Rightarrow> thrown \<Rightarrow> string" where
  "message_or dflt (Error_obj m) = m"
| "message_or dflt Other_obj = dflt"

section \<open>String built-ins\<close>

text \<open>\<open>String.prototype.trim\<close>: strips white space at both ends (ASCII white space:
  tab, line feed, vertical tab, form feed, carriage return, space).\<close>

definition js_space :: "char \<Rightarrow> bool" where
  "js_space c \<longleftrightarrow> (let n = (of_char c :: nat) in (9 \<le> n \<and> n \<le> 13) \<or> n = 32)"

definition js_trim :: "string \<Rightarrow> string" where
  "js_trim s = rev (dropWhile js_space (rev (dropWhile js_space s)))"

text \<open>\<open>String.prototype.split(sep)\<close> for a one-character separator: the pieces between
  separators, with an empty piece before a leading and after a trailing separator; the
  empty string splits into one empty piece.\<close>

fun js_split :: "char \<Rightarrow> string \<Rightarrow> string list" where
  "js_split c [] = [[]]"
| "js_split c (x # xs) =
     (let r = js_split c xs in if x = c then [] # r else (x # hd r) # tl r)"

text \<open>\<open>Array.prototype.join(sep)\<close>.\<close>

fun js_join :: "string \<Rightarrow> string list \<Rightarrow> string" where
  "js_join sep [] = []"
| "js_join sep [n] = n"
| "js_join sep (n # m # ns) = n @ sep @ js_join sep (m # ns)"

text \<open>\<open>String.prototype.toLowerCase\<close> on ASCII letters.\<close>

definition lower_char :: "char \<Rightarrow> char" where
  "lower_char c =
     (let n = (of_char c :: nat) in if 65 \<le> n \<and> n \<le> 90 then char_of (n + 32) else c)"

definition js_lower :: "string \<Rightarrow> string" where
  "js_lower s = map lower_char s"

text \<open>\<open>String.prototype.startsWith\<close> and \<open>String.prototype.includes\<close>, written as
  the scanning loops they are; \<open>js_includes_sublist\<close> relates the scan to the library's
  \<open>sublist\<close> (contiguous occurrence).\<close>

fun starts_with :: "string \<Rightarrow> string \<Rightarrow> bool" where
  "starts_with s [] = True"
| "starts_with [] (q # qs) = False"
| "starts_with (c # s) (q # qs) = (c = q \<and> starts_with s qs)"

fun js_includes :: "string \<Rightarrow> string \<Rightarrow> bool" where
  "js_includes [] q = (q = [])"
| "js_includes (c # s) q = (starts_with (c # s) q \<or> js_includes s q)"

section \<open>Facts about the built-ins\<close>

lemma js_split_nonempty [simp]: "js_split c s \<noteq> []"
  by (induction s) (auto simp: Let_def)

lemma js_split_no_sep [simp]: "c \<notin> set s \<Longrightarrow> js_split c s = [s]"
  by (induction s) (auto simp: Let_def)

lemma js_split_append_sep:
  "c \<notin> set n \<Longrightarrow> js_split c (n @ c # rest) = n # js_split c rest"
  by (induction n) (auto simp: Let_def)

lemma js_join_Cons: "ns \<noteq> [] \<Longrightarrow> js_join sep (n # ns) = n @ sep @ js_join sep ns"
  by (cases ns) auto

text \<open>Splitting a joined list on the first character of the separator gives back the
  pieces, the rest of the separator glued to the front of every piece but the first.\<close>

lemma js_split_prefix_no_sep:
  "c \<notin> set sp \<Longrightarrow> js_split c (sp @ x) = (sp @ hd (js_split c x)) # tl (js_split c x)"
  by (induction sp) (auto simp: Let_def)

lemma js_split_join:
  assumes "ns \<noteq> []" "\<forall>n \<in> set ns. c \<notin> set n" "c \<notin> set sp"
  shows "js_split c (js_join (c # sp) ns) = hd ns # map (\<lambda>n. sp @ n) (tl ns)"
  using assms
proof (induction ns)
  case (Cons n ns)
  show ?case
  proof (cases "ns = []")
    case False
    then have "js_join (c # sp) (n # ns) = n @ c # (sp @ js_join (c # sp) ns)"
      by (simp add: js_join_Cons)
    with False Cons show ?thesis
      by (cases ns) (simp_all add: js_split_append_sep js_split_prefix_no_sep)
  qed (use Cons.prems in simp)
qed simp

lemma starts_with_prefix: "starts_with s q \<longleftrightarrow> prefix q s"
  by (induction s q rule: starts_with.induct) auto

lemma js_includes_sublist: "js_includes s q \<longleftrightarrow> sublist q s"
  by (induction s) (auto simp: starts_with_prefix sublist_Cons_right)

lemma js_includes_Nil [simp]: "js_includes s []"
  by (simp add: js_includes_sublist)

lemma js_lower_idem [simp]: "js_lower (js_lower s) = js_lower s"
  by (simp add: js_lower_def lower_char_def Let_def)

lemma js_lower_append [simp]: "js_lower (a @ b) = js_lower a @ js_lower b"
  by (simp add: js_lower_def)

lemma js_includes_lower_mono:
  "sublist q q' \<Longrightarrow> js_includes (js_lower s) (js_lower q') \<Longrightarrow> js_includes (js_lower s) (js_lower q)"
  unfolding js_includes_sublist js_lower_def
  by (meson map_mono_sublist sublist_order.order_trans)

text \<open>\<open>trim\<close> facts: the result has no white space at either end, trimming is
  idempotent, and leading white space does not change the result.\<close>

lemma dropWhile_rev_dropWhile:
  "t = [] \<or> \<not> P (hd t) \<Longrightarrow> dropWhile P (rev (dropWhile P (rev t))) = rev (dropWhile P (rev t))"
  by (cases t) (auto simp: dropWhile_append)

lemma js_trim_idem [simp]: "js_trim (js_trim s) = js_trim s"
proof -
  let ?u = "rev (dropWhile js_space (rev (dropWhile js_space s)))"
  have "dropWhile js_space ?u = ?u"
    by (rule dropWhile_rev_dropWhile) (metis hd_dropWhile)
  then show ?thesis by (simp add: js_trim_def)
qed

lemma js_trim_Nil [simp]: "js_trim [] = []"
  by (simp add: js_trim_def)

lemma js_trim_spaces_left:
  "\<forall>c \<in> set sp. js_space c \<Longrightarrow> js_trim (sp @ n) = js_trim n"
  by (simp add: js_trim_def dropWhile_append)

lemma js_split_pieces_no_sep: "\<forall>n \<in> set (js_split c s). c \<notin> set n"
proof (induction s)
  case (Cons x xs)
  then show ?case
    by (cases "js_split c xs") (auto simp: Let_def)
qed simp

lemma js_split_append_no_sep:
  "c \<notin> set t \<Longrightarrow> js_split c (x @ t) = butlast (js_split c x) @ [last (js_split c x) @ t]"
proof (induction x)
  case Nil
  then show ?case by simp
next
  case (Cons y ys)
  then show ?case
    by (cases "js_split c ys") (auto simp: Let_def)
qed

lemma set_js_trim: "set (js_trim s) \<subseteq> set s"
  by (auto simp: js_trim_def dest!: set_dropWhileD)

lemma js_trim_spaces_right:
  assumes "\<forall>c \<in> set sp. js_space c"
  shows "js_trim (n @ sp) = js_trim n"
proof (cases "\<forall>x \<in> set n. js_space x")
  case True
  with assms have e: "dropWhile js_space sp = []" "dropWhile js_space n = []"
    by (simp_all add: dropWhile_eq_Nil_conv)
  from True show ?thesis by (simp add: js_trim_def dropWhile_append e)
next
  case False
  with assms show ?thesis by (auto simp: js_trim_def dropWhile_append)
qed

lemma js_trim_Cons_space: "js_space c \<Longrightarrow> js_trim (c # n) = js_trim n"
  using js_trim_spaces_left [of "[c]" n] by simp

lemma map_butlast_last: "xs \<noteq> [] \<Longrightarrow> map f (butlast xs) @ [f (last xs)] = map f xs"
  by (induction xs) auto

end
