(* ===== verification/Perfume_Types.thy ===== *)
theory Perfume_Types
  imports Prelude
begin

text \<open>
  The catalog entity of \<open>src/src/types/perfume.ts\<close>. \<open>PerfumeFormData\<close> is
  \<open>Omit<Perfume, 'id' | 'created_at' | 'updated_at'>\<close>: here the form record is the
  base record and \<open>perfume\<close> extends it with the three fields the service assigns, so
  that \<open>perfume_form.truncate\<close> is the \<open>Omit\<close> and a spread \<open>{...formData}\<close> is a
  record update. A JavaScript \<open>number\<close> price is a rational (the form's input only
  produces finite decimals); the opaque service-assigned \<open>id\<close> string and the ISO
  timestamps are modelled by natural numbers (a fresh counter and the service clock).
  Also here: the \<open>admin_users\<close> row, and the browser \<open>File\<close> picked in the form.
\<close>

type_synonym uuid = nat
type_synonym timestamp = nat

record perfume_form =
  name :: string
  category :: string
  price :: rat
  image_url :: string
  description :: string
  notes_list :: "string list"

record perfume = perfume_form +
  perfume_id :: uuid
  created_at :: timestamp
  updated_at :: timestamp

record admin_user =
  email :: string
  username :: string
  last_login :: "timestamp option"

record js_file =
  file_name :: string

text \<open>\<open>initialFormData\<close> of the dashboard (\<open>AdminDashboard.tsx\<close>, lines 18--25).\<close>

definition initialFormData :: perfume_form where
  "initialFormData =
     \<lparr>name = [], category = [], price = 0, image_url = [], description = [], notes_list = []\<rparr>"

text \<open>The form fields of a stored perfume, as \<open>openModal\<close> copies them.\<close>

definition form_of :: "perfume \<Rightarrow> perfume_form" where
  "form_of p =
     \<lparr>name = name p, category = category p, price = price p, image_url = image_url p,
      description = description p, notes_list = notes_list p\<rparr>"

lemma form_of_truncate: "form_of p = perfume_form.truncate p"
  by (simp add: form_of_def perfume_form.truncate_def)

end
