(* ===== verification/Backend.thy ===== *)
theory Backend
  imports Perfume_Types
begin

text \<open>
  The hosted backend that \<open>src/src/lib/supabase.ts\<close> connects to: the \<open>perfumes\<close>
  and \<open>admin_users\<close> tables, password authentication with a client-held session, and
  the \<open>perfume-images\<close> storage bucket. None of this is code of the repository; it is
  modelled from the specification (section 6) and from the documented behaviour of the
  client library as far as the handlers observe it.

  State: the record \<open>svc\<close>. Besides the data it holds
  \<^item> \<open>clock\<close>, the service's time, and \<open>next_id\<close>, the next fresh row identifier;
  \<^item> \<open>faults\<close>: for each kind of request, the value the client library throws or
    returns as its error when that request fails now (\<open>None\<close>: it succeeds). Every
    theorem quantifies over it, so every failure pattern of the network, the database and
    the storage service is covered;
  \<^item> \<open>calls\<close>: the requests issued so far, in order. It is what "no remote call is
    made" and "no upload is issued" are stated about.
  Each request is one function \<open>svc \<Rightarrow> result \<times> svc\<close> that first logs itself.
\<close>

datatype request =
    Q_select_perfumes
  | Q_insert_perfume
  | Q_update_perfume uuid
  | Q_delete_perfume uuid
  | Q_admin_by_email string
  | Q_touch_admin string
  | Auth_get_user
  | Auth_sign_in string
  | Auth_sign_out
  | Storage_upload string

datatype req_kind =
  K_select | K_insert | K_update | K_delete | K_admin | K_touch | K_get_user | K_sign_in
  | K_sign_out | K_upload

fun kind_of :: "request \<Rightarrow> req_kind" where
  "kind_of Q_select_perfumes = K_select"
| "kind_of Q_insert_perfume = K_insert"
| "kind_of (Q_update_perfume _) = K_update"
| "kind_of (Q_delete_perfume _) = K_delete"
| "kind_of (Q_admin_by_email _) = K_admin"
| "kind_of (Q_touch_admin _) = K_touch"
| "kind_of Auth_get_user = K_get_user"
| "kind_of (Auth_sign_in _) = K_sign_in"
| "kind_of Auth_sign_out = K_sign_out"
| "kind_of (Storage_upload _) = K_upload"

record svc =
  project_url :: string
  perfumes_tbl :: "perfume list"
  admin_users :: "admin_user list"
  auth_users :: "(string \<times> string) list"
  session :: "string option"
  bucket :: "string list"
  clock :: timestamp
  next_id :: uuid
  faults :: "req_kind \<Rightarrow> thrown option"
  calls :: "request list"

definition issue :: "request \<Rightarrow> svc \<Rightarrow> svc" where
  "issue r s = s\<lparr>calls := calls s @ [r]\<rparr>"

definition fault :: "svc \<Rightarrow> request \<Rightarrow> thrown option" where
  "fault s r = faults s (kind_of r)"

section \<open>Row queries\<close>

text \<open>\<open>from('perfumes').select('*').order('created_at', {ascending: false})\<close>.\<close>

definition newest_first :: "perfume list \<Rightarrow> perfume list" where
  "newest_first rows = sort_key (\<lambda>p. - int (created_at p)) rows"

definition select_perfumes :: "svc \<Rightarrow> (thrown + perfume list) \<times> svc" where
  "select_perfumes s =
     (let s' = issue Q_select_perfumes s in
      case fault s Q_select_perfumes of
        Some e \<Rightarrow> (Inl e, s')
      | None \<Rightarrow> (Inr (newest_first (perfumes_tbl s)), s'))"

text \<open>\<open>insert([data])\<close>: the service assigns the identifier and both timestamps.\<close>

definition new_row :: "perfume_form \<Rightarrow> uuid \<Rightarrow> timestamp \<Rightarrow> perfume" where
  "new_row f i t =
     \<lparr>name = name f, category = category f, price = price f, image_url = image_url f,
      description = description f, notes_list = notes_list f,
      perfume_id = i, created_at = t, updated_at = t\<rparr>"

definition insert_perfume :: "perfume_form \<Rightarrow> svc \<Rightarrow> (thrown + unit) \<times> svc" where
  "insert_perfume f s =
     (let s' = issue Q_insert_perfume s in
      case fault s Q_insert_perfume of
        Some e \<Rightarrow> (Inl e, s')
      | None \<Rightarrow> (Inr (),
          s'\<lparr>perfumes_tbl := perfumes_tbl s @ [new_row f (next_id s) (clock s)],
             next_id := Suc (next_id s), clock := Suc (clock s)\<rparr>))"

text \<open>\<open>update(data).eq('id', i)\<close>: every field of the form replaces the stored one;
  identifier and creation time stay. No matching row is not an error.\<close>

definition replace_row :: "perfume_form \<Rightarrow> timestamp \<Rightarrow> perfume \<Rightarrow> perfume" where
  "replace_row f t p =
     p\<lparr>name := name f, category := category f, price := price f, image_url := image_url f,
       description := description f, notes_list := notes_list f, updated_at := t\<rparr>"

definition update_perfume :: "perfume_form \<Rightarrow> uuid \<Rightarrow> svc \<Rightarrow> (thrown + unit) \<times> svc" where
  "update_perfume f i s =
     (let s' = issue (Q_update_perfume i) s in
      case fault s (Q_update_perfume i) of
        Some e \<Rightarrow> (Inl e, s')
      | None \<Rightarrow> (Inr (),
          s'\<lparr>perfumes_tbl :=
               map (\<lambda>p. if perfume_id p = i then replace_row f (clock s) p else p) (perfumes_tbl s),
             clock := Suc (clock s)\<rparr>))"

text \<open>\<open>delete().eq('id', i)\<close>.\<close>

definition delete_perfume :: "uuid \<Rightarrow> svc \<Rightarrow> (thrown + unit) \<times> svc" where
  "delete_perfume i s =
     (let s' = issue (Q_delete_perfume i) s in
      case fault s (Q_delete_perfume i) of
        Some e \<Rightarrow> (Inl e, s')
      | None \<Rightarrow> (Inr (), s'\<lparr>perfumes_tbl := filter (\<lambda>p. perfume_id p \<noteq> i) (perfumes_tbl s)\<rparr>))"

text \<open>\<open>from('admin_users').select(..).eq('email', e).single()\<close>: \<open>single\<close> fails unless
  exactly one row matches.\<close>

definition admin_by_email :: "string \<Rightarrow> svc \<Rightarrow> (thrown + admin_user) \<times> svc" where
  "admin_by_email e s =
     (let s' = issue (Q_admin_by_email e) s;
          rows = filter (\<lambda>a. email a = e) (admin_users s) in
      case fault s (Q_admin_by_email e) of
        Some err \<Rightarrow> (Inl err, s')
      | None \<Rightarrow>
          (if length rows = 1 then (Inr (hd rows), s')
           else (Inl (Error_obj ''JSON object requested, multiple (or no) rows returned''), s')))"

text \<open>\<open>update({last_login: t}).eq('email', e)\<close>.\<close>

definition touch_admin :: "string \<Rightarrow> timestamp \<Rightarrow> svc \<Rightarrow> (thrown + unit) \<times> svc" where
  "touch_admin e t s =
     (let s' = issue (Q_touch_admin e) s in
      case fault s (Q_touch_admin e) of
        Some err \<Rightarrow> (Inl err, s')
      | None \<Rightarrow> (Inr (),
          s'\<lparr>admin_users :=
               map (\<lambda>a. if email a = e then a\<lparr>last_login := Some t\<rparr> else a) (admin_users s)\<rparr>))"

section \<open>Authentication\<close>

text \<open>\<open>auth.getUser()\<close>: the identity of the current session; a failed request yields
  no user (the handlers only read \<open>data.user\<close>).\<close>

definition get_user :: "svc \<Rightarrow> string option \<times> svc" where
  "get_user s =
     (let s' = issue Auth_get_user s in
      case fault s Auth_get_user of Some _ \<Rightarrow> (None, s') | None \<Rightarrow> (session s, s'))"

text \<open>\<open>auth.getSession()\<close> reads the locally stored session: no request.\<close>

definition get_session :: "svc \<Rightarrow> string option" where
  "get_session s = session s"

text \<open>\<open>auth.signInWithPassword({email, password})\<close>: the authentication service
  stores and compares emails in lower case; on success the session belongs to the
  identity's (lower-case) email.\<close>

definition sign_in :: "string \<Rightarrow> string \<Rightarrow> svc \<Rightarrow> (thrown + string option) \<times> svc" where
  "sign_in e pw s =
     (let s' = issue (Auth_sign_in e) s; e' = js_lower e in
      case fault s (Auth_sign_in e) of
        Some err \<Rightarrow> (Inl err, s')
      | None \<Rightarrow>
          (if (e', pw) \<in> set (auth_users s) then (Inr (Some e'), s'\<lparr>session := Some e'\<rparr>)
           else (Inl (Error_obj ''Invalid login credentials''), s')))"

text \<open>\<open>auth.signOut()\<close>: the client library removes the local session only when the
  revocation request succeeds (or the session is already invalid); on a failed request it
  returns the error and keeps the session.\<close>

definition sign_out :: "svc \<Rightarrow> (thrown + unit) \<times> svc" where
  "sign_out s =
     (let s' = issue Auth_sign_out s in
      case fault s Auth_sign_out of
        Some err \<Rightarrow> (Inl err, s')
      | None \<Rightarrow> (Inr (), s'\<lparr>session := None\<rparr>))"

section \<open>Storage\<close>

text \<open>\<open>storage.from('perfume-images').upload(path, file, {upsert: false})\<close>: refuses a
  path that already holds an object.\<close>

definition upload_object :: "string \<Rightarrow> svc \<Rightarrow> (thrown + unit) \<times> svc" where
  "upload_object path s =
     (let s' = issue (Storage_upload path) s in
      case fault s (Storage_upload path) of
        Some err \<Rightarrow> (Inl err, s')
      | None \<Rightarrow>
          (if path \<in> set (bucket s) then (Inl (Error_obj ''The resource already exists''), s')
           else (Inr (), s'\<lparr>bucket := bucket s @ [path]\<rparr>)))"

text \<open>\<open>getPublicUrl(path)\<close> builds the address locally.\<close>

definition public_url :: "svc \<Rightarrow> string \<Rightarrow> string" where
  "public_url s path = project_url s @ ''/storage/v1/object/public/perfume-images/'' @ path"

section \<open>Service invariant\<close>

text \<open>Identifiers are distinct and older than the counter; timestamps are in the past,
  and no row was updated before it was created.\<close>

definition svc_inv :: "svc \<Rightarrow> bool" where
  "svc_inv s \<longleftrightarrow> distinct (map perfume_id (perfumes_tbl s)) \<and>
     (\<forall>p \<in> set (perfumes_tbl s). perfume_id p < next_id s \<and> created_at p \<le> updated_at p \<and>
        updated_at p < clock s)"

section \<open>The catalog as an abstract map\<close>

text \<open>The abstraction function: the table read as a map from identifiers to the form
  fields of each row. The three write requests refine the map operations of the
  specification's "row insert", "row update" (full replace) and "row delete".\<close>

definition catalog :: "svc \<Rightarrow> uuid \<rightharpoonup> perfume_form" where
  "catalog s = map_of (map (\<lambda>p. (perfume_id p, form_of p)) (perfumes_tbl s))"

section \<open>A sample service state\<close>

text \<open>One stored perfume, one administrator, a second authenticated identity that is not
  an administrator, an empty bucket, and no failing request. The witnesses of the
  component theories run the handlers on it.\<close>

definition demo_form :: perfume_form where
  "demo_form = \<lparr>name = ''Rose Noir'', category = ''Floral'', price = 120,
     image_url = ''https://cdn.example/rose.jpg'', description = ''Dark rose'',
     notes_list = [''Rose'', ''Oud'']\<rparr>"

definition demo_svc :: svc where
  "demo_svc =
     \<lparr>project_url = ''https://demo.supabase.co'',
      perfumes_tbl = [new_row demo_form 0 1],
      admin_users = [\<lparr>email = ''admin@fragrance.com'', username = ''admin'', last_login = None\<rparr>],
      auth_users = [(''admin@fragrance.com'', ''s3cret''), (''guest@fragrance.com'', ''guest'')],
      session = None, bucket = [], clock = 2, next_id = 1, faults = (\<lambda>_. None), calls = []\<rparr>"

section \<open>Lemmas\<close>

lemmas svc_req_defs [svc_simps] =
  select_perfumes_def insert_perfume_def update_perfume_def delete_perfume_def
  admin_by_email_def touch_admin_def get_user_def sign_in_def sign_out_def upload_object_def
  issue_def fault_def

lemma perfume_id_replace_row [simp]: "perfume_id (replace_row f t p) = perfume_id p"
  and created_at_replace_row [simp]: "created_at (replace_row f t p) = created_at p"
  by (simp_all add: replace_row_def)

lemma svc_inv_frame:
  "svc_inv s \<Longrightarrow> perfumes_tbl s' = perfumes_tbl s \<Longrightarrow> next_id s' = next_id s \<Longrightarrow>
   clock s \<le> clock s' \<Longrightarrow> svc_inv s'"
  unfolding svc_inv_def by (metis order_less_le_trans)

lemma svc_inv_select: "svc_inv s \<Longrightarrow> svc_inv (snd (select_perfumes s))"
  by (erule svc_inv_frame) (auto simp: svc_simps Let_def split: option.splits)

lemma svc_inv_insert: "svc_inv s \<Longrightarrow> svc_inv (snd (insert_perfume f s))"
  by (fastforce simp: svc_inv_def svc_simps Let_def new_row_def split: option.splits)

lemma svc_inv_update: "svc_inv s \<Longrightarrow> svc_inv (snd (update_perfume f i s))"
proof (cases "fault s (Q_update_perfume i)")
  case None
  assume inv: "svc_inv s"
  let ?g = "\<lambda>p. if perfume_id p = i then replace_row f (clock s) p else p"
  have ids: "perfume_id \<circ> ?g = perfume_id"
    by (simp add: fun_eq_iff)
  have "\<forall>p \<in> set (map ?g (perfumes_tbl s)). perfume_id p < next_id s \<and>
          created_at p \<le> updated_at p \<and> updated_at p < Suc (clock s)"
    using inv by (auto simp: svc_inv_def replace_row_def less_SucI order_less_imp_le)
  with inv ids None show ?thesis
    by (simp add: svc_inv_def svc_simps Let_def)
qed (auto elim: svc_inv_frame simp: svc_simps Let_def)

lemma svc_inv_delete: "svc_inv s \<Longrightarrow> svc_inv (snd (delete_perfume i s))"
  by (fastforce simp: svc_inv_def svc_simps Let_def distinct_map_filter split: option.splits)

lemma svc_inv_auth:
  "svc_inv s \<Longrightarrow> svc_inv (snd (admin_by_email e s))"
  "svc_inv s \<Longrightarrow> svc_inv (snd (touch_admin e t s))"
  "svc_inv s \<Longrightarrow> svc_inv (snd (get_user s))"
  "svc_inv s \<Longrightarrow> svc_inv (snd (sign_in e pw s))"
  "svc_inv s \<Longrightarrow> svc_inv (snd (sign_out s))"
  "svc_inv s \<Longrightarrow> svc_inv (snd (upload_object path s))"
  by (erule svc_inv_frame; auto simp: svc_simps Let_def split: option.splits)+

lemmas svc_inv_preserved =
  svc_inv_select svc_inv_insert svc_inv_update svc_inv_delete svc_inv_auth

lemma dom_catalog: "dom (catalog s) = perfume_id ` set (perfumes_tbl s)"
  by (simp add: catalog_def dom_map_of_conv_image_fst image_image)

lemma form_of_new_row [simp]: "form_of (new_row f i t) = f"
  by (simp add: form_of_def new_row_def)

lemma form_of_replace_row [simp]: "form_of (replace_row f t p) = f"
  by (simp add: form_of_def replace_row_def)

lemma map_of_replace:
  "map_of (map (\<lambda>p. (perfume_id p, form_of p))
      (map (\<lambda>p. if perfume_id p = i then replace_row f t p else p) xs)) =
   (map_of (map (\<lambda>p. (perfume_id p, form_of p)) xs))
      (i := map_option (\<lambda>_. f) (map_of (map (\<lambda>p. (perfume_id p, form_of p)) xs) i))"
  by (induction xs) (auto simp: fun_eq_iff)

lemma map_of_filter_id:
  "map_of (map (\<lambda>p. (perfume_id p, form_of p)) (filter (\<lambda>p. perfume_id p \<noteq> i) xs)) =
   (map_of (map (\<lambda>p. (perfume_id p, form_of p)) xs))(i := None)"
  by (induction xs) (auto simp: fun_eq_iff)

lemma svc_fail_keeps_table:
  "insert_perfume f s = (Inl e, s') \<Longrightarrow> perfumes_tbl s' = perfumes_tbl s"
  "update_perfume f i s = (Inl e, s') \<Longrightarrow> perfumes_tbl s' = perfumes_tbl s"
  "delete_perfume i s = (Inl e, s') \<Longrightarrow> perfumes_tbl s' = perfumes_tbl s"
  by (auto simp: svc_simps Let_def split: option.splits)

lemma new_row_fields [simp]:
  "perfume_id (new_row f i t) = i" "created_at (new_row f i t) = t"
  "updated_at (new_row f i t) = t"
  by (simp_all add: new_row_def)

lemma fresh_id_not_in_catalog: "svc_inv s \<Longrightarrow> catalog s (next_id s) = None"
  by (auto simp: svc_inv_def catalog_def map_of_eq_None_iff)

lemma catalog_insert:
  "svc_inv s \<Longrightarrow> insert_perfume f s = (Inr u, s') \<Longrightarrow> catalog s' = (catalog s)(next_id s \<mapsto> f)"
  by (auto simp: svc_simps Let_def catalog_def fun_eq_iff map_add_def
      dest!: fresh_id_not_in_catalog split: option.splits option.split_asm)

lemma catalog_update:
  "update_perfume f i s = (Inr u, s') \<Longrightarrow>
   catalog s' = (catalog s)(i := map_option (\<lambda>_. f) (catalog s i))"
  by (auto simp: svc_simps Let_def catalog_def map_of_replace [unfolded map_map]
      split: option.splits)

lemma catalog_delete:
  "delete_perfume i s = (Inr u, s') \<Longrightarrow> catalog s' = (catalog s)(i := None)"
  by (auto simp: svc_simps Let_def catalog_def map_of_filter_id split: option.splits)

section \<open>Order of the read path\<close>

lemma hd_sort_key_least:
  assumes "x \<in> set xs" "\<forall>y \<in> set xs. y \<noteq> x \<longrightarrow> f x < f y"
  shows "hd (sort_key f xs) = x"
proof (rule ccontr)
  assume ne: "hd (sort_key f xs) \<noteq> x"
  from assms(1) have "xs \<noteq> []" by auto
  then have "sort_key f xs \<noteq> []" by (metis length_0_conv length_sort)
  then obtain y ys where ys: "sort_key f xs = y # ys" by (cases "sort_key f xs") auto
  have "x \<in> set (y # ys)" using assms(1) ys by (metis set_sort)
  with ne ys have "x \<in> set ys" by auto
  moreover have "sorted (map f (y # ys))" using ys by (metis sorted_sort_key)
  ultimately have "f y \<le> f x" by auto
  moreover have "y \<in> set xs" using ys by (metis list.set_intros(1) set_sort)
  with assms(2) ne ys have "f x < f y" by auto
  ultimately show False by simp
qed

lemma newest_first_set [simp]: "set (newest_first xs) = set xs"
  and newest_first_length [simp]: "length (newest_first xs) = length xs"
  and newest_first_sorted: "sorted (map (\<lambda>p. - int (created_at p)) (newest_first xs))"
  by (simp_all add: newest_first_def)

lemma newest_first_insert_hd:
  assumes "svc_inv s" "insert_perfume f s = (Inr u, s')"
  shows "hd (newest_first (perfumes_tbl s')) = new_row f (next_id s) (clock s)"
proof -
  from assms(2) have tbl: "perfumes_tbl s' = perfumes_tbl s @ [new_row f (next_id s) (clock s)]"
    by (auto simp: svc_simps Let_def split: option.splits)
  have "\<forall>p \<in> set (perfumes_tbl s). created_at p < clock s"
    using assms(1) by (auto simp: svc_inv_def)
  moreover have "\<forall>p \<in> set (perfumes_tbl s). p \<noteq> new_row f (next_id s) (clock s)"
    using assms(1) by (auto simp: svc_inv_def new_row_def)
  ultimately show ?thesis unfolding tbl newest_first_def
    by (intro hd_sort_key_least) (auto simp: new_row_def)
qed

lemma svc_inv_demo: "svc_inv demo_svc"
  by (simp add: svc_inv_def demo_svc_def)

end
