(* ===== verification/Dashboard.thy ===== *)
theory Dashboard
  imports Backend
begin

text \<open>
  The administrative console, \<open>src/src/pages/AdminDashboard.tsx\<close>. Its React state
  (the \<open>useState\<close> hooks of lines 8--29) is the record \<open>dash\<close>; each handler is a
  function from the state at the moment the event fires (the values its closure captured)
  and the service to the new state and service, together with the route it navigates to,
  if any. A handler runs to completion before the next event is handled: the UI disables
  the submit button while \<open>isSaving\<close>, and the model takes each \<open>await\<close> chain as
  one step. The browser's registry of object URLs (\<open>URL.createObjectURL\<close> /
  \<open>URL.revokeObjectURL\<close>) is the field \<open>object_urls\<close>.
\<close>

text \<open>\<open>Math.round((loaded / total) * 100)\<close>: a percentage, or \<open>NaN\<close> / \<open>Infinity\<close>
  when the total is zero.\<close>

datatype js_pct = Pct nat | Pct_NaN | Pct_Inf

definition round_percent :: "nat \<Rightarrow> nat \<Rightarrow> js_pct" where
  "round_percent ld tot =
     (if tot = 0 then (if ld = 0 then Pct_NaN else Pct_Inf)
      else Pct ((200 * ld + tot) div (2 * tot)))"

record dash =
  loading :: bool
  perfumes :: "perfume list"
  adminData :: "(string \<times> timestamp option) option"
  isModalOpen :: bool
  editingPerfume :: "perfume option"
  formError :: string
  isSaving :: bool
  uploadProgress :: "js_pct option"
  formData :: perfume_form
  selectedImage :: "js_file option"
  previewUrl :: "string option"
  object_urls :: "string list"

definition dash_init :: dash where
  "dash_init =
     \<lparr>loading = True, perfumes = [], adminData = None, isModalOpen = False,
      editingPerfume = None, formError = [], isSaving = False, uploadProgress = None,
      formData = initialFormData, selectedImage = None, previewUrl = None, object_urls = []\<rparr>"

text \<open>What the environment decides during one upload: the random name
  (\<open>Math.random().toString(36).substring(2)\<close>) and the progress events
  \<open>(loaded, total)\<close> the transfer reports.\<close>

record upload_env =
  rnd :: string
  progress_events :: "(nat \<times> nat) list"

section \<open>Handlers\<close>

text \<open>\<open>checkAdmin\<close> (lines 36--61): the session's user must have exactly one
  \<open>admin_users\<close> row; otherwise navigate to the login page. \<open>finally\<close> clears
  \<open>loading\<close>.\<close>

definition checkAdmin :: "dash \<Rightarrow> svc \<Rightarrow> dash \<times> svc \<times> string option" where
  "checkAdmin d s =
     (case get_user s of
        (None, s1) \<Rightarrow> (d\<lparr>loading := False\<rparr>, s1, Some ''/admin/login'')
      | (Some e, s1) \<Rightarrow>
          (case admin_by_email e s1 of
             (Inl _, s2) \<Rightarrow> (d\<lparr>loading := False\<rparr>, s2, Some ''/admin/login'')
           | (Inr a, s2) \<Rightarrow>
               (d\<lparr>adminData := Some (username a, last_login a), loading := False\<rparr>, s2, None)))"

text \<open>\<open>fetchPerfumes\<close> (lines 63--75): a failed query is only logged.\<close>

definition fetchPerfumes :: "dash \<Rightarrow> svc \<Rightarrow> dash \<times> svc" where
  "fetchPerfumes d s =
     (case select_perfumes s of
        (Inl _, s1) \<Rightarrow> (d, s1)
      | (Inr rows, s1) \<Rightarrow> (d\<lparr>perfumes := rows\<rparr>, s1))"

text \<open>\<open>handleLogout\<close> (lines 77--80): the result of \<open>signOut\<close> is not inspected.\<close>

definition handleLogout :: "dash \<Rightarrow> svc \<Rightarrow> dash \<times> svc \<times> string option" where
  "handleLogout d s = (d, snd (sign_out s), Some ''/admin/login'')"

text \<open>\<open>handleImageChange\<close> (lines 82--88); \<open>url\<close> is the fresh object URL.\<close>

definition handleImageChange :: "js_file option \<Rightarrow> string \<Rightarrow> dash \<Rightarrow> dash" where
  "handleImageChange file url d =
     (case file of
        None \<Rightarrow> d
      | Some f \<Rightarrow> d\<lparr>selectedImage := Some f, previewUrl := Some url,
                    object_urls := object_urls d @ [url]\<rparr>)"

text \<open>\<open>uploadImage\<close> (lines 90--121). The storage path is
  \<open>perfumes/<random>.<ext>\<close> with \<open>ext = file.name.split('.').pop()\<close>. Besides its
  result it returns the successive values given to \<open>uploadProgress\<close>: \<open>0\<close>, one per
  progress event, and \<open>null\<close> in the \<open>finally\<close> block.\<close>

definition file_ext :: "js_file \<Rightarrow> string" where
  "file_ext f = last (js_split (CHR ''.'') (file_name f))"

definition upload_path :: "upload_env \<Rightarrow> js_file \<Rightarrow> string" where
  "upload_path ue f = ''perfumes/'' @ rnd ue @ ''.'' @ file_ext f"

definition progress_trace :: "upload_env \<Rightarrow> js_pct option list" where
  "progress_trace ue =
     Some (Pct 0) # map (\<lambda>(l, t). Some (round_percent l t)) (progress_events ue) @ [None]"

definition uploadImage ::
  "js_file \<Rightarrow> upload_env \<Rightarrow> dash \<Rightarrow> svc \<Rightarrow> (thrown + string) \<times> dash \<times> svc \<times> js_pct option list"
where
  "uploadImage f ue d s =
     (let path = upload_path ue f in
      case upload_object path s of
        (Inl _, s1) \<Rightarrow>
          (Inl (Error_obj ''Failed to upload image''), d\<lparr>uploadProgress := None\<rparr>, s1, progress_trace ue)
      | (Inr _, s1) \<Rightarrow>
          (Inr (public_url s1 path), d\<lparr>uploadProgress := None\<rparr>, s1, progress_trace ue))"

text \<open>\<open>openModal\<close> (lines 123--143) and \<open>closeModal\<close> (lines 145--155). The
  revocation reads the \<open>previewUrl\<close> of the closure, the value before the reset.\<close>

definition openModal :: "perfume option \<Rightarrow> dash \<Rightarrow> dash" where
  "openModal p d =
     (case p of
        Some q \<Rightarrow> d\<lparr>editingPerfume := Some q, formData := form_of q, previewUrl := Some (image_url q),
                    selectedImage := None, isModalOpen := True, formError := []\<rparr>
      | None \<Rightarrow> d\<lparr>editingPerfume := None, formData := initialFormData, previewUrl := None,
                    selectedImage := None, isModalOpen := True, formError := []\<rparr>)"

definition closeModal :: "dash \<Rightarrow> dash" where
  "closeModal d =
     d\<lparr>isModalOpen := False, editingPerfume := None, formData := initialFormData, formError := [],
       selectedImage := None, previewUrl := None,
       object_urls :=
         (case previewUrl d of
            Some u \<Rightarrow> if u \<noteq> [] \<and> \<not> starts_with u ''http'' then removeAll u (object_urls d)
                      else object_urls d
          | None \<Rightarrow> object_urls d)\<rparr>"

text \<open>\<open>handleSubmit\<close> (lines 157--202), in the two stages of its \<open>try\<close> block:
  \<open>resolveImage\<close> (lines 163--172) validates and settles the image URL, uploading a
  selected file; \<open>persist\<close> (lines 174--196) normalises the notes, writes the row
  (update when editing, insert otherwise), refreshes the list and closes the form. A
  thrown value ends in the \<open>catch\<close> (line 198); \<open>finally\<close> clears \<open>isSaving\<close>.\<close>

definition submit_fail :: "thrown \<Rightarrow> dash \<Rightarrow> dash" where
  "submit_fail e d = d\<lparr>formError := message_or ''An error occurred'' e\<rparr>"

definition form_invalid :: "perfume_form \<Rightarrow> bool" where
  "form_invalid fd \<longleftrightarrow> name fd = [] \<or> category fd = [] \<or> price fd = 0"

definition resolveImage ::
  "upload_env \<Rightarrow> dash \<Rightarrow> svc \<Rightarrow> (thrown + string) \<times> dash \<times> svc \<times> js_pct option list"
where
  "resolveImage ue d s =
     (let fd = formData d in
      if form_invalid fd
      then (Inl (Error_obj ''Please fill in all required fields''), d, s, [])
      else case selectedImage d of
             Some f \<Rightarrow> uploadImage f ue d s
           | None \<Rightarrow>
               (if image_url fd = [] then (Inl (Error_obj ''Please select an image''), d, s, [])
                else (Inr (image_url fd), d, s, [])))"

text \<open>The image URL a submission writes (lines 166--172): the uploaded object's
  public URL when a file is selected, otherwise the URL already in the form.\<close>

definition submitted_image_url :: "upload_env \<Rightarrow> dash \<Rightarrow> svc \<Rightarrow> string" where
  "submitted_image_url ue d s =
     (case selectedImage d of
        Some f \<Rightarrow> public_url s (upload_path ue f)
      | None \<Rightarrow> image_url (formData d))"

definition clean_notes :: "string list \<Rightarrow> string list" where
  "clean_notes ns = filter (\<lambda>n. js_trim n \<noteq> []) ns"

definition perfumeData :: "string \<Rightarrow> perfume_form \<Rightarrow> perfume_form" where
  "perfumeData url fd = fd\<lparr>image_url := url, notes_list := clean_notes (notes_list fd)\<rparr>"

definition write_row :: "perfume option \<Rightarrow> perfume_form \<Rightarrow> svc \<Rightarrow> (thrown + unit) \<times> svc" where
  "write_row ed data s =
     (case ed of
        Some p \<Rightarrow> update_perfume data (perfume_id p) s
      | None \<Rightarrow> insert_perfume data s)"

definition persist :: "string \<Rightarrow> dash \<Rightarrow> svc \<Rightarrow> (thrown + unit) \<times> dash \<times> svc" where
  "persist url d s =
     (case write_row (editingPerfume d) (perfumeData url (formData d)) s of
        (Inl e, s1) \<Rightarrow> (Inl e, d, s1)
      | (Inr _, s1) \<Rightarrow> (case fetchPerfumes d s1 of (d2, s2) \<Rightarrow> (Inr (), closeModal d2, s2)))"

definition handleSubmit :: "upload_env \<Rightarrow> dash \<Rightarrow> svc \<Rightarrow> dash \<times> svc \<times> js_pct option list" where
  "handleSubmit ue d s =
     (let d0 = d\<lparr>formError := [], isSaving := True\<rparr> in
      case resolveImage ue d0 s of
        (Inl e, d1, s1, tr) \<Rightarrow> ((submit_fail e d1)\<lparr>isSaving := False\<rparr>, s1, tr)
      | (Inr url, d1, s1, tr) \<Rightarrow>
          (case persist url d1 s1 of
             (Inl e, d2, s2) \<Rightarrow> ((submit_fail e d2)\<lparr>isSaving := False\<rparr>, s2, tr)
           | (Inr _, d2, s2) \<Rightarrow> (d2\<lparr>isSaving := False\<rparr>, s2, tr)))"

text \<open>\<open>handleDelete\<close> (lines 204--218): \<open>confirmed\<close> is the answer to
  \<open>window.confirm\<close>; a failed delete is only logged.\<close>

definition handleDelete :: "uuid \<Rightarrow> bool \<Rightarrow> dash \<Rightarrow> svc \<Rightarrow> dash \<times> svc" where
  "handleDelete i confirmed d s =
     (if \<not> confirmed then (d, s)
      else case delete_perfume i s of
             (Inl _, s1) \<Rightarrow> (d, s1)
           | (Inr _, s1) \<Rightarrow> fetchPerfumes d s1)"

text \<open>The \<open>onChange\<close> handlers of the form's inputs (lines 400, 412, 431, 446, 458).
  The price input delivers \<open>Number(e.target.value)\<close>, taken here as the number.\<close>

definition onNotesChange :: "string \<Rightarrow> dash \<Rightarrow> dash" where
  "onNotesChange v d =
     d\<lparr>formData := (formData d)\<lparr>notes_list := map js_trim (js_split (CHR '','') v)\<rparr>\<rparr>"

definition notes_input_value :: "dash \<Rightarrow> string" where
  "notes_input_value d = js_join '', '' (notes_list (formData d))"

text \<open>The abstract write of the specification (section 4.3, step 3): an update
  replaces the fields of an existing entry, an insert adds an entry under a fresh
  identifier.\<close>

definition catalog_write ::
  "perfume option \<Rightarrow> perfume_form \<Rightarrow> uuid \<Rightarrow> (uuid \<rightharpoonup> perfume_form) \<Rightarrow> (uuid \<rightharpoonup> perfume_form)"
where
  "catalog_write ed f fresh m =
     (case ed of
        Some p \<Rightarrow> m(perfume_id p := map_option (\<lambda>_. f) (m (perfume_id p)))
      | None \<Rightarrow> m(fresh \<mapsto> f))"

definition notes_well_formed :: "string list \<Rightarrow> bool" where
  "notes_well_formed ns \<longleftrightarrow> ns \<noteq> [] \<and> (\<forall>n \<in> set ns. js_trim n = n \<and> CHR '','' \<notin> set n)"


text \<open>Typing into the notes field one character at a time, each keystroke appending to
  the displayed value.\<close>

fun type_notes :: "string \<Rightarrow> dash \<Rightarrow> dash" where
  "type_notes [] d = d"
| "type_notes (c # cs) d = type_notes cs (onNotesChange (notes_input_value d @ [c]) d)"


text \<open>Sample dashboards for the witnesses: the state after mounting with the
  "Add New Perfume" form filled in (no file picked), and an upload with three progress
  events.\<close>

definition demo_ue :: upload_env where
  "demo_ue = \<lparr>rnd = ''k3j9x'', progress_events = [(0, 4), (2, 4), (4, 4)]\<rparr>"

definition demo_new_dash :: dash where
  "demo_new_dash = (openModal None (dash_init\<lparr>loading := False\<rparr>))\<lparr>formData :=
     \<lparr>name = ''Oud Royal'', category = ''Woody'', price = 250,
      image_url = ''https://cdn.example/oud.jpg'', description = [],
      notes_list = [''Oud'', [], ''Amber'']\<rparr>\<rparr>"

section \<open>Properties of the write path\<close>

lemmas dash_handler_defs [handler_simps] =
  checkAdmin_def fetchPerfumes_def handleLogout_def handleImageChange_def uploadImage_def
  openModal_def closeModal_def submit_fail_def resolveImage_def write_row_def persist_def
  handleSubmit_def handleDelete_def onNotesChange_def

text \<open>C1. A form with an empty name, an empty category or a zero price is rejected
  before any request: the service is untouched (no call is logged), no progress is
  reported, and the form shows the validation message with everything else kept.\<close>

theorem handleSubmit_rejects_invalid:
  assumes "form_invalid (formData d)"
  shows "handleSubmit ue d s =
           (d\<lparr>formError := ''Please fill in all required fields'', isSaving := False\<rparr>, s, [])"
  using assms by (simp add: handler_simps Let_def)

lemma resolveImage_frame:
  assumes "resolveImage ue d s = (r, d1, s1, tr)"
  shows "d1 = d \<or> d1 = d\<lparr>uploadProgress := None\<rparr>"
    and "perfumes_tbl s1 = perfumes_tbl s" "next_id s1 = next_id s" "clock s1 = clock s"
    and "faults s1 = faults s" "session s1 = session s"
  using assms
  by (auto simp: handler_simps svc_simps Let_def split: if_splits option.splits sum.splits prod.splits)

lemma resolveImage_url:
  assumes "resolveImage ue d s = (Inr url, d1, s1, tr)"
  shows "url = submitted_image_url ue d s"
  using assms
  by (auto simp: resolveImage_def uploadImage_def submitted_image_url_def public_url_def svc_simps Let_def
      split: if_splits option.splits sum.splits prod.splits)

lemma resolveImage_inv: "resolveImage ue d s = (r, d1, s1, tr) \<Longrightarrow> svc_inv s \<Longrightarrow> svc_inv s1"
  by (erule svc_inv_frame) (simp_all add: resolveImage_frame)

lemma fetchPerfumes_frame:
  assumes "fetchPerfumes d s = (d1, s1)"
  shows "d1 = d \<or> d1 = d\<lparr>perfumes := newest_first (perfumes_tbl s)\<rparr>"
    and "perfumes_tbl s1 = perfumes_tbl s" "next_id s1 = next_id s" "clock s1 = clock s"
    and "faults s1 = faults s" "session s1 = session s"
  using assms
  by (auto simp: handler_simps svc_simps Let_def split: option.splits)

lemma persist_fail:
  assumes "persist url d s = (Inl e, d2, s2)"
  shows "d2 = d" "perfumes_tbl s2 = perfumes_tbl s"
  using assms
  by (auto simp: persist_def write_row_def dest: svc_fail_keeps_table
      split: option.splits sum.splits prod.splits)

lemma write_row_catalog:
  assumes "svc_inv s" "write_row ed f s = (Inr u, s1)"
  shows "catalog s1 = catalog_write ed f (next_id s) (catalog s)"
  using assms
  by (auto simp: write_row_def catalog_write_def catalog_insert catalog_update split: option.splits)

lemma persist_ok:
  assumes "svc_inv s" "persist url d s = (Inr u, d2, s2)"
  shows "catalog s2 = catalog_write (editingPerfume d) (perfumeData url (formData d)) (next_id s) (catalog s)"
    and "\<exists>d1. d2 = closeModal d1"
proof -
  obtain s1 where w: "write_row (editingPerfume d) (perfumeData url (formData d)) s = (Inr (), s1)"
    and f: "fetchPerfumes d s1 = (fst (fetchPerfumes d s1), s2)"
    and d2: "d2 = closeModal (fst (fetchPerfumes d s1))"
    using assms(2) by (auto simp: persist_def split: sum.splits prod.splits)
  have "perfumes_tbl s2 = perfumes_tbl s1" using f by (rule fetchPerfumes_frame)
  then have "catalog s2 = catalog s1" by (simp add: catalog_def)
  with write_row_catalog [OF assms(1) w] show "catalog s2 = catalog_write (editingPerfume d)
      (perfumeData url (formData d)) (next_id s) (catalog s)" by simp
  from d2 show "\<exists>d1. d2 = closeModal d1" by blast
qed

text \<open>C2. A submission either writes exactly the submitted form (the normalised
  fields, with the public URL of the object just uploaded when a file is selected and
  the form's own URL otherwise) as the abstract write of the specification and
  closes the form, or leaves the table as it was with the form, the record being edited
  and the dialog intact. There is no third outcome: no partial record is ever written.\<close>

theorem handleSubmit_all_or_nothing:
  assumes "svc_inv s" "handleSubmit ue d s = (d', s', tr)"
  shows "(perfumes_tbl s' = perfumes_tbl s \<and> formData d' = formData d \<and>
          editingPerfume d' = editingPerfume d \<and> isModalOpen d' = isModalOpen d \<and> \<not> isSaving d')
       \<or> (catalog s' = catalog_write (editingPerfume d)
                           (perfumeData (submitted_image_url ue d s) (formData d)) (next_id s) (catalog s) \<and>
          \<not> isModalOpen d' \<and> editingPerfume d' = None \<and> formData d' = initialFormData \<and>
          \<not> isSaving d')"
proof -
  let ?d0 = "d\<lparr>formError := [], isSaving := True\<rparr>"
  obtain r d1 s1 tr1 where res: "resolveImage ue ?d0 s = (r, d1, s1, tr1)"
    by (metis prod_cases4)
  have d1: "formData d1 = formData d" "editingPerfume d1 = editingPerfume d"
    "isModalOpen d1 = isModalOpen d"
    using resolveImage_frame(1) [OF res] by auto
  have tbl1: "perfumes_tbl s1 = perfumes_tbl s" "next_id s1 = next_id s"
    using resolveImage_frame(2,3) [OF res] by auto
  then have cat1: "catalog s1 = catalog s" by (simp add: catalog_def)
  have inv1: "svc_inv s1" using res assms(1) by (rule resolveImage_inv)
  show ?thesis
  proof (cases r)
    case (Inl e)
    then show ?thesis using assms(2) res d1 tbl1
      by (auto simp: handleSubmit_def submit_fail_def Let_def)
  next
    case r_ok: (Inr url)
    obtain r2 d2 s2 where per: "persist url d1 s1 = (r2, d2, s2)"
      by (metis prod_cases3)
    show ?thesis
    proof (cases r2)
      case (Inl e)
      with per have "d2 = d1" "perfumes_tbl s2 = perfumes_tbl s1"
        by (simp_all add: persist_fail)
      then show ?thesis using assms(2) res per r_ok Inl d1 tbl1
        by (auto simp: handleSubmit_def submit_fail_def Let_def)
    next
      case (Inr u)
      with per have per': "persist url d1 s1 = (Inr u, d2, s2)" by simp
      have u: "url = submitted_image_url ue d s"
        using resolveImage_url [OF res [unfolded r_ok]] by (simp add: submitted_image_url_def split: option.splits)
      have "catalog s2 = catalog_write (editingPerfume d) (perfumeData url (formData d))
                           (next_id s) (catalog s)"
        using persist_ok(1) [OF inv1 per'] d1 tbl1 cat1 by simp
      then have "catalog s2 = catalog_write (editingPerfume d)
                   (perfumeData (submitted_image_url ue d s) (formData d)) (next_id s) (catalog s)"
        by (simp add: u)
      moreover obtain d3 where "d2 = closeModal d3"
        using persist_ok(2) [OF inv1 per'] by blast
      ultimately show ?thesis using assms(2) res per' r_ok
        by (auto simp: handleSubmit_def closeModal_def Let_def)
    qed
  qed
qed

lemma handleSubmit_cases:
  assumes "handleSubmit ue d s = (d', s', tr)"
  obtains (rejected) e d1 where
      "resolveImage ue (d\<lparr>formError := [], isSaving := True\<rparr>) s = (Inl e, d1, s', tr)"
      "d' = (submit_fail e d1)\<lparr>isSaving := False\<rparr>"
  | (write_failed) url d1 s1 e d2 where
      "resolveImage ue (d\<lparr>formError := [], isSaving := True\<rparr>) s = (Inr url, d1, s1, tr)"
      "persist url d1 s1 = (Inl e, d2, s')" "d' = (submit_fail e d2)\<lparr>isSaving := False\<rparr>"
  | (written) url d1 s1 u d2 where
      "resolveImage ue (d\<lparr>formError := [], isSaving := True\<rparr>) s = (Inr url, d1, s1, tr)"
      "persist url d1 s1 = (Inr u, d2, s')" "d' = d2\<lparr>isSaving := False\<rparr>"
  using assms by (auto simp: handleSubmit_def Let_def split: sum.splits prod.splits)

lemma svc_calls:
  "calls (snd (select_perfumes s)) = calls s @ [Q_select_perfumes]"
  "calls (snd (insert_perfume f s)) = calls s @ [Q_insert_perfume]"
  "calls (snd (update_perfume f i s)) = calls s @ [Q_update_perfume i]"
  "calls (snd (delete_perfume i s)) = calls s @ [Q_delete_perfume i]"
  "calls (snd (upload_object path s)) = calls s @ [Storage_upload path]"
  by (auto simp: svc_simps Let_def split: option.splits)

lemma svc_bucket:
  "bucket (snd (select_perfumes s)) = bucket s"
  "bucket (snd (insert_perfume f s)) = bucket s"
  "bucket (snd (update_perfume f i s)) = bucket s"
  "bucket (snd (delete_perfume i s)) = bucket s"
  by (auto simp: svc_simps Let_def split: option.splits)

lemma persist_no_upload:
  assumes "persist url d s = (r, d2, s2)"
  shows "\<exists>new. calls s2 = calls s @ new \<and> (\<forall>q \<in> set new. kind_of q \<noteq> K_upload)"
    and "bucket s2 = bucket s"
  using assms
  by (fastforce simp: persist_def write_row_def fetchPerfumes_def svc_simps Let_def
      split: option.splits sum.splits prod.splits)+

lemma persist_image_url:
  assumes "persist url d s = (r, d2, s2)"
  shows "\<forall>p \<in> set (perfumes_tbl s2) - set (perfumes_tbl s). image_url p = url"
  using assms
  by (auto simp: persist_def write_row_def fetchPerfumes_def perfumeData_def svc_simps Let_def
      replace_row_def new_row_def split: option.splits sum.splits prod.splits if_splits)

lemma resolveImage_no_file:
  assumes "selectedImage d = None" "resolveImage ue d s = (r, d1, s1, tr)"
  shows "s1 = s" "tr = []" "d1 = d" "r = Inr url \<Longrightarrow> url = image_url (formData d)"
  using assms by (auto simp: resolveImage_def Let_def split: if_splits)

text \<open>With no file selected the write path never uploads: no storage request is
  issued, no progress is reported, the bucket is unchanged, and every row the submission
  writes carries the image URL already in the form.\<close>

theorem handleSubmit_no_file_no_upload:
  assumes "selectedImage d = None" "handleSubmit ue d s = (d', s', tr)"
  shows "tr = [] \<and> bucket s' = bucket s \<and>
         (\<exists>new. calls s' = calls s @ new \<and> (\<forall>q \<in> set new. kind_of q \<noteq> K_upload)) \<and>
         (\<forall>p \<in> set (perfumes_tbl s') - set (perfumes_tbl s). image_url p = image_url (formData d))"
  using assms(2)
proof (cases rule: handleSubmit_cases)
  have nf: "selectedImage (d\<lparr>formError := [], isSaving := True\<rparr>) = None" using assms(1) by simp
  {
    case (rejected e d1)
    then show ?thesis using resolveImage_no_file [OF nf rejected(1)] by auto
  next
    case (write_failed url d1 s1 e d2)
    then have "s1 = s" "tr = []" "url = image_url (formData d)"
      using resolveImage_no_file [OF nf write_failed(1)] by auto
    then show ?thesis
      using persist_no_upload [OF write_failed(2)] persist_image_url [OF write_failed(2)] by auto
  next
    case (written url d1 s1 u d2)
    then have "s1 = s" "tr = []" "url = image_url (formData d)"
      using resolveImage_no_file [OF nf written(1)] by auto
    then show ?thesis
      using persist_no_upload [OF written(2)] persist_image_url [OF written(2)] by auto
  }
qed

lemma persist_insert_hd:
  assumes "svc_inv s" "editingPerfume d = None" "faults s K_select = None"
    "persist url d s = (Inr u, d2, s2)"
  shows "perfumes d2 = newest_first (perfumes_tbl s2)"
    and "hd (perfumes d2) = new_row (perfumeData url (formData d)) (next_id s) (clock s)"
proof -
  obtain s1 where ins: "insert_perfume (perfumeData url (formData d)) s = (Inr (), s1)"
    and d2: "d2 = closeModal (d\<lparr>perfumes := newest_first (perfumes_tbl s1)\<rparr>)"
    and t: "perfumes_tbl s2 = perfumes_tbl s1"
    using assms(2-4)
    by (auto simp: persist_def write_row_def fetchPerfumes_def svc_simps Let_def
        split: option.splits sum.splits prod.splits)
  show "perfumes d2 = newest_first (perfumes_tbl s2)" using d2 t by (simp add: closeModal_def)
  show "hd (perfumes d2) = new_row (perfumeData url (formData d)) (next_id s) (clock s)"
    using newest_first_insert_hd [OF assms(1) ins] d2 by (simp add: closeModal_def)
qed

text \<open>C6. Creating a perfume while the list refresh succeeds puts the new record at
  the head of the displayed list, which is the table newest first: the record carries the
  submitted fields, the fresh identifier and the service time of the insert.\<close>

theorem handleSubmit_insert_newest_first:
  assumes "svc_inv s" "isModalOpen d" "editingPerfume d = None" "faults s K_select = None"
    and "handleSubmit ue d s = (d', s', tr)" "\<not> isModalOpen d'"
  shows "perfumes d' = newest_first (perfumes_tbl s') \<and>
         (\<exists>url. hd (perfumes d') = new_row (perfumeData url (formData d)) (next_id s) (clock s))"
  using assms(5)
proof (cases rule: handleSubmit_cases)
  case (rejected e d1)
  then show ?thesis
    using resolveImage_frame(1) [OF rejected(1)] assms(2,6) by (auto simp: submit_fail_def)
next
  case (write_failed url d1 s1 e d2)
  then show ?thesis
    using resolveImage_frame(1) [OF write_failed(1)] persist_fail(1) [OF write_failed(2)] assms(2,6)
    by (auto simp: submit_fail_def)
next
  case (written url d1 s1 u d2)
  note fr = resolveImage_frame [OF written(1)]
  have e: "editingPerfume d1 = None" and fd: "formData d1 = formData d"
    using fr(1) assms(3) by auto
  have inv: "svc_inv s1" using written(1) assms(1) by (rule resolveImage_inv)
  have q: "faults s1 K_select = None" using fr(5) assms(4) by simp
  note h = persist_insert_hd [OF inv e q written(2)]
  show ?thesis using h fd fr(3,4) written(3) by auto
qed

text \<open>C21. Deleting asks first: without confirmation nothing happens and no request is
  issued; with it, one delete request is sent, the entry leaves the catalog when the
  request succeeds, and only then is the list refreshed.\<close>

theorem handleDelete_effect:
  assumes "handleDelete i confirmed d s = (d', s')"
  shows "catalog s' = (if confirmed \<and> faults s K_delete = None then (catalog s)(i := None)
                       else catalog s) \<and>
         calls s' = calls s @ (if confirmed then Q_delete_perfume i #
                     (if faults s K_delete = None then [Q_select_perfumes] else []) else []) \<and>
         (\<not> confirmed \<longrightarrow> d' = d)"
  using assms
  by (auto simp: handleDelete_def fetchPerfumes_def svc_simps Let_def catalog_def
      map_of_filter_id split: option.splits sum.splits prod.splits)

section \<open>Upload progress\<close>

lemma round_percent_pos: "0 < t \<Longrightarrow> round_percent l t = Pct ((200 * l + t) div (2 * t))"
  by (simp add: round_percent_def)

lemma uploadImage_trace:
  "uploadImage f ue d s = (r, d', s', tr) \<Longrightarrow> tr = progress_trace ue \<and> uploadProgress d' = None"
  by (auto simp: uploadImage_def Let_def split: sum.splits prod.splits)

text \<open>C23. For a transfer of a known, non-zero size whose reported byte counts never
  decrease and end at the full size, the progress shown starts at 0, never decreases and
  ends at 100, after which the indicator is cleared, whether the upload succeeded or
  not.\<close>

theorem uploadImage_progress_monotone:
  assumes "uploadImage f ue d s = (r, d', s', tr)"
    and "progress_events ue \<noteq> []" "\<forall>e \<in> set (progress_events ue). snd e = T" "0 < T"
    and "sorted (map fst (progress_events ue))" "fst (last (progress_events ue)) = T"
  shows "\<exists>ps. tr = map (Some \<circ> Pct) ps @ [None] \<and> sorted ps \<and> hd ps = 0 \<and> last ps = 100 \<and>
              uploadProgress d' = None"
proof -
  let ?evs = "progress_events ue"
  let ?g = "\<lambda>l. (200 * l + T) div (2 * T)"
  let ?ps = "0 # map (\<lambda>e. ?g (fst e)) ?evs"
  have tr: "tr = progress_trace ue" "uploadProgress d' = None"
    using uploadImage_trace [OF assms(1)] by auto
  have "map (\<lambda>(l, t). Some (round_percent l t)) ?evs = map (Some \<circ> Pct) (map (\<lambda>e. ?g (fst e)) ?evs)"
    using assms(3,4) by (auto simp: round_percent_pos split: prod.splits)
  then have "tr = map (Some \<circ> Pct) ?ps @ [None]"
    using tr by (simp add: progress_trace_def)
  moreover have "sorted (map (\<lambda>e. ?g (fst e)) ?evs)"
    using assms(5) unfolding sorted_map
    by (rule sorted_wrt_mono_rel [rotated]) (simp add: div_le_mono)
  then have "sorted ?ps" by simp
  moreover have "last ?ps = 100"
    using assms(2,4,6) by (simp add: last_map)
  ultimately show ?thesis using tr(2) by (intro exI [of _ ?ps]) simp
qed

section \<open>The notes input\<close>

text \<open>The notes field is a controlled input: it displays \<open>notes.join(', ')\<close> and on
  every change stores \<open>value.split(',').map(trim)\<close>; the submission keeps the entries
  whose trimmed text is not empty.\<close>

text \<open>The notes a submission writes are exactly the comma-separated pieces of what
  was typed, trimmed, with the empty ones dropped, in order; each is non-empty, trimmed
  and free of commas.\<close>

theorem notes_normalised:
  "clean_notes (notes_list (formData (onNotesChange v d))) =
     filter (\<lambda>n. n \<noteq> []) (map js_trim (js_split (CHR '','') v)) \<and>
   (\<forall>n \<in> set (clean_notes (notes_list (formData (onNotesChange v d)))).
      n \<noteq> [] \<and> js_trim n = n \<and> CHR '','' \<notin> set n)"
  using js_split_pieces_no_sep [of "CHR '',''" v] set_js_trim
  by (auto simp: clean_notes_def onNotesChange_def filter_map comp_def)

lemma js_space_blank [simp]: "js_space (CHR '' '')"
  by (simp add: js_space_def)

lemma trim_split_notes_value:
  assumes "notes_well_formed (notes_list (formData d))"
  shows "map js_trim (js_split (CHR '','') (notes_input_value d)) = notes_list (formData d)"
proof -
  let ?ns = "notes_list (formData d)"
  have v: "notes_input_value d = js_join (CHR '','' # '' '') ?ns"
    by (simp add: notes_input_value_def)
  have "js_split (CHR '','') (notes_input_value d) = hd ?ns # map (\<lambda>n. '' '' @ n) (tl ?ns)"
    unfolding v using assms by (intro js_split_join) (auto simp: notes_well_formed_def)
  moreover have "map (\<lambda>n. js_trim ('' '' @ n)) (tl ?ns) = tl ?ns"
    using assms by (cases ?ns) (auto simp: notes_well_formed_def js_trim_Cons_space map_idI)
  moreover have "js_trim (hd ?ns) = hd ?ns" "hd ?ns # tl ?ns = ?ns"
    using assms by (auto simp: notes_well_formed_def)
  ultimately show ?thesis by (simp add: comp_def)
qed

text \<open>C32. Re-rendering the notes field does not change the notes: feeding the displayed
  value back through the change handler gives the state back, for every non-empty list
  of trimmed, comma-free notes (the lists the handler itself produces, once typed).\<close>

theorem notes_input_roundtrip:
  assumes "notes_well_formed (notes_list (formData d))"
  shows "onNotesChange (notes_input_value d) d = d"
  using trim_split_notes_value [OF assms] by (simp add: onNotesChange_def)

text \<open>C33. A space typed at the end of the notes field is dropped at once: the change
  handler trims every piece, so the state, and with it the displayed value, is exactly as
  before the keystroke. A note with an inner space ("Pink Pepper") cannot be typed
  character by character; see \<open>typing_pink_pepper\<close>.\<close>

theorem notes_typed_space_lost:
  assumes "notes_well_formed (notes_list (formData d))"
  shows "onNotesChange (notes_input_value d @ '' '') d = d"
proof -
  let ?xs = "js_split (CHR '','') (notes_input_value d)"
  have "map js_trim (js_split (CHR '','') (notes_input_value d @ '' ''))
          = map js_trim (butlast ?xs) @ [js_trim (last ?xs @ '' '')]"
    by (simp add: js_split_append_no_sep)
  also have "\<dots> = map js_trim (butlast ?xs) @ [js_trim (last ?xs)]"
    by (simp add: js_trim_spaces_right)
  also have "\<dots> = map js_trim ?xs"
    by (rule map_butlast_last) simp
  finally show ?thesis
    using trim_split_notes_value [OF assms] by (simp add: onNotesChange_def)
qed

lemma typing_pink_pepper:
  "notes_list (formData (type_notes ''Pink Pepper'' dash_init)) = [''PinkPepper'']"
  by code_simp

section \<open>Witnesses\<close>

theorem handleSubmit_rejects_invalid_witness:
  "form_invalid (formData dash_init) \<and>
   handleSubmit demo_ue dash_init demo_svc =
     (dash_init\<lparr>formError := ''Please fill in all required fields'', isSaving := False\<rparr>, demo_svc, [])"
proof -
  have inv: "form_invalid (formData dash_init)"
    by (simp add: form_invalid_def dash_init_def initialFormData_def)
  show ?thesis using inv handleSubmit_rejects_invalid [OF inv] by blast
qed

lemma demo_new_dash_submitted:
  "\<not> isModalOpen (fst (handleSubmit demo_ue demo_new_dash demo_svc))"
  by (simp add: demo_new_dash_def dash_init_def handler_simps svc_simps demo_svc_def Let_def
      form_invalid_def)

lemma demo_new_dash_fields:
  "isModalOpen demo_new_dash" "editingPerfume demo_new_dash = None"
  "selectedImage demo_new_dash = None" "faults demo_svc K_select = None"
  by (simp_all add: demo_new_dash_def openModal_def demo_svc_def)

theorem handleSubmit_all_or_nothing_witness:
  "\<exists>d' s' tr. svc_inv demo_svc \<and> handleSubmit demo_ue demo_new_dash demo_svc = (d', s', tr) \<and>
     catalog s' = catalog_write None
                    (perfumeData (submitted_image_url demo_ue demo_new_dash demo_svc) (formData demo_new_dash)) 1
                    (catalog demo_svc) \<and> \<not> isModalOpen d'"
proof -
  obtain d' s' tr where e: "handleSubmit demo_ue demo_new_dash demo_svc = (d', s', tr)"
    by (metis prod_cases3)
  have "\<not> isModalOpen d'" using demo_new_dash_submitted e by simp
  then show ?thesis
    using handleSubmit_all_or_nothing [OF svc_inv_demo e] svc_inv_demo e demo_new_dash_fields
    by (auto simp: demo_svc_def)
qed

theorem handleSubmit_insert_newest_first_witness:
  "\<exists>d' s' tr url. handleSubmit demo_ue demo_new_dash demo_svc = (d', s', tr) \<and> \<not> isModalOpen d' \<and>
     hd (perfumes d') = new_row (perfumeData url (formData demo_new_dash)) 1 2"
proof -
  obtain d' s' tr where e: "handleSubmit demo_ue demo_new_dash demo_svc = (d', s', tr)"
    by (metis prod_cases3)
  have closed: "\<not> isModalOpen d'" using demo_new_dash_submitted e by simp
  from handleSubmit_insert_newest_first [OF svc_inv_demo demo_new_dash_fields(1,2,4) e closed]
  show ?thesis using e closed by (auto simp: demo_svc_def)
qed

theorem handleSubmit_no_file_no_upload_witness:
  "\<exists>d' s' tr. handleSubmit demo_ue demo_new_dash demo_svc = (d', s', tr) \<and> tr = [] \<and>
     bucket s' = bucket demo_svc"
proof -
  obtain d' s' tr where e: "handleSubmit demo_ue demo_new_dash demo_svc = (d', s', tr)"
    by (metis prod_cases3)
  show ?thesis using handleSubmit_no_file_no_upload [OF demo_new_dash_fields(3) e] e by blast
qed

theorem handleDelete_effect_witness:
  "\<exists>d' s'. handleDelete 0 True demo_new_dash demo_svc = (d', s') \<and> catalog s' = Map.empty"
proof -
  obtain d' s' where e: "handleDelete 0 True demo_new_dash demo_svc = (d', s')"
    by (metis prod.exhaust)
  have "catalog s' = (catalog demo_svc)(0 := None)"
    using handleDelete_effect [OF e] by (simp add: demo_svc_def)
  then show ?thesis using e by (auto simp: catalog_def demo_svc_def fun_eq_iff)
qed

theorem uploadImage_progress_monotone_witness:
  "\<exists>r d' s' tr ps. uploadImage \<lparr>file_name = ''oud.png''\<rparr> demo_ue demo_new_dash demo_svc = (r, d', s', tr) \<and>
     tr = map (Some \<circ> Pct) ps @ [None] \<and> sorted ps \<and> last ps = 100"
proof -
  obtain r d' s' tr where e: "uploadImage \<lparr>file_name = ''oud.png''\<rparr> demo_ue demo_new_dash demo_svc = (r, d', s', tr)"
    by (metis prod_cases4)
  have h: "progress_events demo_ue \<noteq> []" "\<forall>e \<in> set (progress_events demo_ue). snd e = 4"
    "(0::nat) < 4" "sorted (map fst (progress_events demo_ue))" "fst (last (progress_events demo_ue)) = 4"
    by (simp_all add: demo_ue_def)
  show ?thesis using uploadImage_progress_monotone [OF e h] e by blast
qed

theorem notes_normalised_witness:
  "clean_notes (notes_list (formData (onNotesChange ''Rose, Jasmine,  , Bergamot'' dash_init))) =
     [''Rose'', ''Jasmine'', ''Bergamot'']"
  using notes_normalised [of "''Rose, Jasmine,  , Bergamot''" dash_init]
  by (simp add: js_trim_def js_space_def)

lemma demo_notes_well_formed: "notes_well_formed (notes_list (formData (onNotesChange ''Rose, Jasmine'' dash_init)))"
  by (simp add: notes_well_formed_def onNotesChange_def js_trim_def js_space_def)

theorem notes_input_roundtrip_witness:
  "notes_input_value (onNotesChange ''Rose, Jasmine'' dash_init) = ''Rose, Jasmine'' \<and>
   onNotesChange ''Rose, Jasmine'' (onNotesChange ''Rose, Jasmine'' dash_init) =
     onNotesChange ''Rose, Jasmine'' dash_init"
proof -
  have v: "notes_input_value (onNotesChange ''Rose, Jasmine'' dash_init) = ''Rose, Jasmine''"
    by (simp add: notes_input_value_def onNotesChange_def js_trim_def js_space_def)
  show ?thesis using notes_input_roundtrip [OF demo_notes_well_formed] v by simp
qed

theorem notes_typed_space_lost_witness:
  "onNotesChange (''Rose, Jasmine'' @ '' '') (onNotesChange ''Rose, Jasmine'' dash_init) =
     onNotesChange ''Rose, Jasmine'' dash_init"
proof -
  have v: "notes_input_value (onNotesChange ''Rose, Jasmine'' dash_init) = ''Rose, Jasmine''"
    by (simp add: notes_input_value_def onNotesChange_def js_trim_def js_space_def)
  show ?thesis using notes_typed_space_lost [OF demo_notes_well_formed] v by simp
qed

end
