(* ===== verification/Auth_Gate.thy ===== *)
theory Auth_Gate
  imports Dashboard
begin

text \<open>
  The authorization gate: the sign-in page \<open>src/src/pages/AdminLogin.tsx\<close>
  (\<open>checkSession\<close>, \<open>handleLogin\<close>) and the dashboard's entry check
  \<open>checkAdmin\<close> (defined with the dashboard). The specification's rule
  (section 3): an authenticated identity is an administrator when an \<open>admin_users\<close>
  row carries its email. The code asks the service for exactly one such row
  (\<open>.single()\<close>), and the sign-in page asks it for the email typed into the form,
  not for the email of the identity that signed in.
\<close>

record login =
  login_email :: string
  login_password :: string
  login_error :: string
  login_loading :: bool

definition login_init :: login where
  "login_init = \<lparr>login_email = [], login_password = [], login_error = [], login_loading = False\<rparr>"

text \<open>\<open>checkSession\<close> (lines 14--22): an existing session sends the visitor on to the
  dashboard.\<close>

definition checkSession :: "svc \<Rightarrow> string option" where
  "checkSession s = (case get_session s of Some _ \<Rightarrow> Some ''/admin/dashboard'' | None \<Rightarrow> None)"

text \<open>\<open>handleLogin\<close> (lines 24--65). \<open>now\<close> is the browser clock read by
  \<open>new Date().toISOString()\<close>; the result of the \<open>last_login\<close> update is not
  inspected; a thrown value ends in the \<open>catch\<close> of line 61.\<close>

definition login_fail :: "thrown \<Rightarrow> login \<Rightarrow> login" where
  "login_fail e l = l\<lparr>login_error := message_or ''Invalid login credentials'' e, login_loading := False\<rparr>"

definition handleLogin :: "timestamp \<Rightarrow> login \<Rightarrow> svc \<Rightarrow> login \<times> svc \<times> string option" where
  "handleLogin now l s =
     (let l0 = l\<lparr>login_error := [], login_loading := True\<rparr>; e = login_email l in
      case sign_in e (login_password l) s of
        (Inl err, s1) \<Rightarrow> (login_fail err l0, s1, None)
      | (Inr None, s1) \<Rightarrow> (login_fail (Error_obj ''Authentication failed'') l0, s1, None)
      | (Inr (Some _), s1) \<Rightarrow>
          (case admin_by_email e s1 of
             (Inl _, s2) \<Rightarrow> (login_fail (Error_obj ''Unauthorized access'') l0, snd (sign_out s2), None)
           | (Inr _, s2) \<Rightarrow> (l0\<lparr>login_loading := False\<rparr>, snd (touch_admin e now s2),
                             Some ''/admin/dashboard'')))"

text \<open>The code's test of administrator rights for an email: exactly one row.\<close>

definition unique_admin :: "svc \<Rightarrow> string \<Rightarrow> bool" where
  "unique_admin s e \<longleftrightarrow> length (filter (\<lambda>a. email a = e) (admin_users s)) = 1"

definition credentials_ok :: "svc \<Rightarrow> string \<Rightarrow> string \<Rightarrow> bool" where
  "credentials_ok s e pw \<longleftrightarrow> faults s K_sign_in = None \<and> (js_lower e, pw) \<in> set (auth_users s)"

text \<open>Sample sign-in forms: the administrator, an authenticated identity without an
  \<open>admin_users\<close> row, a wrong password, and the administrator typing the email with
  a capital letter.\<close>

definition login_as :: "string \<Rightarrow> string \<Rightarrow> login" where
  "login_as e pw = login_init\<lparr>login_email := e, login_password := pw\<rparr>"

section \<open>Properties\<close>

lemmas auth_defs [handler_simps] = checkSession_def login_fail_def handleLogin_def

lemma admin_by_email_ok_iff:
  "(\<exists>a. fst (admin_by_email e s) = Inr a) \<longleftrightarrow> faults s K_admin = None \<and> unique_admin s e"
  by (auto simp: svc_simps unique_admin_def Let_def split: option.splits)

text \<open>C3. An identity that signs in successfully but is not an administrator does not
  keep its session: the new session is ended, "Unauthorized access" is shown and there
  is no navigation to the dashboard (provided the sign-out request itself goes
  through).\<close>

theorem handleLogin_unauthorized_signed_out:
  assumes "handleLogin now l s = (l', s', nav)"
    and "credentials_ok s (login_email l) (login_password l)"
    and "\<not> (faults s K_admin = None \<and> unique_admin s (login_email l))"
    and "faults s K_sign_out = None"
  shows "session s' = None \<and> nav = None \<and> login_error l' = ''Unauthorized access'' \<and>
         \<not> login_loading l'"
  using assms
  by (auto simp: handleLogin_def login_fail_def credentials_ok_def unique_admin_def svc_simps Let_def
      split: option.splits if_splits)

text \<open>C4. Only an administrator reaches the dashboard from the sign-in page: when
  \<open>handleLogin\<close> navigates, the typed credentials were accepted, the typed email has
  exactly one \<open>admin_users\<close> row, the session belongs to the identity of that
  email, and the navigation goes to the dashboard.\<close>

theorem handleLogin_navigates_only_admins:
  assumes "handleLogin now l s = (l', s', Some r)"
  shows "r = ''/admin/dashboard'' \<and> credentials_ok s (login_email l) (login_password l) \<and>
         faults s K_admin = None \<and> unique_admin s (login_email l) \<and>
         session s' = Some (js_lower (login_email l)) \<and> login_error l' = []"
  using assms
  by (auto simp: handleLogin_def credentials_ok_def unique_admin_def svc_simps Let_def
      split: option.splits if_splits sum.splits prod.splits)

lemma checkAdmin_nav:
  assumes "checkAdmin d s = (d', s', nav)"
  shows "nav = (if faults s K_get_user = None \<and> faults s K_admin = None \<and>
                   (\<exists>e. session s = Some e \<and> unique_admin s e) then None else Some ''/admin/login'')"
  using assms
  by (auto simp: checkAdmin_def unique_admin_def svc_simps Let_def
      split: option.splits if_splits sum.splits prod.splits)

text \<open>C5. The dashboard's entry check fails closed: it lets the visitor stay exactly when
  both requests succeed and the session's email has exactly one \<open>admin_users\<close> row;
  otherwise it redirects to the sign-in page. Either way the loading screen ends, and
  the check never changes the session.\<close>

theorem checkAdmin_fail_closed:
  assumes "checkAdmin d s = (d', s', nav)"
  shows "(nav = None \<longleftrightarrow> faults s K_get_user = None \<and> faults s K_admin = None \<and>
                        (\<exists>e. session s = Some e \<and> unique_admin s e)) \<and>
         (nav = None \<or> nav = Some ''/admin/login'') \<and> \<not> loading d' \<and> session s' = session s"
  using assms
  by (auto simp: checkAdmin_def unique_admin_def svc_simps Let_def
      split: option.splits if_splits sum.splits prod.splits)

text \<open>C29. Rejected credentials change nothing but the error shown: no administrator
  lookup is made, the session and the tables stay as they were, and there is no
  navigation; the message is the service's (or the generic one for a value that is not
  an \<open>Error\<close>).\<close>

theorem handleLogin_bad_credentials:
  assumes "handleLogin now l s = (l', s', nav)"
    and "\<not> credentials_ok s (login_email l) (login_password l)"
  shows "nav = None \<and> session s' = session s \<and> admin_users s' = admin_users s \<and>
         calls s' = calls s @ [Auth_sign_in (login_email l)] \<and> \<not> login_loading l' \<and>
         login_error l' = (case faults s K_sign_in of
                             Some err \<Rightarrow> message_or ''Invalid login credentials'' err
                           | None \<Rightarrow> ''Invalid login credentials'')"
  using assms
  by (auto simp: handleLogin_def login_fail_def credentials_ok_def svc_simps Let_def
      split: option.splits if_splits)

text \<open>A successful administrator sign-in records the time: when the update
  request goes through, every \<open>admin_users\<close> row of the typed email gets
  \<open>last_login = now\<close> and no other row changes.\<close>

theorem handleLogin_records_last_login:
  assumes "handleLogin now l s = (l', s', Some r)" "faults s K_touch = None"
  shows "admin_users s' =
           map (\<lambda>a. if email a = login_email l then a\<lparr>last_login := Some now\<rparr> else a) (admin_users s)"
  using assms
  by (auto simp: handleLogin_def svc_simps Let_def split: option.splits if_splits sum.splits prod.splits)

text \<open>C30. A failed sign-out leaves an unauthorized identity signed in: the code ignores
  the result of \<open>signOut\<close>, and the client keeps its session when the revocation
  request fails.\<close>

theorem handleLogin_signout_failure_keeps_session:
  assumes "handleLogin now l s = (l', s', nav)"
    and "credentials_ok s (login_email l) (login_password l)"
    and "\<not> (faults s K_admin = None \<and> unique_admin s (login_email l))"
    and "faults s K_sign_out \<noteq> None"
  shows "session s' = Some (js_lower (login_email l)) \<and> nav = None \<and>
         login_error l' = ''Unauthorized access''"
  using assms
  by (auto simp: handleLogin_def login_fail_def credentials_ok_def unique_admin_def svc_simps Let_def
      split: option.splits if_splits)

text \<open>C31. The sign-in page checks the email as typed, while the service signs in the
  identity under its lower-case email: whenever the administrator table stores emails in
  lower case, an administrator (the lower-case identity has exactly one row) who types
  their email with any capital letter and the right password is authenticated and
  still refused with "Unauthorized access", signed out (if the sign-out request goes
  through) and not sent to the dashboard.\<close>

theorem handleLogin_typed_email_case:
  assumes "handleLogin now l s = (l', s', nav)"
    and "credentials_ok s (login_email l) (login_password l)"
    and "unique_admin s (js_lower (login_email l))" "js_lower (login_email l) \<noteq> login_email l"
    and "list_all (\<lambda>a. js_lower (email a) = email a) (admin_users s)"
    and "faults s K_sign_out = None"
  shows "login_error l' = ''Unauthorized access'' \<and> nav = None \<and> session s' = None"
proof -
  have "filter (\<lambda>a. email a = login_email l) (admin_users s) = []"
    using assms(4,5) by (auto simp: list_all_iff filter_empty_conv)
  then have "\<not> unique_admin s (login_email l)" by (simp add: unique_admin_def)
  then show ?thesis
    using assms(1,2,6)
    by (auto simp: handleLogin_def login_fail_def credentials_ok_def unique_admin_def svc_simps Let_def
        split: option.splits if_splits)
qed

section \<open>Witnesses\<close>

theorem handleLogin_unauthorized_signed_out_witness:
  "\<exists>l' s' nav. handleLogin 7 (login_as ''guest@fragrance.com'' ''guest'') demo_svc = (l', s', nav) \<and>
     session s' = None \<and> login_error l' = ''Unauthorized access''"
proof -
  obtain l' s' nav where e: "handleLogin 7 (login_as ''guest@fragrance.com'' ''guest'') demo_svc = (l', s', nav)"
    by (metis prod_cases3)
  have h: "credentials_ok demo_svc (login_email (login_as ''guest@fragrance.com'' ''guest''))
             (login_password (login_as ''guest@fragrance.com'' ''guest''))"
    "\<not> (faults demo_svc K_admin = None \<and>
        unique_admin demo_svc (login_email (login_as ''guest@fragrance.com'' ''guest'')))"
    "faults demo_svc K_sign_out = None"
    by (simp_all add: credentials_ok_def unique_admin_def login_as_def login_init_def demo_svc_def
        js_lower_def lower_char_def)
  show ?thesis using handleLogin_unauthorized_signed_out [OF e h] e by blast
qed

lemma admin_login_navigates:
  "snd (snd (handleLogin 7 (login_as ''admin@fragrance.com'' ''s3cret'') demo_svc)) = Some ''/admin/dashboard''"
  by (simp add: handleLogin_def login_as_def login_init_def svc_simps demo_svc_def js_lower_def
      lower_char_def Let_def)

theorem handleLogin_navigates_only_admins_witness:
  "\<exists>l' s'. handleLogin 7 (login_as ''admin@fragrance.com'' ''s3cret'') demo_svc = (l', s', Some ''/admin/dashboard'') \<and>
     session s' = Some ''admin@fragrance.com''"
proof -
  obtain l' s' where e: "handleLogin 7 (login_as ''admin@fragrance.com'' ''s3cret'') demo_svc =
                          (l', s', Some ''/admin/dashboard'')"
    using admin_login_navigates by (metis prod.collapse)
  show ?thesis using handleLogin_navigates_only_admins [OF e] e
    by (auto simp: login_as_def login_init_def js_lower_def lower_char_def)
qed

theorem handleLogin_records_last_login_witness:
  "\<exists>l' s'. handleLogin 7 (login_as ''admin@fragrance.com'' ''s3cret'') demo_svc = (l', s', Some ''/admin/dashboard'') \<and>
     admin_users s' = [\<lparr>email = ''admin@fragrance.com'', username = ''admin'', last_login = Some 7\<rparr>]"
proof -
  obtain l' s' where e: "handleLogin 7 (login_as ''admin@fragrance.com'' ''s3cret'') demo_svc =
                          (l', s', Some ''/admin/dashboard'')"
    using admin_login_navigates by (metis prod.collapse)
  have t: "faults demo_svc K_touch = None" by (simp add: demo_svc_def)
  show ?thesis using handleLogin_records_last_login [OF e t] e
    by (simp add: login_as_def login_init_def demo_svc_def)
qed

theorem handleLogin_bad_credentials_witness:
  "\<exists>l' s' nav. handleLogin 7 (login_as ''admin@fragrance.com'' ''wrong'') demo_svc = (l', s', nav) \<and>
     nav = None \<and> login_error l' = ''Invalid login credentials''"
proof -
  obtain l' s' nav where e: "handleLogin 7 (login_as ''admin@fragrance.com'' ''wrong'') demo_svc = (l', s', nav)"
    by (metis prod_cases3)
  have h: "\<not> credentials_ok demo_svc (login_email (login_as ''admin@fragrance.com'' ''wrong''))
              (login_password (login_as ''admin@fragrance.com'' ''wrong''))"
    by (simp add: credentials_ok_def login_as_def login_init_def demo_svc_def js_lower_def lower_char_def)
  show ?thesis using handleLogin_bad_credentials [OF e h] e by (auto simp: demo_svc_def)
qed

theorem handleLogin_signout_failure_keeps_session_witness:
  "\<exists>l' s' nav. handleLogin 7 (login_as ''guest@fragrance.com'' ''guest'')
        (demo_svc\<lparr>faults := (\<lambda>k. if k = K_sign_out then Some Other_obj else None)\<rparr>) = (l', s', nav) \<and>
     session s' = Some ''guest@fragrance.com''"
proof -
  let ?s = "demo_svc\<lparr>faults := (\<lambda>k. if k = K_sign_out then Some Other_obj else None)\<rparr>"
  let ?l = "login_as ''guest@fragrance.com'' ''guest''"
  obtain l' s' nav where e: "handleLogin 7 ?l ?s = (l', s', nav)" by (metis prod_cases3)
  have h: "credentials_ok ?s (login_email ?l) (login_password ?l)"
    "\<not> (faults ?s K_admin = None \<and> unique_admin ?s (login_email ?l))" "faults ?s K_sign_out \<noteq> None"
    by (simp_all add: credentials_ok_def unique_admin_def login_as_def login_init_def demo_svc_def
        js_lower_def lower_char_def)
  show ?thesis using handleLogin_signout_failure_keeps_session [OF e h] e
    by (auto simp: login_as_def login_init_def js_lower_def lower_char_def)
qed

theorem checkAdmin_fail_closed_witness:
  "\<exists>d' s' nav. checkAdmin dash_init (demo_svc\<lparr>session := Some ''admin@fragrance.com''\<rparr>) = (d', s', nav) \<and>
     nav = None"
proof -
  let ?s = "demo_svc\<lparr>session := Some ''admin@fragrance.com''\<rparr>"
  obtain d' s' nav where e: "checkAdmin dash_init ?s = (d', s', nav)" by (metis prod_cases3)
  have "faults ?s K_get_user = None \<and> faults ?s K_admin = None \<and>
        (\<exists>e. session ?s = Some e \<and> unique_admin ?s e)"
    by (simp add: unique_admin_def demo_svc_def)
  then show ?thesis using checkAdmin_fail_closed [OF e] e by blast
qed

theorem handleLogin_typed_email_case_witness:
  "\<exists>l' s' nav. handleLogin 7 (login_as ''Admin@fragrance.com'' ''s3cret'') demo_svc = (l', s', nav) \<and>
     login_error l' = ''Unauthorized access'' \<and> nav = None \<and> session s' = None"
proof -
  let ?l = "login_as ''Admin@fragrance.com'' ''s3cret''"
  obtain l' s' nav where e: "handleLogin 7 ?l demo_svc = (l', s', nav)" by (metis prod_cases3)
  have h: "credentials_ok demo_svc (login_email ?l) (login_password ?l)"
    "unique_admin demo_svc (js_lower (login_email ?l))" "js_lower (login_email ?l) \<noteq> login_email ?l"
    "list_all (\<lambda>a. js_lower (email a) = email a) (admin_users demo_svc)" "faults demo_svc K_sign_out = None"
    by code_simp+
  show ?thesis using handleLogin_typed_email_case [OF e h] e by blast
qed

end
