(* ===== verification/Shop.thy ===== *)
theory Shop
  imports Backend
begin

text \<open>
  The public catalog page, \<open>src/src/pages/Shop.tsx\<close>: the read path (one query,
  newest first), the client-side filter of the displayed subset (category equality or
  "All", and a case-insensitive substring search in name or description), and what
  the page renders in each state. The filter is recomputed on every render from the
  fetched list, which it never changes.
\<close>

definition CATEGORIES :: "string list" where
  "CATEGORIES = [''All'', ''Floral'', ''Oriental'', ''Fresh'', ''Woody'']"

record shop =
  selectedCategory :: string
  searchQuery :: string
  showFilters :: bool
  shop_perfumes :: "perfume list"
  shop_loading :: bool
  shop_error :: "string option"

definition shop_init :: shop where
  "shop_init = \<lparr>selectedCategory = ''All'', searchQuery = [], showFilters = False,
     shop_perfumes = [], shop_loading = True, shop_error = None\<rparr>"

text \<open>\<open>fetchPerfumes\<close> (lines 20--35): a failure keeps the empty list and sets the
  message; \<open>finally\<close> ends loading.\<close>

definition shop_fetch :: "shop \<Rightarrow> svc \<Rightarrow> shop \<times> svc" where
  "shop_fetch sh s =
     (case select_perfumes s of
        (Inl _, s1) \<Rightarrow> (sh\<lparr>shop_error := Some ''Failed to load perfumes. Please try again later.'',
                         shop_loading := False\<rparr>, s1)
      | (Inr rows, s1) \<Rightarrow> (sh\<lparr>shop_perfumes := rows, shop_loading := False\<rparr>, s1))"

text \<open>\<open>filteredPerfumes\<close> (lines 37--42).\<close>

definition matches :: "string \<Rightarrow> string \<Rightarrow> perfume \<Rightarrow> bool" where
  "matches cat q p \<longleftrightarrow>
     (cat = ''All'' \<or> category p = cat) \<and>
     (js_includes (js_lower (name p)) (js_lower q) \<or> js_includes (js_lower (description p)) (js_lower q))"

definition filteredPerfumes :: "shop \<Rightarrow> perfume list" where
  "filteredPerfumes sh = filter (matches (selectedCategory sh) (searchQuery sh)) (shop_perfumes sh)"

text \<open>The controls: the search box (line 64), the category buttons (line 78), and the
  mobile filter toggle (line 68).\<close>

definition setSearchQuery :: "string \<Rightarrow> shop \<Rightarrow> shop" where
  "setSearchQuery q sh = sh\<lparr>searchQuery := q\<rparr>"

definition setSelectedCategory :: "string \<Rightarrow> shop \<Rightarrow> shop" where
  "setSelectedCategory c sh = (if c \<in> set CATEGORIES then sh\<lparr>selectedCategory := c\<rparr> else sh)"

definition toggleFilters :: "shop \<Rightarrow> shop" where
  "toggleFilters sh = sh\<lparr>showFilters := \<not> showFilters sh\<rparr>"

text \<open>What the page shows (lines 92--148): the spinner while loading, the error
  message, the product grid when neither, and the "no results" note when the grid is
  empty.\<close>

record shop_view =
  v_spinner :: bool
  v_error :: "string option"
  v_grid :: "perfume list option"
  v_no_results :: bool

definition render_shop :: "shop \<Rightarrow> shop_view" where
  "render_shop sh =
     \<lparr>v_spinner = shop_loading sh, v_error = shop_error sh,
      v_grid = (if \<not> shop_loading sh \<and> shop_error sh = None then Some (filteredPerfumes sh) else None),
      v_no_results = (\<not> shop_loading sh \<and> shop_error sh = None \<and> filteredPerfumes sh = [])\<rparr>"

text \<open>A sample shop: the stored perfume and a second one that mentions oud only in
  its description.\<close>

definition demo_shop :: shop where
  "demo_shop = shop_init\<lparr>shop_perfumes := [new_row demo_form 0 1,
     new_row (demo_form\<lparr>name := ''Nuit'', category := ''Woody'', description := ''smoky oud''\<rparr>) 1 2],
     shop_loading := False\<rparr>"

section \<open>Properties\<close>

lemma matches_lower_query [simp]: "matches c (js_lower q) p = matches c q p"
  by (simp add: matches_def)

text \<open>The displayed subset is exactly the fetched perfumes that match, in fetch
  order (so a sub-sequence of it): applying the filter to its own result changes
  nothing, and with "All" and an empty search everything is shown.\<close>

lemma filteredPerfumes_idempotent:
  "filteredPerfumes (sh\<lparr>shop_perfumes := filteredPerfumes sh\<rparr>) = filteredPerfumes sh \<and>
   subseq (filteredPerfumes sh) (shop_perfumes sh) \<and>
   filteredPerfumes (sh\<lparr>selectedCategory := ''All'', searchQuery := []\<rparr>) = shop_perfumes sh"
proof -
  have "matches ''All'' [] p" for p by (simp add: matches_def js_lower_def)
  then show ?thesis by (simp add: filteredPerfumes_def)
qed

text \<open>Typing more narrows the result: when the old query occurs in the new one (for
  instance the new one extends it), every perfume shown for the new query was shown for
  the old one, in the same order.\<close>

theorem filteredPerfumes_refine_query:
  assumes "sublist q q'"
  shows "subseq (filteredPerfumes (setSearchQuery q' sh)) (filteredPerfumes (setSearchQuery q sh))"
proof -
  have "matches c q' p \<Longrightarrow> matches c q p" for c p
    using js_includes_lower_mono [OF assms] by (auto simp: matches_def)
  then have eq: "filter (matches c q') xs = filter (matches c q') (filter (matches c q) xs)" for c xs
    by (auto simp: filter_filter intro: filter_cong)
  have "subseq (filter (matches c q') xs) (filter (matches c q) xs)" for c xs
    by (subst eq) (rule subseq_filter_left)
  then show ?thesis by (simp add: filteredPerfumes_def setSearchQuery_def)
qed

text \<open>C25. What the shop shows after mounting: on a failed query no grid but the error
  message over an empty list; otherwise the whole table newest first, and the
  "no results" note exactly when the table is empty. The page only reads: the table is
  unchanged.\<close>

theorem shop_mount_view:
  assumes "shop_fetch shop_init s = (sh, s')"
  shows "perfumes_tbl s' = perfumes_tbl s \<and>
         render_shop sh =
           (case faults s K_select of
              Some _ \<Rightarrow> \<lparr>v_spinner = False, v_error = Some ''Failed to load perfumes. Please try again later.'',
                         v_grid = None, v_no_results = False\<rparr>
            | None \<Rightarrow> \<lparr>v_spinner = False, v_error = None, v_grid = Some (newest_first (perfumes_tbl s)),
                         v_no_results = (perfumes_tbl s = [])\<rparr>)"
proof -
  have all: "filter (matches ''All'' []) xs = xs" for xs
    by (simp add: matches_def js_lower_def)
  have "newest_first xs = [] \<longleftrightarrow> xs = []" for xs
    by (metis length_0_conv newest_first_length)
  with assms all show ?thesis
    by (auto simp: shop_fetch_def render_shop_def filteredPerfumes_def shop_init_def svc_simps Let_def
        split: option.splits)
qed


section \<open>Witnesses\<close>



theorem filteredPerfumes_refine_query_witness:
  "subseq (filteredPerfumes (setSearchQuery ''rose'' (shop_init\<lparr>shop_perfumes := [new_row demo_form 0 1]\<rparr>)))
          (filteredPerfumes (setSearchQuery ''ro'' (shop_init\<lparr>shop_perfumes := [new_row demo_form 0 1]\<rparr>)))"
proof -
  have "sublist ''ro'' ''rose''" by (simp add: sublist_code)
  then show ?thesis by (rule filteredPerfumes_refine_query)
qed

theorem shop_mount_view_witness:
  "\<exists>sh s'. shop_fetch shop_init demo_svc = (sh, s') \<and>
     v_grid (render_shop sh) = Some [new_row demo_form 0 1]"
proof -
  obtain sh s' where e: "shop_fetch shop_init demo_svc = (sh, s')" by (metis prod.exhaust)
  show ?thesis using shop_mount_view [OF e] e by (simp add: demo_svc_def newest_first_def)
qed


end
