(* ===== verification/Navigation.thy ===== *)
theory Navigation
  imports Auth_Gate Shop "HOL-Library.Multiset"
begin

text \<open>
  The router of \<open>src/src/main.tsx\<close> and the navigation effects of the pages it
  mounts. Entering a path mounts its page with fresh state and runs the page's mount
  effect, which may navigate again: \<open>/admin\<close> redirects to the sign-in page, the
  sign-in page forwards any session to the dashboard (\<open>checkSession\<close>), the
  dashboard sends a visitor who fails \<open>checkAdmin\<close> back to the sign-in page. The
  dashboard's two mount requests run concurrently (\<open>useEffect\<close>, lines 31--34);
  \<open>mount_dashboard\<close> takes one order and \<open>mount_dashboard_alt\<close> the
  other; they give the same page state. \<open>follow\<close> follows navigations with fuel: \<open>None\<close>
  means it never settles within the fuel.
\<close>

datatype page = P_Home | P_Shop | P_Redirect string | P_Login | P_Dashboard | P_NotFound

definition route_of :: "string \<Rightarrow> page" where
  "route_of p =
     (if p = ''/'' then P_Home
      else if p = ''/shop'' then P_Shop
      else if p = ''/admin'' then P_Redirect ''/admin/login''
      else if p = ''/admin/login'' then P_Login
      else if p = ''/admin/dashboard'' then P_Dashboard
      else P_NotFound)"

definition mount_dashboard :: "svc \<Rightarrow> dash \<times> svc \<times> string option" where
  "mount_dashboard s =
     (case checkAdmin dash_init s of (d1, s1, nav) \<Rightarrow>
        (case fetchPerfumes d1 s1 of (d2, s2) \<Rightarrow> (d2, s2, nav)))"

definition mount_dashboard_alt :: "svc \<Rightarrow> dash \<times> svc \<times> string option" where
  "mount_dashboard_alt s =
     (case fetchPerfumes dash_init s of (d1, s1) \<Rightarrow>
        (case checkAdmin d1 s1 of (d2, s2, nav) \<Rightarrow> (d2, s2, nav)))"

definition enter :: "string \<Rightarrow> svc \<Rightarrow> string option \<times> svc" where
  "enter p s =
     (case route_of p of
        P_Redirect t \<Rightarrow> (Some t, s)
      | P_Login \<Rightarrow> (checkSession s, s)
      | P_Dashboard \<Rightarrow> (case mount_dashboard s of (_, s1, nav) \<Rightarrow> (nav, s1))
      | P_Shop \<Rightarrow> (None, snd (shop_fetch shop_init s))
      | _ \<Rightarrow> (None, s))"

fun follow :: "nat \<Rightarrow> string \<Rightarrow> svc \<Rightarrow> (string \<times> svc) option" where
  "follow 0 p s = None"
| "follow (Suc n) p s = (case enter p s of (None, s1) \<Rightarrow> Some (p, s1) | (Some q, s1) \<Rightarrow> follow n q s1)"

text \<open>The links of the navigation bar (\<open>Layout.tsx\<close>, lines 30--34) and of the
  featured collections on the home page (\<open>Home.tsx\<close>, line 54:
  \<open>'/shop/' + name.toLowerCase().replace(/[^a-z0-9]+/g, '-')\<close>).\<close>

definition layout_links :: "string list" where
  "layout_links = [''/'', ''/shop'', ''/new-arrivals'', ''/about'', ''/contact'']"

definition slug_char :: "char \<Rightarrow> bool" where
  "slug_char c \<longleftrightarrow> (let n = (of_char c :: nat) in (97 \<le> n \<and> n \<le> 122) \<or> (48 \<le> n \<and> n \<le> 57))"

function slug_replace :: "string \<Rightarrow> string" where
  "slug_replace [] = []"
| "slug_replace (c # cs) =
     (if slug_char c then c # slug_replace cs else CHR ''-'' # slug_replace (dropWhile (\<lambda>x. \<not> slug_char x) cs))"
  by pat_completeness auto
termination
  by (relation "measure length") (auto simp: le_imp_less_Suc length_dropWhile_le)

definition featured_link :: "string \<Rightarrow> string" where
  "featured_link nm = ''/shop/'' @ slug_replace (js_lower nm)"

definition featured_names :: "string list" where
  "featured_names = [''L'' @ [CHR 0x27] @ ''Essence du Printemps'', ''Nuit Myst'' @ [CHR 0xE9] @ ''rieuse'', ''Jardin Secret'']"

section \<open>Properties\<close>

definition gate_denies :: "svc \<Rightarrow> bool" where
  "gate_denies s \<longleftrightarrow>
     \<not> (faults s K_get_user = None \<and> faults s K_admin = None \<and> (\<exists>e. session s = Some e \<and> unique_admin s e))"

lemma checkAdmin_frame:
  assumes "checkAdmin d s = (d1, s1, nav)"
  shows "session s1 = session s" "admin_users s1 = admin_users s" "faults s1 = faults s"
  using assms by (auto simp: checkAdmin_def svc_simps Let_def split: option.splits if_splits)

lemma fetchPerfumes_admin_users:
  "fetchPerfumes d s = (d1, s1) \<Longrightarrow> admin_users s1 = admin_users s"
  by (auto simp: fetchPerfumes_def svc_simps Let_def split: option.splits)

lemma mount_dashboard_frame:
  assumes "mount_dashboard s = (d, s1, nav)"
  shows "session s1 = session s" "admin_users s1 = admin_users s" "faults s1 = faults s"
    and "nav = (if gate_denies s then Some ''/admin/login'' else None)"
  using assms checkAdmin_nav [of dash_init s]
  by (auto simp: mount_dashboard_def gate_denies_def fetchPerfumes_frame checkAdmin_frame
      fetchPerfumes_admin_users split: prod.splits)

lemma gate_denies_frame:
  "session s1 = session s \<Longrightarrow> admin_users s1 = admin_users s \<Longrightarrow> faults s1 = faults s \<Longrightarrow>
   gate_denies s1 = gate_denies s"
  by (simp add: gate_denies_def unique_admin_def)

lemma enter_login: "session s \<noteq> None \<Longrightarrow> enter ''/admin/login'' s = (Some ''/admin/dashboard'', s)"
  by (auto simp: enter_def route_of_def checkSession_def get_session_def)

lemma enter_dashboard:
  assumes "enter ''/admin/dashboard'' s = (nav, s1)"
  shows "nav = (if gate_denies s then Some ''/admin/login'' else None)"
    and "session s1 = session s" "gate_denies s1 = gate_denies s"
proof -
  obtain d where m: "mount_dashboard s = (d, s1, nav)"
    using assms by (auto simp: enter_def route_of_def split: prod.splits)
  note f = mount_dashboard_frame [OF m]
  show "nav = (if gate_denies s then Some ''/admin/login'' else None)" "session s1 = session s"
    using f by simp_all
  show "gate_denies s1 = gate_denies s" using f(1-3) by (rule gate_denies_frame)
qed

text \<open>C26. An identity that is signed in but fails the dashboard's check (no unique
  \<open>admin_users\<close> row, or a failing request) is bounced between the two admin pages
  for ever: from the sign-in page, following the navigations never settles, whatever
  the fuel. The dashboard redirects without ending the session and the sign-in page
  forwards every session.\<close>

theorem admin_redirect_loop:
  assumes "session s \<noteq> None" "gate_denies s"
  shows "follow n ''/admin/login'' s = None"
proof -
  have "follow n ''/admin/login'' s = None \<and> follow n ''/admin/dashboard'' s = None"
    using assms
  proof (induction n arbitrary: s)
    case (Suc n)
    obtain nav s1 where e: "enter ''/admin/dashboard'' s = (nav, s1)" by (metis prod.exhaust)
    note f = enter_dashboard [OF e]
    have "follow n ''/admin/login'' s1 = None" "follow n ''/admin/dashboard'' s = None"
      using Suc.IH [of s1] Suc.IH [of s] Suc.prems f by auto
    then show ?case using Suc.prems f e enter_login [OF Suc.prems(1)] by simp
  qed simp
  then show ?thesis ..
qed

text \<open>C27. The gate's navigation settles within two steps when it should: an
  administrator with a session who opens the sign-in page is forwarded once and stays
  on the dashboard; a visitor without a session who opens the dashboard is sent to the
  sign-in page, which then stays.\<close>

theorem gate_navigation_settles:
  "(session s \<noteq> None \<and> \<not> gate_denies s \<longrightarrow>
      (\<exists>s'. follow 2 ''/admin/login'' s = Some (''/admin/dashboard'', s'))) \<and>
   (session s = None \<longrightarrow> (\<exists>s'. follow 2 ''/admin/dashboard'' s = Some (''/admin/login'', s')))"
proof (intro conjI impI)
  assume a: "session s \<noteq> None \<and> \<not> gate_denies s"
  obtain nav s1 where e: "enter ''/admin/dashboard'' s = (nav, s1)" by (metis prod.exhaust)
  then have "nav = None" using enter_dashboard(1) [OF e] a by simp
  then show "\<exists>s'. follow 2 ''/admin/login'' s = Some (''/admin/dashboard'', s')"
    using e enter_login a by (simp add: numeral_2_eq_2)
next
  assume a: "session s = None"
  obtain nav s1 where e: "enter ''/admin/dashboard'' s = (nav, s1)" by (metis prod.exhaust)
  have "gate_denies s" using a by (simp add: gate_denies_def)
  then have "nav = Some ''/admin/login''" using enter_dashboard(1) [OF e] by simp
  moreover have "session s1 = None" using enter_dashboard(2) [OF e] a by simp
  ultimately show "\<exists>s'. follow 2 ''/admin/dashboard'' s = Some (''/admin/login'', s')" using e
    by (simp add: numeral_2_eq_2 enter_def route_of_def checkSession_def get_session_def)
qed

text \<open>The featured collections of the home page link to no page: every
  \<open>/shop/<slug>\<close> address falls outside the router, as do three of the five links of
  the navigation bar.\<close>

theorem featured_links_not_routed:
  "route_of (featured_link nm) = P_NotFound \<and>
   filter (\<lambda>p. route_of p = P_NotFound) layout_links = [''/new-arrivals'', ''/about'', ''/contact'']"
  by (simp add: featured_link_def route_of_def layout_links_def)

lemma featured_slugs:
  "map featured_link featured_names =
     [''/shop/l-essence-du-printemps'', ''/shop/nuit-myst-rieuse'', ''/shop/jardin-secret'']"
  by code_simp

section \<open>Witnesses\<close>

theorem admin_redirect_loop_witness:
  "follow 10 ''/admin/login'' (demo_svc\<lparr>session := Some ''guest@fragrance.com''\<rparr>) = None"
proof -
  have "session (demo_svc\<lparr>session := Some ''guest@fragrance.com''\<rparr>) \<noteq> None"
       "gate_denies (demo_svc\<lparr>session := Some ''guest@fragrance.com''\<rparr>)"
    by (simp_all add: gate_denies_def unique_admin_def demo_svc_def)
  then show ?thesis by (rule admin_redirect_loop)
qed

theorem gate_navigation_settles_witness:
  "session (demo_svc\<lparr>session := Some ''admin@fragrance.com''\<rparr>) \<noteq> None \<and>
   \<not> gate_denies (demo_svc\<lparr>session := Some ''admin@fragrance.com''\<rparr>) \<and>
   (\<exists>s'. follow 2 ''/admin/login'' (demo_svc\<lparr>session := Some ''admin@fragrance.com''\<rparr>) =
          Some (''/admin/dashboard'', s')) \<and>
   session demo_svc = None \<and> (\<exists>s'. follow 2 ''/admin/dashboard'' demo_svc = Some (''/admin/login'', s'))"
proof -
  have h: "session (demo_svc\<lparr>session := Some ''admin@fragrance.com''\<rparr>) \<noteq> None"
       "\<not> gate_denies (demo_svc\<lparr>session := Some ''admin@fragrance.com''\<rparr>)"
       "session demo_svc = None"
    by (simp_all add: gate_denies_def unique_admin_def demo_svc_def)
  then show ?thesis
    using gate_navigation_settles [of "demo_svc\<lparr>session := Some ''admin@fragrance.com''\<rparr>"]
      gate_navigation_settles [of demo_svc] by blast
qed

end
