(* ===== verification/Dashboard_UI.thy ===== *)
theory Dashboard_UI
  imports Navigation
begin

text \<open>
  The admin console as an interactive page (\<open>AdminDashboard.tsx\<close>, lines 220--495).
  What the page renders (\<open>render_dash\<close>) decides which events a user can raise: nothing
  while \<open>loading\<close>; the header's logout, the "Add New Perfume" button and the edit and
  delete buttons of each displayed row; and, while the dialog is open, its inputs, its
  close and cancel buttons and the submit button, which is disabled while
  \<open>isSaving\<close> and guarded by the browser's constraint validation of the inputs'
  \<open>required\<close>, \<open>min\<close> and \<open>step\<close> attributes. The dialog is an overlay but does not
  make the page behind it inert, so the row buttons stay reachable by keyboard; the model
  allows them at any time. \<open>dash_reach\<close> is the set of page states reachable after the
  mount effect let the visitor stay, one complete handler per event; \<open>run_events\<close>
  is the same relation as an executable interpreter of event sequences.
\<close>

section \<open>The remaining inputs of the form\<close>

text \<open>The \<open>onChange\<close> handlers of lines 400, 412, 431 and 445. The price input's value
  reaches the handler as \<open>Number(e.target.value)\<close>; a number input reports a
  non-numeric entry as the empty string, which \<open>Number\<close> reads as \<open>0\<close>, so the
  handler always receives a number, taken here as the rational it denotes.\<close>

definition onNameChange :: "string \<Rightarrow> dash \<Rightarrow> dash" where
  "onNameChange v d = d\<lparr>formData := (formData d)\<lparr>name := v\<rparr>\<rparr>"

definition onCategoryChange :: "string \<Rightarrow> dash \<Rightarrow> dash" where
  "onCategoryChange v d = d\<lparr>formData := (formData d)\<lparr>category := v\<rparr>\<rparr>"

definition onPriceChange :: "rat \<Rightarrow> dash \<Rightarrow> dash" where
  "onPriceChange v d = d\<lparr>formData := (formData d)\<lparr>price := v\<rparr>\<rparr>"

definition onDescriptionChange :: "string \<Rightarrow> dash \<Rightarrow> dash" where
  "onDescriptionChange v d = d\<lparr>formData := (formData d)\<lparr>description := v\<rparr>\<rparr>"

text \<open>The options of the category \<open>select\<close> (lines 416--420).\<close>

definition category_options :: "string list" where
  "category_options = [[], ''Floral'', ''Oriental'', ''Fresh'', ''Woody'']"

text \<open>Constraint validation of the form (lines 402, 414, 433--435): the name and
  the category are \<open>required\<close>, the price is \<open>min="0"\<close> with \<open>step="0.01"\<close>, so a
  whole number of cents. The browser fires no submit event while a constraint fails.\<close>

definition cents :: "rat \<Rightarrow> bool" where
  "cents r \<longleftrightarrow> snd (quotient_of (100 * r)) = 1"

definition form_constraints_ok :: "perfume_form \<Rightarrow> bool" where
  "form_constraints_ok fd \<longleftrightarrow> name fd \<noteq> [] \<and> category fd \<noteq> [] \<and> 0 \<le> price fd \<and> cents (price fd)"

section \<open>What the page renders\<close>

datatype last_login_text = First_login | Login_at timestamp

record modal_view =
  mv_title :: string
  mv_error :: "string option"
  mv_preview :: "string option"
  mv_progress :: "js_pct option"
  mv_name :: string
  mv_category :: string
  mv_price :: rat
  mv_description :: string
  mv_notes :: string
  mv_submit_label :: string
  mv_submit_disabled :: bool

record console_view =
  cv_welcome :: string
  cv_last_login :: last_login_text
  cv_rows :: "(uuid \<times> string \<times> string \<times> string \<times> rat) list"
  cv_modal :: "modal_view option"

datatype dash_screen = Loading_screen | Console console_view

text \<open>The dialog (lines 318--492): its title, the error banner shown for a non-empty
  \<open>formError\<close>, the preview for a non-empty \<open>previewUrl\<close> (otherwise the upload
  placeholder), the progress bar while \<open>uploadProgress\<close> is not \<open>null\<close>, the inputs'
  values, and the submit button.\<close>

definition render_modal :: "dash \<Rightarrow> modal_view" where
  "render_modal d =
     \<lparr>mv_title = (if editingPerfume d \<noteq> None then ''Edit Perfume'' else ''Add New Perfume''),
      mv_error = (if formError d = [] then None else Some (formError d)),
      mv_preview = (case previewUrl d of Some u \<Rightarrow> if u = [] then None else Some u | None \<Rightarrow> None),
      mv_progress = uploadProgress d,
      mv_name = name (formData d), mv_category = category (formData d),
      mv_price = price (formData d), mv_description = description (formData d),
      mv_notes = notes_input_value d,
      mv_submit_label =
        (if isSaving d then ''Saving...''
         else (if editingPerfume d \<noteq> None then ''Update'' else ''Create'') @ '' Perfume''),
      mv_submit_disabled = isSaving d\<rparr>"

text \<open>The page (lines 220--315): the loading screen, or the header with the
  administrator's name and last login (\<open>'First login'\<close> when there is none), the
  table of the displayed perfumes (image, name, category, price) and the dialog.\<close>

definition render_dash :: "dash \<Rightarrow> dash_screen" where
  "render_dash d =
     (if loading d then Loading_screen
      else Console
        \<lparr>cv_welcome = (case adminData d of Some (u, _) \<Rightarrow> u | None \<Rightarrow> []),
         cv_last_login = (case adminData d of Some (_, Some t) \<Rightarrow> Login_at t | _ \<Rightarrow> First_login),
         cv_rows = map (\<lambda>p. (perfume_id p, image_url p, name p, category p, price p)) (perfumes d),
         cv_modal = (if isModalOpen d then Some (render_modal d) else None)\<rparr>)"

section \<open>Events\<close>

text \<open>The events the rendered page offers. \<open>Ev_delete i c\<close> carries the answer
  \<open>c\<close> to \<open>window.confirm\<close>; \<open>Ev_image f u\<close> the picked file, if any, and the object
  URL the browser creates for it; \<open>Ev_submit ue\<close> what the environment decides
  during the upload.\<close>

datatype dash_event =
    Ev_logout
  | Ev_add
  | Ev_edit perfume
  | Ev_delete uuid bool
  | Ev_close
  | Ev_image "js_file option" string
  | Ev_name string
  | Ev_category string
  | Ev_price rat
  | Ev_description string
  | Ev_notes string
  | Ev_submit upload_env

text \<open>Which controls are on the page (and enabled) in a state. A fresh object URL is
  a \<open>blob:\<close> URL not already registered.\<close>

fun ev_enabled :: "dash \<Rightarrow> dash_event \<Rightarrow> bool" where
  "ev_enabled d Ev_logout = (\<not> loading d)"
| "ev_enabled d Ev_add = (\<not> loading d)"
| "ev_enabled d (Ev_edit p) = (\<not> loading d \<and> p \<in> set (perfumes d))"
| "ev_enabled d (Ev_delete i c) = (\<not> loading d \<and> i \<in> perfume_id ` set (perfumes d))"
| "ev_enabled d Ev_close = (\<not> loading d \<and> isModalOpen d)"
| "ev_enabled d (Ev_image f u) =
     (\<not> loading d \<and> isModalOpen d \<and> starts_with u ''blob:'' \<and> u \<notin> set (object_urls d))"
| "ev_enabled d (Ev_name v) = (\<not> loading d \<and> isModalOpen d)"
| "ev_enabled d (Ev_category v) = (\<not> loading d \<and> isModalOpen d \<and> v \<in> set category_options)"
| "ev_enabled d (Ev_price v) = (\<not> loading d \<and> isModalOpen d)"
| "ev_enabled d (Ev_description v) = (\<not> loading d \<and> isModalOpen d)"
| "ev_enabled d (Ev_notes v) = (\<not> loading d \<and> isModalOpen d)"
| "ev_enabled d (Ev_submit ue) =
     (\<not> loading d \<and> isModalOpen d \<and> \<not> isSaving d \<and> form_constraints_ok (formData d))"

text \<open>The handler each event runs (the JSX's \<open>onClick\<close>, \<open>onChange\<close> and
  \<open>onSubmit\<close> bindings), with the route it navigates to.\<close>

fun dash_event_step :: "dash_event \<Rightarrow> dash \<Rightarrow> svc \<Rightarrow> dash \<times> svc \<times> string option" where
  "dash_event_step Ev_logout d s = handleLogout d s"
| "dash_event_step Ev_add d s = (openModal None d, s, None)"
| "dash_event_step (Ev_edit p) d s = (openModal (Some p) d, s, None)"
| "dash_event_step (Ev_delete i c) d s = (case handleDelete i c d s of (d', s') \<Rightarrow> (d', s', None))"
| "dash_event_step Ev_close d s = (closeModal d, s, None)"
| "dash_event_step (Ev_image f u) d s = (handleImageChange f u d, s, None)"
| "dash_event_step (Ev_name v) d s = (onNameChange v d, s, None)"
| "dash_event_step (Ev_category v) d s = (onCategoryChange v d, s, None)"
| "dash_event_step (Ev_price v) d s = (onPriceChange v d, s, None)"
| "dash_event_step (Ev_description v) d s = (onDescriptionChange v d, s, None)"
| "dash_event_step (Ev_notes v) d s = (onNotesChange v d, s, None)"
| "dash_event_step (Ev_submit ue) d s = (case handleSubmit ue d s of (d', s', _) \<Rightarrow> (d', s', None))"

text \<open>The states of the page reachable from the service state \<open>s0\<close> at mount, while
  the page stays mounted (an event that navigates ends the run).\<close>

inductive dash_reach :: "svc \<Rightarrow> dash \<Rightarrow> svc \<Rightarrow> bool" for s0 :: svc where
  mounted: "mount_dashboard s0 = (d, s, None) \<Longrightarrow> dash_reach s0 d s"
| event: "dash_reach s0 d s \<Longrightarrow> ev_enabled d ev \<Longrightarrow> dash_event_step ev d s = (d', s', None) \<Longrightarrow>
          dash_reach s0 d' s'"

fun run_events :: "dash_event list \<Rightarrow> dash \<Rightarrow> svc \<Rightarrow> (dash \<times> svc) option" where
  "run_events [] d s = Some (d, s)"
| "run_events (ev # evs) d s =
     (if ev_enabled d ev
      then (case dash_event_step ev d s of (d', s', nav) \<Rightarrow> if nav = None then run_events evs d' s' else None)
      else None)"

section \<open>Invariants\<close>

text \<open>Between events the page is interactive and idle: not loading, not saving, no
  upload in progress, the gate's administrator data present; and a closed dialog leaves
  a pristine form behind.\<close>

definition ui_inv :: "dash \<Rightarrow> bool" where
  "ui_inv d \<longleftrightarrow> \<not> loading d \<and> \<not> isSaving d \<and> uploadProgress d = None \<and> adminData d \<noteq> None \<and>
     (isModalOpen d \<or>
      editingPerfume d = None \<and> formData d = initialFormData \<and> selectedImage d = None \<and>
      previewUrl d = None)"

text \<open>A well-formed catalog entry: what the form's constraints and the handler's checks
  together let through.\<close>

definition row_ok :: "'a perfume_form_scheme \<Rightarrow> bool" where
  "row_ok p \<longleftrightarrow> name p \<noteq> [] \<and> category p \<in> set category_options \<and> category p \<noteq> [] \<and>
     0 < price p \<and> cents (price p) \<and> image_url p \<noteq> [] \<and> (\<forall>n \<in> set (notes_list p). js_trim n \<noteq> [])"

definition catalog_ok :: "svc \<Rightarrow> bool" where
  "catalog_ok s \<longleftrightarrow> (\<forall>p \<in> set (perfumes_tbl s). row_ok p)"

definition view_ok :: "dash \<Rightarrow> bool" where
  "view_ok d \<longleftrightarrow> (\<forall>p \<in> set (perfumes d). row_ok p) \<and> category (formData d) \<in> set category_options"

text \<open>The requests a submission may issue, in the order of its \<open>try\<close> block: the
  upload of the selected file, the write (update of the edited perfume, or insert), and
  the refresh of the list.\<close>

definition upload_reqs :: "upload_env \<Rightarrow> dash \<Rightarrow> request list" where
  "upload_reqs ue d = (case selectedImage d of Some f \<Rightarrow> [Storage_upload (upload_path ue f)] | None \<Rightarrow> [])"

definition write_req :: "dash \<Rightarrow> request" where
  "write_req d = (case editingPerfume d of Some p \<Rightarrow> Q_update_perfume (perfume_id p) | None \<Rightarrow> Q_insert_perfume)"

text \<open>When each stage of a submission succeeds: the image stage yields a URL when
  the form passes the check of line 163 and either the selected file uploads (no
  storage fault, path not yet taken) or, with no file, the form already has an image;
  the write succeeds when its request kind does not fail.\<close>

definition image_ok :: "upload_env \<Rightarrow> dash \<Rightarrow> svc \<Rightarrow> bool" where
  "image_ok ue d s \<longleftrightarrow>
     \<not> form_invalid (formData d) \<and>
     (case selectedImage d of
        Some f \<Rightarrow> faults s K_upload = None \<and> upload_path ue f \<notin> set (bucket s)
      | None \<Rightarrow> image_url (formData d) \<noteq> [])"

text \<open>The requests a submission must issue: none for a rejected form; the upload of
  the selected file; then, only when the image stage succeeded, the write; then, only
  when the write succeeded, the list query.\<close>

definition submit_reqs :: "upload_env \<Rightarrow> dash \<Rightarrow> svc \<Rightarrow> request list" where
  "submit_reqs ue d s =
     (if form_invalid (formData d) then [] else upload_reqs ue d) @
     (if image_ok ue d s
      then write_req d # (if faults s (kind_of (write_req d)) = None then [Q_select_perfumes] else [])
      else [])"

text \<open>A sample service at mount: the sample catalog with the administrator signed in.\<close>

definition demo_admin_svc :: svc where
  "demo_admin_svc = demo_svc\<lparr>session := Some ''admin@fragrance.com''\<rparr>"

section \<open>Lemmas\<close>

lemmas ui_input_defs [handler_simps] =
  onNameChange_def onCategoryChange_def onPriceChange_def onDescriptionChange_def

lemma row_ok_form_of [simp]: "row_ok (form_of p) = row_ok p"
  by (simp add: row_ok_def form_of_def)

lemma run_events_reach:
  "run_events evs d s = Some (d', s') \<Longrightarrow> dash_reach s0 d s \<Longrightarrow> dash_reach s0 d' s'"
  by (induction evs arbitrary: d s) (auto intro: dash_reach.event split: if_splits prod.splits)

lemma run_events_snoc:
  "run_events (evs @ [ev]) d s =
     (case run_events evs d s of None \<Rightarrow> None | Some (d1, s1) \<Rightarrow> run_events [ev] d1 s1)"
  by (induction evs arbitrary: d s) (auto split: prod.splits option.splits)

lemma mount_dashboard_ui:
  assumes "mount_dashboard s = (d, s1, None)"
  shows "ui_inv d" "\<not> isModalOpen d" "formData d = initialFormData" "object_urls d = []"
    and "perfumes_tbl s1 = perfumes_tbl s" "perfumes d = [] \<or> perfumes d = newest_first (perfumes_tbl s)"
  using assms
  by (auto simp: mount_dashboard_def checkAdmin_def fetchPerfumes_def dash_init_def ui_inv_def
      svc_simps Let_def split: option.splits if_splits sum.splits prod.splits)

lemma mount_dashboard_inv: "mount_dashboard s = (d, s1, nav) \<Longrightarrow> svc_inv s \<Longrightarrow> svc_inv s1"
  by (erule svc_inv_frame)
    (auto simp: mount_dashboard_def checkAdmin_def fetchPerfumes_def svc_simps Let_def
      split: option.splits if_splits sum.splits prod.splits)

lemma resolveImage_ok:
  "resolveImage ue d s = (Inr url, d1, s1, tr) \<Longrightarrow> \<not> form_invalid (formData d) \<and> url \<noteq> []"
  by (auto simp: resolveImage_def uploadImage_def public_url_def Let_def
      split: if_splits option.splits sum.splits prod.splits)

lemma perfumeData_row_ok:
  "form_constraints_ok fd \<Longrightarrow> \<not> form_invalid fd \<Longrightarrow> category fd \<in> set category_options \<Longrightarrow>
   url \<noteq> [] \<Longrightarrow> row_ok (perfumeData url fd)"
  by (auto simp: row_ok_def form_constraints_ok_def form_invalid_def perfumeData_def clean_notes_def)

lemma svc_inv_requests:
  "insert_perfume f s = (r, s') \<Longrightarrow> svc_inv s \<Longrightarrow> svc_inv s'"
  "update_perfume f i s = (r, s') \<Longrightarrow> svc_inv s \<Longrightarrow> svc_inv s'"
  "delete_perfume i s = (r, s') \<Longrightarrow> svc_inv s \<Longrightarrow> svc_inv s'"
  "select_perfumes s = (q, s') \<Longrightarrow> svc_inv s \<Longrightarrow> svc_inv s'"
  by (metis snd_conv svc_inv_preserved)+

lemma persist_inv: "persist url d s = (r, d2, s2) \<Longrightarrow> svc_inv s \<Longrightarrow> svc_inv s2"
  by (auto simp: persist_def write_row_def fetchPerfumes_def intro: svc_inv_requests
      split: option.splits sum.splits prod.splits)

lemma persist_rows:
  assumes "persist url d s = (r, d2, s2)" "p \<in> set (perfumes_tbl s2)"
  shows "p \<in> set (perfumes_tbl s) \<or> form_of p = perfumeData url (formData d)"
  using assms
  by (auto simp: persist_def write_row_def fetchPerfumes_def svc_simps Let_def
      split: option.splits sum.splits prod.splits if_splits)

lemma persist_shape:
  assumes "persist url d s = (Inr u, d2, s2)"
  obtains ps where "d2 = closeModal (d\<lparr>perfumes := ps\<rparr>)" "ps = perfumes d \<or> ps = newest_first (perfumes_tbl s2)"
proof -
  obtain s1 where w: "write_row (editingPerfume d) (perfumeData url (formData d)) s = (Inr (), s1)"
    and f: "fetchPerfumes d s1 = (fst (fetchPerfumes d s1), s2)"
    and d2: "d2 = closeModal (fst (fetchPerfumes d s1))"
    using assms by (auto simp: persist_def split: sum.splits prod.splits)
  have "fst (fetchPerfumes d s1) = d\<lparr>perfumes := perfumes d\<rparr> \<or>
        fst (fetchPerfumes d s1) = d\<lparr>perfumes := newest_first (perfumes_tbl s2)\<rparr>"
    using fetchPerfumes_frame(1,2) [OF f] by simp
  then consider (kept) "fst (fetchPerfumes d s1) = d\<lparr>perfumes := perfumes d\<rparr>"
    | (fetched) "fst (fetchPerfumes d s1) = d\<lparr>perfumes := newest_first (perfumes_tbl s2)\<rparr>"
    by blast
  then show ?thesis
  proof cases
    case kept
    show ?thesis by (rule that [of "perfumes d"]) (simp_all add: d2 kept)
  next
    case fetched
    show ?thesis by (rule that [of "newest_first (perfumes_tbl s2)"]) (simp_all add: d2 fetched)
  qed
qed

lemma handleSubmit_shape:
  assumes "handleSubmit ue d s = (d', s', tr)"
  shows "loading d' = loading d \<and> adminData d' = adminData d \<and> \<not> isSaving d' \<and>
         (uploadProgress d' = uploadProgress d \<or> uploadProgress d' = None) \<and>
         (isModalOpen d' = isModalOpen d \<and> formData d' = formData d \<and> perfumes d' = perfumes d \<and>
          editingPerfume d' = editingPerfume d \<and> selectedImage d' = selectedImage d \<and>
          previewUrl d' = previewUrl d \<or>
          \<not> isModalOpen d' \<and> editingPerfume d' = None \<and> formData d' = initialFormData \<and>
          selectedImage d' = None \<and> previewUrl d' = None \<and>
          (perfumes d' = perfumes d \<or> perfumes d' = newest_first (perfumes_tbl s')))"
  using assms
proof (cases rule: handleSubmit_cases)
  case (rejected e d1)
  then show ?thesis using resolveImage_frame(1) [OF rejected(1)] by (auto simp: submit_fail_def)
next
  case (write_failed url d1 s1 e d2)
  then show ?thesis using resolveImage_frame(1) [OF write_failed(1)] persist_fail(1) [OF write_failed(2)]
    by (auto simp: submit_fail_def)
next
  case (written url d1 s1 u d2)
  obtain ps where "d2 = closeModal (d1\<lparr>perfumes := ps\<rparr>)" "ps = perfumes d1 \<or> ps = newest_first (perfumes_tbl s')"
    using persist_shape [OF written(2)] by blast
  then show ?thesis using resolveImage_frame(1) [OF written(1)] written(3) by (auto simp: closeModal_def)
qed

lemma handleSubmit_inv: "handleSubmit ue d s = (d', s', tr) \<Longrightarrow> svc_inv s \<Longrightarrow> svc_inv s'"
  by (erule handleSubmit_cases) (auto intro: persist_inv resolveImage_inv)

lemma handleSubmit_rows:
  assumes "handleSubmit ue d s = (d', s', tr)" "p \<in> set (perfumes_tbl s')"
  shows "p \<in> set (perfumes_tbl s) \<or>
         (\<exists>url. form_of p = perfumeData url (formData d) \<and> url \<noteq> [] \<and> \<not> form_invalid (formData d))"
  using assms(1)
proof (cases rule: handleSubmit_cases)
  case (rejected e d1)
  then show ?thesis using resolveImage_frame(2) [OF rejected(1)] assms(2) by simp
next
  case (write_failed url d1 s1 e d2)
  then show ?thesis using resolveImage_frame(2) [OF write_failed(1)] persist_fail(2) [OF write_failed(2)] assms(2)
    by simp
next
  case (written url d1 s1 u d2)
  have "formData d1 = formData d" using resolveImage_frame(1) [OF written(1)] by auto
  then show ?thesis
    using persist_rows [OF written(2) assms(2)] resolveImage_frame(2) [OF written(1)] resolveImage_ok [OF written(1)]
    by auto
qed

lemma handleDelete_shape:
  assumes "handleDelete i c d s = (d', s')"
  shows "d' = d \<or> d' = d\<lparr>perfumes := newest_first (perfumes_tbl s')\<rparr>"
    and "set (perfumes_tbl s') \<subseteq> set (perfumes_tbl s)"
  using assms
  by (auto simp: handleDelete_def fetchPerfumes_def svc_simps Let_def
      split: if_splits sum.splits prod.splits option.splits)

lemma handleDelete_inv: "handleDelete i c d s = (d', s') \<Longrightarrow> svc_inv s \<Longrightarrow> svc_inv s'"
  by (auto simp: handleDelete_def fetchPerfumes_def intro: svc_inv_requests
      split: if_splits sum.splits prod.splits)

lemma ui_step_ui:
  assumes "ui_inv d" "ev_enabled d ev" "dash_event_step ev d s = (d', s', None)"
  shows "ui_inv d'"
  using assms
proof (cases ev)
  case (Ev_delete i c)
  then have "handleDelete i c d s = (d', s')" using assms(3) by (auto split: prod.splits)
  then show ?thesis using handleDelete_shape(1) assms(1) by (fastforce simp: ui_inv_def)
next
  case (Ev_submit ue)
  then obtain tr where "handleSubmit ue d s = (d', s', tr)" using assms(3) by (auto split: prod.splits)
  then show ?thesis using handleSubmit_shape assms(1,2) Ev_submit by (fastforce simp: ui_inv_def)
qed (auto simp: ui_inv_def handler_simps split: option.splits)

lemma ui_step_svc:
  assumes "svc_inv s" "dash_event_step ev d s = (d', s', None)"
  shows "svc_inv s'"
  using assms
  by (cases ev) (auto simp: handleLogout_def intro: handleSubmit_inv handleDelete_inv split: prod.splits)

lemma initial_category_ok [simp]: "category initialFormData \<in> set category_options"
  by (simp add: initialFormData_def category_options_def)

lemma handleSubmit_catalog_ok:
  assumes "handleSubmit ue d s = (d', s', tr)" "catalog_ok s" "view_ok d" "form_constraints_ok (formData d)"
  shows "catalog_ok s'"
  unfolding catalog_ok_def
proof
  fix p assume p: "p \<in> set (perfumes_tbl s')"
  from handleSubmit_rows [OF assms(1) p] show "row_ok p"
  proof
    assume "p \<in> set (perfumes_tbl s)"
    with assms(2) show ?thesis by (simp add: catalog_ok_def)
  next
    assume "\<exists>url. form_of p = perfumeData url (formData d) \<and> url \<noteq> [] \<and> \<not> form_invalid (formData d)"
    then obtain url where "form_of p = perfumeData url (formData d)" "url \<noteq> []" "\<not> form_invalid (formData d)"
      by blast
    moreover have "category (formData d) \<in> set category_options" using assms(3) by (simp add: view_ok_def)
    ultimately have "row_ok (form_of p)" using perfumeData_row_ok assms(4) by metis
    then show ?thesis by simp
  qed
qed

lemma ui_step_catalog:
  assumes "catalog_ok s" "view_ok d" "ev_enabled d ev" "dash_event_step ev d s = (d', s', None)"
  shows "catalog_ok s' \<and> view_ok d'"
  using assms
proof (cases ev)
  case (Ev_edit p)
  then show ?thesis using assms by (auto simp: view_ok_def row_ok_def openModal_def form_of_def)
next
  case (Ev_delete i c)
  then have h: "handleDelete i c d s = (d', s')" using assms(4) by (auto split: prod.splits)
  have "catalog_ok s'" using handleDelete_shape(2) [OF h] assms(1) by (auto simp: catalog_ok_def)
  then show ?thesis using handleDelete_shape(1) [OF h] assms(2) by (auto simp: catalog_ok_def view_ok_def)
next
  case (Ev_submit ue)
  then obtain tr where h: "handleSubmit ue d s = (d', s', tr)" using assms(4) by (auto split: prod.splits)
  have "catalog_ok s'" using handleSubmit_catalog_ok [OF h assms(1,2)] assms(3) Ev_submit by simp
  then show ?thesis using handleSubmit_shape [OF h] assms(2) by (auto simp: catalog_ok_def view_ok_def)
qed (auto simp: view_ok_def handler_simps split: option.splits)

lemma reach_ui_inv: "dash_reach s0 d s \<Longrightarrow> ui_inv d"
  by (induction rule: dash_reach.induct) (auto intro: mount_dashboard_ui(1) ui_step_ui)

lemma reach_svc_inv: "dash_reach s0 d s \<Longrightarrow> svc_inv s0 \<Longrightarrow> svc_inv s"
  by (induction rule: dash_reach.induct) (auto intro: mount_dashboard_inv ui_step_svc)

lemma filter_single:
  "length (filter P xs) = 1 \<Longrightarrow> hd (filter P xs) \<in> set xs \<and> P (hd (filter P xs))"
proof -
  assume "length (filter P xs) = 1"
  then have "filter P xs \<noteq> []" by auto
  then have "hd (filter P xs) \<in> set (filter P xs)" by (rule hd_in_set)
  then show ?thesis by simp
qed

lemma resolveImage_calls:
  assumes "resolveImage ue d s = (r, d1, s1, tr)"
  shows "\<exists>new. calls s1 = calls s @ new \<and> prefix new (upload_reqs ue d) \<and>
           (r = Inr url \<longrightarrow> new = upload_reqs ue d)"
  using assms
  by (auto simp: resolveImage_def uploadImage_def upload_reqs_def svc_simps Let_def
      split: if_splits option.splits sum.splits prod.splits)

lemma persist_calls:
  assumes "persist url d s = (r, d2, s2)"
  shows "calls s2 = calls s @ (case r of Inl _ \<Rightarrow> [write_req d] | Inr _ \<Rightarrow> [write_req d, Q_select_perfumes])"
  using assms
  by (auto simp: persist_def write_row_def fetchPerfumes_def write_req_def svc_simps Let_def
      split: option.splits sum.splits prod.splits)

lemma leak_run:
  assumes "\<not> loading d0" "object_urls d0 = []" "starts_with u1 ''blob:''" "starts_with u2 ''blob:''" "u1 \<noteq> u2"
  shows "\<exists>d. run_events [Ev_add, Ev_image (Some f) u1, Ev_image (Some g) u2, Ev_close] d0 s = Some (d, s) \<and>
             \<not> isModalOpen d \<and> object_urls d = [u1]"
proof -
  have "\<not> starts_with u2 ''http''"
    using assms(4) prefix_same_cases [of "''blob:''" u2 "''http''"] by (auto simp: starts_with_prefix)
  then show ?thesis using assms
    by (auto simp: openModal_def handleImageChange_def closeModal_def)
qed

lemma demo_admin_mount: "\<exists>d s. mount_dashboard demo_admin_svc = (d, s, None)"
  by (simp add: mount_dashboard_def checkAdmin_def fetchPerfumes_def demo_admin_svc_def demo_svc_def
      svc_simps Let_def)

lemma svc_inv_demo_admin: "svc_inv demo_admin_svc"
  using svc_inv_demo by (simp add: demo_admin_svc_def svc_inv_def)

lemma catalog_ok_demo_admin: "catalog_ok demo_admin_svc"
proof -
  have "js_trim ''Rose'' \<noteq> [] \<and> js_trim ''Oud'' \<noteq> []" by code_simp
  then show ?thesis by (simp add: catalog_ok_def row_ok_def demo_admin_svc_def demo_svc_def new_row_def demo_form_def
      category_options_def cents_def)
qed

section \<open>Properties\<close>

text \<open>C8. Between events the console is always shown, never the loading screen: when
  the dialog is hidden the form behind it is pristine, and when it is shown its progress
  bar is hidden and its submit button is enabled and reads "Create Perfume" or
  "Update Perfume". The service invariant holds throughout.\<close>

theorem dash_reach_idle:
  assumes "dash_reach s0 d s" "svc_inv s0"
  shows "svc_inv s \<and>
    (\<exists>v. render_dash d = Console v \<and>
       (case cv_modal v of
          None \<Rightarrow> editingPerfume d = None \<and> formData d = initialFormData \<and>
                  selectedImage d = None \<and> previewUrl d = None
        | Some m \<Rightarrow> mv_progress m = None \<and> \<not> mv_submit_disabled m \<and>
                  mv_submit_label m \<in> {''Create Perfume'', ''Update Perfume''}))"
proof -
  have "ui_inv d" using assms(1) by (rule reach_ui_inv)
  then show ?thesis using reach_svc_inv [OF assms]
    by (auto simp: ui_inv_def render_dash_def render_modal_def)
qed

text \<open>C7. Every run of the console keeps the catalog well formed: if every entry had a
  non-empty name and image, a category of the form's list, a positive price in whole
  cents and no blank note when the page was mounted, then so does every entry after any
  sequence of events, and so does every entry the page displays. The handler alone
  admits a negative price; together with the form's constraints it does not.\<close>

theorem dash_reach_catalog_ok:
  assumes "dash_reach s0 d s" "catalog_ok s0"
  shows "catalog_ok s \<and> view_ok d"
  using assms
proof (induction rule: dash_reach.induct)
  case (mounted d s)
  note m = mount_dashboard_ui [OF mounted(1)]
  have "catalog_ok s" using m(5) mounted(2) by (simp add: catalog_ok_def)
  moreover have "view_ok d" using m(3,6) mounted(2) by (auto simp: view_ok_def catalog_ok_def)
  ultimately show ?case by simp
next
  case (event d s ev d' s')
  then show ?case using ui_step_catalog by blast
qed

text \<open>The executable interpreter \<open>run_events\<close> describes exactly the reachable
  states: a state is reachable iff some sequence of enabled, non-navigating events leads
  to it from a mount that let the visitor stay.\<close>

lemma dash_reach_run:
  "dash_reach s0 d s \<longleftrightarrow>
   (\<exists>d0 s1 evs. mount_dashboard s0 = (d0, s1, None) \<and> run_events evs d0 s1 = Some (d, s))"
proof
  assume "dash_reach s0 d s"
  then show "\<exists>d0 s1 evs. mount_dashboard s0 = (d0, s1, None) \<and> run_events evs d0 s1 = Some (d, s)"
  proof (induction rule: dash_reach.induct)
    case (mounted d s)
    then show ?case by (metis run_events.simps(1))
  next
    case (event d s ev d' s')
    then obtain d0 s1 evs where "mount_dashboard s0 = (d0, s1, None)" "run_events evs d0 s1 = Some (d, s)"
      by blast
    with event.hyps(2,3) show ?case by (intro exI [of _ d0] exI [of _ s1] exI [of _ "evs @ [ev]"]) (simp add: run_events_snoc)
  qed
next
  assume "\<exists>d0 s1 evs. mount_dashboard s0 = (d0, s1, None) \<and> run_events evs d0 s1 = Some (d, s)"
  then show "dash_reach s0 d s" by (auto intro: run_events_reach dash_reach.mounted)
qed

text \<open>C34. Closing the dialog revokes only the preview it currently shows: after a
  mount that lets the administrator stay, opening "Add New Perfume", picking two images
  one after the other and cancelling closes the dialog but leaves the first object URL
  registered in the browser for the rest of the page's life.\<close>

theorem object_url_leak:
  assumes "mount_dashboard s0 = (d0, s1, None)"
    and "starts_with u1 ''blob:''" "starts_with u2 ''blob:''" "u1 \<noteq> u2"
  shows "\<exists>d. run_events [Ev_add, Ev_image (Some f) u1, Ev_image (Some g) u2, Ev_close] d0 s1 = Some (d, s1) \<and>
             dash_reach s0 d s1 \<and> \<not> isModalOpen d \<and> object_urls d = [u1]"
proof -
  have "\<not> loading d0" "object_urls d0 = []"
    using mount_dashboard_ui(1,4) [OF assms(1)] by (simp_all add: ui_inv_def)
  then obtain d where r: "run_events [Ev_add, Ev_image (Some f) u1, Ev_image (Some g) u2, Ev_close] d0 s1 = Some (d, s1)"
      and "\<not> isModalOpen d" "object_urls d = [u1]"
    using leak_run assms(2-4) by blast
  moreover have "dash_reach s0 d s1" using run_events_reach [OF r dash_reach.mounted [OF assms(1)]] .
  ultimately show ?thesis by blast
qed

text \<open>When the mount lets the visitor stay, the console greets the administrator
  whose \<open>admin_users\<close> row matches the session's email, by that row's username and
  last login ("First login" when there is none), lists the whole catalog newest first
  (or nothing when the query failed) and shows no dialog.\<close>

theorem mount_dashboard_header:
  assumes "mount_dashboard s0 = (d, s, None)"
  shows "\<exists>a \<in> set (admin_users s0). session s0 = Some (email a) \<and>
     render_dash d = Console
       \<lparr>cv_welcome = username a,
        cv_last_login = (case last_login a of None \<Rightarrow> First_login | Some t \<Rightarrow> Login_at t),
        cv_rows = map (\<lambda>p. (perfume_id p, image_url p, name p, category p, price p))
                    (case faults s0 K_select of None \<Rightarrow> newest_first (perfumes_tbl s0) | Some _ \<Rightarrow> []),
        cv_modal = None\<rparr>"
  using assms filter_single [of "\<lambda>a. email a = the (session s0)" "admin_users s0"]
  by (auto simp: mount_dashboard_def checkAdmin_def fetchPerfumes_def dash_init_def render_dash_def
      svc_simps Let_def
      intro!: bexI [where x = "hd (filter (\<lambda>a. email a = the (session s0)) (admin_users s0))"]
      split: option.splits if_splits sum.splits prod.splits)

lemma resolveImage_exact:
  assumes "resolveImage ue d s = (r, d1, s1, tr)"
  shows "calls s1 = calls s @ (if form_invalid (formData d) then [] else upload_reqs ue d)"
    and "(\<exists>url. r = Inr url) \<longleftrightarrow> image_ok ue d s"
    and "faults s1 = faults s"
  using assms
  by (auto simp: resolveImage_def uploadImage_def upload_reqs_def image_ok_def svc_simps Let_def
      split: if_splits option.splits sum.splits prod.splits)

lemma persist_fails_iff:
  assumes "persist url d s = (r, d2, s2)"
  shows "(\<exists>e. r = Inl e) \<longleftrightarrow> faults s (kind_of (write_req d)) \<noteq> None"
  using assms
  by (auto simp: persist_def write_row_def fetchPerfumes_def write_req_def svc_simps Let_def
      split: option.splits sum.splits prod.splits)

text \<open>C9. A submission issues its requests in the order of its \<open>try\<close> block and stops
  at the first failure: what it adds to the request log is exactly the upload of the
  selected file (if the form passes the check), then, only if the image stage
  succeeded, the write (an update of the edited perfume's id, or an insert), then, only
  if the write succeeded, the list query.\<close>

theorem handleSubmit_requests:
  assumes "handleSubmit ue d s = (d', s', tr)"
  shows "calls s' = calls s @ submit_reqs ue d s"
  using assms
proof (cases rule: handleSubmit_cases)
  case (rejected e d1)
  then show ?thesis
    using resolveImage_exact [OF rejected(1)]
    by (auto simp: submit_reqs_def image_ok_def upload_reqs_def split: option.splits)
next
  case (write_failed url d1 s1 e d2)
  have r: "calls s1 = calls s @ upload_reqs ue d" "image_ok ue d s" "faults s1 = faults s"
    "\<not> form_invalid (formData d)" "editingPerfume d1 = editingPerfume d"
    using resolveImage_exact [OF write_failed(1)] resolveImage_frame(1) [OF write_failed(1)]
    by (auto simp: upload_reqs_def image_ok_def split: option.splits)
  have "faults s1 (kind_of (write_req d1)) \<noteq> None"
    using persist_fails_iff [OF write_failed(2)] by blast
  then show ?thesis using persist_calls [OF write_failed(2)] r by (auto simp: submit_reqs_def write_req_def)
next
  case (written url d1 s1 u d2)
  have r: "calls s1 = calls s @ upload_reqs ue d" "image_ok ue d s" "faults s1 = faults s"
    "\<not> form_invalid (formData d)" "editingPerfume d1 = editingPerfume d"
    using resolveImage_exact [OF written(1)] resolveImage_frame(1) [OF written(1)]
    by (auto simp: upload_reqs_def image_ok_def split: option.splits)
  have "faults s1 (kind_of (write_req d1)) = None"
    using persist_fails_iff [OF written(2)] by blast
  then show ?thesis using persist_calls [OF written(2)] r by (auto simp: submit_reqs_def write_req_def)
qed

section \<open>Witnesses\<close>

theorem dash_reach_idle_witness:
  "\<exists>d s. dash_reach demo_admin_svc d s \<and> svc_inv demo_admin_svc \<and> svc_inv s \<and>
     (\<exists>v. render_dash d = Console v \<and> cv_modal v = None)"
proof -
  obtain d s where m: "mount_dashboard demo_admin_svc = (d, s, None)" using demo_admin_mount by blast
  have r: "dash_reach demo_admin_svc d s" using m by (rule dash_reach.mounted)
  have "\<not> isModalOpen d" using mount_dashboard_ui(2) [OF m] .
  then show ?thesis using dash_reach_idle [OF r svc_inv_demo_admin] r svc_inv_demo_admin
    by (auto simp: render_dash_def)
qed

theorem dash_reach_catalog_ok_witness:
  "\<exists>d s. dash_reach demo_admin_svc d s \<and> catalog_ok demo_admin_svc \<and> catalog_ok s \<and> view_ok d"
proof -
  obtain d s where m: "mount_dashboard demo_admin_svc = (d, s, None)" using demo_admin_mount by blast
  have r: "dash_reach demo_admin_svc d s" using m by (rule dash_reach.mounted)
  show ?thesis using dash_reach_catalog_ok [OF r catalog_ok_demo_admin] r catalog_ok_demo_admin by blast
qed

theorem object_url_leak_witness:
  "\<exists>d0 s1 d. mount_dashboard demo_admin_svc = (d0, s1, None) \<and>
     starts_with ''blob:a'' ''blob:'' \<and> starts_with ''blob:b'' ''blob:'' \<and> ''blob:a'' \<noteq> ''blob:b'' \<and>
     dash_reach demo_admin_svc d s1 \<and> \<not> isModalOpen d \<and> object_urls d = [''blob:a'']"
proof -
  obtain d0 s1 where m: "mount_dashboard demo_admin_svc = (d0, s1, None)" using demo_admin_mount by blast
  have u: "starts_with ''blob:a'' ''blob:''" "starts_with ''blob:b'' ''blob:''" "''blob:a'' \<noteq> ''blob:b''"
    by simp_all
  show ?thesis
    using object_url_leak [OF m u, of "\<lparr>file_name = ''a.jpg''\<rparr>" "\<lparr>file_name = ''b.jpg''\<rparr>"] m u by blast
qed

theorem mount_dashboard_header_witness:
  "\<exists>d s. mount_dashboard demo_admin_svc = (d, s, None) \<and>
     render_dash d = Console
       \<lparr>cv_welcome = ''admin'', cv_last_login = First_login,
        cv_rows = [(0, ''https://cdn.example/rose.jpg'', ''Rose Noir'', ''Floral'', 120)], cv_modal = None\<rparr>"
proof -
  obtain d s where m: "mount_dashboard demo_admin_svc = (d, s, None)" using demo_admin_mount by blast
  show ?thesis using mount_dashboard_header [OF m] m
    by (auto simp: demo_admin_svc_def demo_svc_def new_row_def demo_form_def newest_first_def)
qed

theorem handleSubmit_requests_witness:
  "\<exists>d' s' tr new. handleSubmit demo_ue demo_new_dash demo_svc = (d', s', tr) \<and>
     calls s' = calls demo_svc @ new \<and> new = [Q_insert_perfume, Q_select_perfumes]"
proof -
  obtain d' s' tr where e: "handleSubmit demo_ue demo_new_dash demo_svc = (d', s', tr)"
    by (metis prod_cases3)
  show ?thesis using handleSubmit_requests [OF e] e demo_new_dash_fields
    by (auto simp: submit_reqs_def image_ok_def upload_reqs_def write_req_def demo_svc_def
        demo_new_dash_def form_invalid_def openModal_def)
qed

end
