(* ===== verification/Catalog_Refinement.thy ===== *)
theory Catalog_Refinement
  imports Dashboard_UI
begin

text \<open>
  The specification's abstract views of the admin side and the refinement of each by the
  code. Section 3 of the specification describes the catalog's lifecycle (records are
  created under a fresh identifier, replaced whole, or deleted; identifiers never
  change): \<open>cat_step\<close> is that lifecycle as a step relation on the abstract catalog,
  and every event of the dashboard is one step of it. Section 9 describes the entry gate as
  a three-way result collapsed at the call site: \<open>gate_spec\<close> computes it, and the
  dashboard's \<open>checkAdmin\<close> implements it when the administrator table has at most one
  row per email (section 6: "expecting at most one match"). Section 9 also describes
  the upload-then-write saga: a failed write after a successful upload leaves the
  uploaded object orphaned.
\<close>

section \<open>The abstract catalog\<close>

inductive cat_step :: "(uuid \<rightharpoonup> perfume_form) \<Rightarrow> (uuid \<rightharpoonup> perfume_form) \<Rightarrow> bool" where
  cat_keep: "cat_step m m"
| cat_create: "m k = None \<Longrightarrow> cat_step m (m(k \<mapsto> f))"
| cat_replace: "m k \<noteq> None \<Longrightarrow> cat_step m (m(k \<mapsto> f))"
| cat_delete: "cat_step m (m(k := None))"

section \<open>The three-way gate\<close>

datatype gate_result = Authorized admin_user | Unauthorized | Service_error

definition gate_spec :: "svc \<Rightarrow> gate_result" where
  "gate_spec s =
     (if faults s K_get_user \<noteq> None then Service_error
      else case session s of
             None \<Rightarrow> Unauthorized
           | Some e \<Rightarrow>
               if faults s K_admin \<noteq> None then Service_error
               else case find (\<lambda>a. email a = e) (admin_users s) of
                      Some a \<Rightarrow> Authorized a
                    | None \<Rightarrow> Unauthorized)"

definition demo_orphan_dash :: dash where
  "demo_orphan_dash = demo_new_dash\<lparr>selectedImage := Some \<lparr>file_name = ''oud.png''\<rparr>\<rparr>"

definition demo_insert_down :: svc where
  "demo_insert_down = demo_svc\<lparr>faults := (\<lambda>k. if k = K_insert then Some (Error_obj ''insert failed'') else None)\<rparr>"

section \<open>Lemmas\<close>

lemma find_hd_filter: "find P xs = Some a \<Longrightarrow> hd (filter P xs) = a"
  by (induction xs) auto

lemma distinct_email_filter:
  "distinct (map email xs) \<Longrightarrow> length (filter (\<lambda>a. email a = e) xs) \<le> 1"
proof (induction xs)
  case (Cons x xs)
  show ?case
  proof (cases "email x = e")
    case True
    have "email x \<notin> email ` set xs" using Cons.prems by simp
    then have "filter (\<lambda>a. email a = e) xs = []"
      unfolding filter_empty_conv using True by (metis image_eqI)
    then show ?thesis using True by simp
  next
    case False
    then show ?thesis using Cons by simp
  qed
qed simp

lemma unique_email_find:
  assumes "distinct (map email xs)"
  shows "length (filter (\<lambda>a. email a = e) xs) = 1 \<longleftrightarrow> find (\<lambda>a. email a = e) xs \<noteq> None"
proof -
  have "find (\<lambda>a. email a = e) xs = None \<longleftrightarrow> filter (\<lambda>a. email a = e) xs = []"
    by (auto simp: find_None_iff filter_empty_conv)
  then show ?thesis using distinct_email_filter [OF assms, of e]
    by (cases "filter (\<lambda>a. email a = e) xs") auto
qed

lemma catalog_write_step: "m fresh = None \<Longrightarrow> cat_step m (catalog_write ed f fresh m)"
proof (cases ed)
  case (Some p)
  then show ?thesis
  proof (cases "m (perfume_id p)")
    case None
    then have "catalog_write ed f fresh m = m" using Some by (simp add: catalog_write_def fun_upd_idem)
    then show ?thesis by (simp add: cat_step.cat_keep)
  next
    case (Some v)
    then show ?thesis using \<open>ed = Some p\<close> by (simp add: catalog_write_def cat_step.cat_replace)
  qed
qed (simp add: catalog_write_def cat_step.cat_create)

lemma catalog_frame: "perfumes_tbl s' = perfumes_tbl s \<Longrightarrow> catalog s' = catalog s"
  by (simp add: catalog_def)

lemma handleSubmit_catalog:
  assumes "svc_inv s" "handleSubmit ue d s = (d', s', tr)"
  shows "catalog s' = catalog s \<or> (\<exists>f. catalog s' = catalog_write (editingPerfume d) f (next_id s) (catalog s))"
  using assms(2)
proof (cases rule: handleSubmit_cases)
  case (rejected e d1)
  then show ?thesis using resolveImage_frame(2) [OF rejected(1)] by (simp add: catalog_def)
next
  case (write_failed url d1 s1 e d2)
  then show ?thesis using resolveImage_frame(2) [OF write_failed(1)] persist_fail(2) [OF write_failed(2)]
    by (simp add: catalog_def)
next
  case (written url d1 s1 u d2)
  note fr = resolveImage_frame [OF written(1)]
  have e: "editingPerfume d1 = editingPerfume d" using fr(1) by auto
  have c: "catalog s1 = catalog s" using fr(2) by (rule catalog_frame)
  have "catalog s' = catalog_write (editingPerfume d1) (perfumeData url (formData d1)) (next_id s1) (catalog s1)"
    using persist_ok(1) [OF resolveImage_inv [OF written(1) assms(1)] written(2)] .
  then show ?thesis unfolding e c fr(3) by blast
qed

lemma handleDelete_catalog:
  assumes "handleDelete i c d s = (d', s')"
  shows "catalog s' = catalog s \<or> catalog s' = (catalog s)(i := None)"
proof -
  obtain r s1 where del: "delete_perfume i s = (r, s1)" by (metis prod.exhaust)
  show ?thesis
  proof (cases r)
    case (Inl e)
    then have "perfumes_tbl s1 = perfumes_tbl s" using del by (simp add: svc_fail_keeps_table(3))
    then show ?thesis using assms del Inl by (auto simp: handleDelete_def catalog_def split: if_splits)
  next
    case (Inr u)
    then have "fetchPerfumes d s1 = (d', s') \<or> s' = s"
      using assms del by (auto simp: handleDelete_def split: if_splits)
    then show ?thesis
      using catalog_delete [OF del [unfolded Inr]] fetchPerfumes_frame(2) catalog_frame by metis
  qed
qed

section \<open>Properties\<close>

text \<open>C10. Each event of the dashboard refines one step of the specification's catalog
  lifecycle: the catalog after the event equals the catalog before it, or differs by
  creating one entry under an identifier not in use, replacing one existing entry
  whole, or deleting one entry. No event changes an identifier, recreates an entry
  being edited after it disappeared, or touches two entries.\<close>

theorem dash_event_refines_catalog:
  assumes "svc_inv s" "dash_event_step ev d s = (d', s', None)"
  shows "cat_step (catalog s) (catalog s')"
  using assms
proof (cases ev)
  case (Ev_delete i c)
  then have "handleDelete i c d s = (d', s')" using assms(2) by (auto split: prod.splits)
  from handleDelete_catalog [OF this] show ?thesis by (auto intro: cat_step.cat_keep cat_step.cat_delete)
next
  case (Ev_submit ue)
  then obtain tr where "handleSubmit ue d s = (d', s', tr)" using assms(2) by (auto split: prod.splits)
  from handleSubmit_catalog [OF assms(1) this] show ?thesis
  proof
    assume "catalog s' = catalog s"
    then show ?thesis by (simp add: cat_step.cat_keep)
  next
    assume "\<exists>f. catalog s' = catalog_write (editingPerfume d) f (next_id s) (catalog s)"
    then obtain f where "catalog s' = catalog_write (editingPerfume d) f (next_id s) (catalog s)" ..
    then show ?thesis
      using catalog_write_step [of "catalog s" "next_id s", OF fresh_id_not_in_catalog [OF assms(1)]] by simp
  qed
qed (auto simp: handleLogout_def cat_step.cat_keep)

text \<open>C11. The dashboard's entry check implements the specification's three-way gate,
  collapsed at the call site: with at most one administrator row per email, the visitor
  stays exactly when the gate says "authorized", and then the header shows that row's
  username and last login; "unauthorized" and "service error" both redirect to the
  sign-in page and leave the page's data as it was.\<close>

theorem checkAdmin_refines_gate:
  assumes "distinct (map email (admin_users s))" "checkAdmin d s = (d', s', nav)"
  shows "case gate_spec s of
           Authorized a \<Rightarrow> nav = None \<and> adminData d' = Some (username a, last_login a)
         | _ \<Rightarrow> nav = Some ''/admin/login'' \<and> adminData d' = adminData d"
proof -
  have u: "length (filter (\<lambda>a. email a = e) (admin_users s)) = 1 \<longleftrightarrow>
           find (\<lambda>a. email a = e) (admin_users s) \<noteq> None" for e
    using unique_email_find [OF assms(1)] .
  show ?thesis using assms(2) u
    by (auto simp: gate_spec_def checkAdmin_def svc_simps Let_def find_hd_filter
        split: option.splits if_splits)
qed

text \<open>C22. The upload-then-write saga has no transaction across its two requests: when
  the picked image uploads but the insert or update then fails, the new object stays in
  the bucket while the table is unchanged (the object is orphaned), and the operator
  sees the write's error over the intact form.\<close>

theorem handleSubmit_orphan_upload:
  assumes "selectedImage d = Some f" "\<not> form_invalid (formData d)"
    and "faults s K_upload = None" "upload_path ue f \<notin> set (bucket s)"
    and "faults s (kind_of (write_req d)) = Some err"
    and "handleSubmit ue d s = (d', s', tr)"
  shows "bucket s' = bucket s @ [upload_path ue f] \<and> perfumes_tbl s' = perfumes_tbl s \<and>
         formData d' = formData d \<and> isModalOpen d' = isModalOpen d \<and>
         formError d' = message_or ''An error occurred'' err"
  using assms
  by (auto simp: handleSubmit_def resolveImage_def uploadImage_def persist_def write_row_def
      write_req_def submit_fail_def svc_simps Let_def split: option.splits)

section \<open>Witnesses\<close>

theorem dash_event_refines_catalog_witness:
  "svc_inv demo_svc \<and>
   dash_event_step (Ev_delete 0 True) dash_init demo_svc =
     (dash_init, snd (select_perfumes (snd (delete_perfume 0 demo_svc))), None) \<and>
   cat_step (catalog demo_svc) (catalog (snd (select_perfumes (snd (delete_perfume 0 demo_svc)))))"
proof -
  have e: "dash_event_step (Ev_delete 0 True) dash_init demo_svc =
     (dash_init, snd (select_perfumes (snd (delete_perfume 0 demo_svc))), None)"
    by (simp add: handleDelete_def fetchPerfumes_def dash_init_def demo_svc_def svc_simps Let_def
        new_row_def newest_first_def)
  show ?thesis using dash_event_refines_catalog [OF svc_inv_demo e] svc_inv_demo e by blast
qed

theorem checkAdmin_refines_gate_witness:
  "\<exists>d' s' nav. distinct (map email (admin_users demo_admin_svc)) \<and>
     checkAdmin dash_init demo_admin_svc = (d', s', nav) \<and> nav = None \<and>
     adminData d' = Some (''admin'', None)"
proof -
  obtain d' s' nav where e: "checkAdmin dash_init demo_admin_svc = (d', s', nav)" by (metis prod_cases3)
  have dst: "distinct (map email (admin_users demo_admin_svc))"
    by (simp add: demo_admin_svc_def demo_svc_def)
  have "gate_spec demo_admin_svc = Authorized \<lparr>email = ''admin@fragrance.com'', username = ''admin'', last_login = None\<rparr>"
    by (simp add: gate_spec_def demo_admin_svc_def demo_svc_def)
  then show ?thesis using checkAdmin_refines_gate [OF dst e] dst e by auto
qed

theorem handleSubmit_orphan_upload_witness:
  "\<exists>d' s' tr. handleSubmit demo_ue demo_orphan_dash demo_insert_down = (d', s', tr) \<and>
     bucket s' = [''perfumes/k3j9x.png''] \<and> perfumes_tbl s' = perfumes_tbl demo_insert_down \<and>
     formError d' = ''insert failed''"
proof -
  obtain d' s' tr where e: "handleSubmit demo_ue demo_orphan_dash demo_insert_down = (d', s', tr)"
    by (metis prod_cases3)
  have h: "selectedImage demo_orphan_dash = Some \<lparr>file_name = ''oud.png''\<rparr>"
      "\<not> form_invalid (formData demo_orphan_dash)"
      "faults demo_insert_down K_upload = None"
      "upload_path demo_ue \<lparr>file_name = ''oud.png''\<rparr> \<notin> set (bucket demo_insert_down)"
      "faults demo_insert_down (kind_of (write_req demo_orphan_dash)) = Some (Error_obj ''insert failed'')"
    by (simp_all add: demo_orphan_dash_def demo_new_dash_def openModal_def form_invalid_def
        demo_insert_down_def demo_svc_def write_req_def)
  have p: "upload_path demo_ue \<lparr>file_name = ''oud.png''\<rparr> = ''perfumes/k3j9x.png''"
    by code_simp
  show ?thesis using handleSubmit_orphan_upload [OF h e] e p
    by (simp add: demo_insert_down_def demo_svc_def)
qed

end
