(* ===== verification/Dashboard_Async.thy ===== *)
theory Dashboard_Async
  imports Dashboard_UI
begin

text \<open>
  \<open>handleSubmit\<close> (\<open>AdminDashboard.tsx\<close>, lines 157--202) split at its \<open>await\<close>s, so
  that the events a user raises while a save is in flight interleave with it. The
  handler runs synchronously up to its first \<open>await\<close> (\<open>submit_start\<close>): it clears
  the error, sets \<open>isSaving\<close>, validates, and issues the upload or the write. Each
  response resumes it (\<open>submit_resume\<close>) up to the next \<open>await\<close>: after the upload it
  issues the write, after the write the list query, after the list query it closes the
  dialog. The handler's closure keeps the state of the render at the click
  (\<open>snap\<close>): the form it writes, the file it uploads, the record it edits and the
  preview it revokes are those, while its setters write into the page's current state
  (\<open>live\<close>). The service answers a request when it is issued (\<open>pending\<close> holds the
  answer until the page sees it); the upload's progress events arrive in between.
  Meanwhile the page offers its other controls: the dialog stays open with its inputs
  and its close and cancel buttons enabled, only the submit button is disabled.
\<close>

datatype pending =
    Await_upload string "thrown + unit"
  | Await_write string "thrown + unit"
  | Await_fetch "thrown + perfume list"

record saving =
  snap :: dash
  pend :: pending

record page =
  live :: dash
  saga :: "saving option"

text \<open>The \<open>catch\<close> and \<open>finally\<close> blocks of \<open>handleSubmit\<close> (lines 197--201).\<close>

definition fail_saga :: "thrown \<Rightarrow> dash \<Rightarrow> dash" where
  "fail_saga e d = (submit_fail e d)\<lparr>isSaving := False\<rparr>"

text \<open>\<open>closeModal\<close> as the closure of the render at the click sees it: it resets the
  current state and revokes the preview URL it captured.\<close>

definition closeModal_closure :: "dash \<Rightarrow> dash \<Rightarrow> dash" where
  "closeModal_closure c d = closeModal (d\<lparr>previewUrl := previewUrl c\<rparr>)"

text \<open>Issuing the write of lines 180--193 with the captured form and the settled URL.\<close>

definition issue_write :: "dash \<Rightarrow> string \<Rightarrow> dash \<Rightarrow> svc \<Rightarrow> page \<times> svc" where
  "issue_write c url d s =
     (case write_row (editingPerfume c) (perfumeData url (formData c)) s of
        (r, s1) \<Rightarrow> (\<lparr>live = d, saga = Some \<lparr>snap = c, pend = Await_write url r\<rparr>\<rparr>, s1))"

text \<open>Lines 158--172 up to the first \<open>await\<close>, including the synchronous part of
  \<open>uploadImage\<close> (lines 91--97).\<close>

definition submit_start :: "upload_env \<Rightarrow> dash \<Rightarrow> svc \<Rightarrow> page \<times> svc" where
  "submit_start ue c s =
     (let d0 = c\<lparr>formError := [], isSaving := True\<rparr>; fd = formData c in
      if form_invalid fd
      then (\<lparr>live = fail_saga (Error_obj ''Please fill in all required fields'') d0, saga = None\<rparr>, s)
      else case selectedImage c of
             Some f \<Rightarrow>
               (let path = upload_path ue f in
                case upload_object path s of
                  (r, s1) \<Rightarrow> (\<lparr>live = d0\<lparr>uploadProgress := Some (Pct 0)\<rparr>,
                               saga = Some \<lparr>snap = c, pend = Await_upload path r\<rparr>\<rparr>, s1))
           | None \<Rightarrow>
               (if image_url fd = []
                then (\<lparr>live = fail_saga (Error_obj ''Please select an image'') d0, saga = None\<rparr>, s)
                else issue_write c (image_url fd) d0 s))"

text \<open>A response resumes the handler: the rest of \<open>uploadImage\<close> (lines 108--120)
  and the write; the rest of the write and \<open>fetchPerfumes\<close> (lines 186--195); the rest
  of \<open>fetchPerfumes\<close>, \<open>closeModal\<close> and \<open>finally\<close> (lines 196--201).\<close>

definition submit_resume :: "page \<Rightarrow> svc \<Rightarrow> page \<times> svc" where
  "submit_resume p s =
     (case saga p of
        None \<Rightarrow> (p, s)
      | Some sv \<Rightarrow>
          (let c = snap sv; d = live p in
           case pend sv of
             Await_upload path (Inl _) \<Rightarrow>
               (\<lparr>live = fail_saga (Error_obj ''Failed to upload image'') (d\<lparr>uploadProgress := None\<rparr>),
                 saga = None\<rparr>, s)
           | Await_upload path (Inr _) \<Rightarrow> issue_write c (public_url s path) (d\<lparr>uploadProgress := None\<rparr>) s
           | Await_write url (Inl e) \<Rightarrow> (\<lparr>live = fail_saga e d, saga = None\<rparr>, s)
           | Await_write url (Inr _) \<Rightarrow>
               (case select_perfumes s of
                  (q, s1) \<Rightarrow> (\<lparr>live = d, saga = Some (sv\<lparr>pend := Await_fetch q\<rparr>)\<rparr>, s1))
           | Await_fetch q \<Rightarrow>
               (\<lparr>live = (closeModal_closure c (case q of Inl _ \<Rightarrow> d | Inr rows \<Rightarrow> d\<lparr>perfumes := rows\<rparr>))
                         \<lparr>isSaving := False\<rparr>,
                 saga = None\<rparr>, s)))"

text \<open>What can happen next on the page: a user event (the submit button only when no
  save is in flight and the page enables it), a progress event of the upload in flight
  (line 104), or the response the handler awaits.\<close>

datatype async_label = User dash_event | Progress nat nat | Respond

fun async_step :: "async_label \<Rightarrow> page \<Rightarrow> svc \<Rightarrow> (page \<times> svc) option" where
  "async_step (User (Ev_submit ue)) p s =
     (if saga p = None \<and> ev_enabled (live p) (Ev_submit ue) then Some (submit_start ue (live p) s) else None)"
| "async_step (User ev) p s =
     (if ev_enabled (live p) ev
      then (case dash_event_step ev (live p) s of
              (d', s', nav) \<Rightarrow> if nav = None then Some (p\<lparr>live := d'\<rparr>, s') else None)
      else None)"
| "async_step (Progress l t) p s =
     (case saga p of
        Some sv \<Rightarrow>
          (case pend sv of
             Await_upload _ _ \<Rightarrow> Some (p\<lparr>live := (live p)\<lparr>uploadProgress := Some (round_percent l t)\<rparr>\<rparr>, s)
           | _ \<Rightarrow> None)
      | None \<Rightarrow> None)"
| "async_step Respond p s = (if saga p = None then None else Some (submit_resume p s))"

fun async_run :: "async_label list \<Rightarrow> page \<Rightarrow> svc \<Rightarrow> (page \<times> svc) option" where
  "async_run [] p s = Some (p, s)"
| "async_run (l # ls) p s = (case async_step l p s of None \<Rightarrow> None | Some (p', s') \<Rightarrow> async_run ls p' s')"

text \<open>How many responses the handler still awaits.\<close>

fun pend_rank :: "pending \<Rightarrow> nat" where
  "pend_rank (Await_upload _ _) = 3"
| "pend_rank (Await_write _ _) = 2"
| "pend_rank (Await_fetch _) = 1"

definition rank :: "page \<Rightarrow> nat" where
  "rank p = (case saga p of None \<Rightarrow> 0 | Some sv \<Rightarrow> pend_rank (pend sv))"

text \<open>The responses arriving one after another with nothing in between: the handler
  run to its end.\<close>

function drain :: "page \<Rightarrow> svc \<Rightarrow> page \<times> svc" where
  "drain p s = (if saga p = None then (p, s) else case submit_resume p s of (p', s') \<Rightarrow> drain p' s')"
  by auto
termination
  by (relation "measure (\<lambda>(p, s). rank p)")
    (auto simp: split_beta submit_resume_def rank_def issue_write_def Let_def
      split: option.splits pending.splits sum.splits prod.splits)

text \<open>The events that only change the page: everything but the requests of logout and
  delete and a new submission.\<close>

fun local_event :: "dash_event \<Rightarrow> bool" where
  "local_event Ev_logout = False"
| "local_event (Ev_delete _ _) = False"
| "local_event (Ev_submit _) = False"
| "local_event _ = True"

text \<open>A sample save: the "Add New Perfume" form of \<open>demo_new_dash\<close>, during which the
  user closes the dialog, opens a new one and types a name.\<close>

definition demo_later_input :: "dash_event list" where
  "demo_later_input = [Ev_close, Ev_add, Ev_name ''Jasmine Nuit'']"

text \<open>The sample save of a new perfume on a page that lists the stored one.\<close>

definition demo_stale_dash :: dash where
  "demo_stale_dash = demo_new_dash\<lparr>perfumes := [new_row demo_form 0 1]\<rparr>"

section \<open>Lemmas\<close>

declare drain.simps [simp del]

lemma rank_resume_less: "saga p \<noteq> None \<Longrightarrow> rank (fst (submit_resume p s)) < rank p"
  by (auto simp: submit_resume_def rank_def issue_write_def Let_def
      split: option.splits pending.splits sum.splits prod.splits)

lemma drain_done [simp]: "saga p = None \<Longrightarrow> drain p s = (p, s)"
  by (subst drain.simps) simp

lemma drain_more: "saga p \<noteq> None \<Longrightarrow> drain p s = drain (fst (submit_resume p s)) (snd (submit_resume p s))"
  by (subst drain.simps) (auto simp: split_beta)

lemma resume_saga_only:
  assumes "saga p = saga q"
  shows "snd (submit_resume p s) = snd (submit_resume q s) \<and>
         saga (fst (submit_resume p s)) = saga (fst (submit_resume q s))"
  using assms
  by (auto simp: submit_resume_def issue_write_def Let_def
      split: option.splits pending.splits sum.splits prod.splits)

lemma drain_saga_only: "saga p = saga q \<Longrightarrow> snd (drain p s) = snd (drain q s)"
proof (induction p s arbitrary: q rule: drain.induct)
  case (1 p s)
  show ?case
  proof (cases "saga p = None")
    case True
    then show ?thesis using 1(2) by simp
  next
    case False
    note r = resume_saga_only [OF 1(2), of s]
    have "saga q \<noteq> None" using False 1(2) by simp
    have pr: "(fst (submit_resume p s), snd (submit_resume p s)) = submit_resume p s" by simp
    have ih: "snd (drain (fst (submit_resume p s)) (snd (submit_resume p s))) =
              snd (drain (fst (submit_resume q s)) (snd (submit_resume p s)))"
      using 1(1) [OF False pr r [THEN conjunct2]] .
    show ?thesis
      using ih r False \<open>saga q \<noteq> None\<close> by (simp add: drain_more [of p] drain_more [of q])
  qed
qed

lemma async_step_local:
  "local_event ev \<Longrightarrow> async_step (User ev) p s = Some (p1, s1) \<Longrightarrow> s1 = s \<and> saga p1 = saga p"
  by (cases ev) (auto split: if_splits)

lemma local_run:
  "async_run (map User evs) p s = Some (p', s') \<Longrightarrow> list_all local_event evs \<Longrightarrow> s' = s \<and> saga p' = saga p"
proof (induction evs arbitrary: p s)
  case (Cons ev evs)
  obtain p1 s1 where st: "async_step (User ev) p s = Some (p1, s1)"
    and rest: "async_run (map User evs) p1 s1 = Some (p', s')"
    using Cons.prems(1) by (auto split: option.splits)
  have "s1 = s \<and> saga p1 = saga p" using async_step_local [OF _ st] Cons.prems(2) by simp
  then show ?case using Cons.IH [OF rest] Cons.prems(2) by simp
qed simp

lemma async_step_rank:
  assumes "async_step l p s = Some (p1, s1)" "\<forall>ue. l \<noteq> User (Ev_submit ue)"
  shows "(l = Respond \<longrightarrow> rank p1 < rank p) \<and> (l \<noteq> Respond \<longrightarrow> rank p1 = rank p)"
proof (cases l)
  case (User ev)
  then show ?thesis using assms by (cases ev) (auto simp: rank_def split: if_splits prod.splits)
next
  case (Progress a b)
  then show ?thesis using assms by (auto simp: rank_def split: option.splits pending.splits)
next
  case Respond
  then show ?thesis using assms rank_resume_less [of p s] by (auto split: if_splits)
qed

lemma pend_rank_le: "rank p \<le> 3"
proof (cases "saga p")
  case (Some sv)
  then show ?thesis by (cases "pend sv") (simp_all add: rank_def)
qed (simp add: rank_def)

section \<open>Properties\<close>

text \<open>Without interleaved events the split handler is the handler: starting a save
  and answering its requests one after another gives the page state and the service
  state of the atomic \<open>handleSubmit\<close>, so every property proved of the atomic model
  holds of an uninterrupted save.\<close>

lemma submit_async_atomic:
  "drain (fst (submit_start ue d s)) (snd (submit_start ue d s)) =
     (\<lparr>live = fst (handleSubmit ue d s), saga = None\<rparr>, fst (snd (handleSubmit ue d s)))"
  by (auto simp: submit_start_def handleSubmit_def resolveImage_def uploadImage_def persist_def
      fetchPerfumes_def issue_write_def submit_resume_def closeModal_closure_def fail_saga_def
      drain_more Let_def split: option.splits sum.splits prod.splits if_splits)

text \<open>A save in flight always completes: answering the requests it awaits, one
  after another, ends with no pending continuation (the chain of continuations has at
  most three links and each response removes at least one).\<close>

lemma drain_completes: "saga (fst (drain p s)) = None"
proof (induction p s rule: drain.induct)
  case (1 p s)
  show ?case
  proof (cases "saga p = None")
    case False
    have pr: "(fst (submit_resume p s), snd (submit_resume p s)) = submit_resume p s" by simp
    show ?thesis using 1 [OF False pr] False by (simp add: drain_more)
  qed simp
qed

text \<open>C14. Whatever the user and the upload's progress events do in between, a save in
  flight receives at most three responses before it is over: in any interleaving that
  starts no new save, each response advances the handler by at least one stage and
  nothing else moves it.\<close>

theorem save_response_bound:
  assumes "async_run ls p s = Some (p', s')" "\<forall>ue. User (Ev_submit ue) \<notin> set ls"
  shows "rank p' + length (filter (\<lambda>l. l = Respond) ls) \<le> rank p \<and> rank p \<le> 3"
proof -
  have "rank p' + length (filter (\<lambda>l. l = Respond) ls) \<le> rank p"
    using assms
  proof (induction ls arbitrary: p s)
    case (Cons l ls)
    obtain p1 s1 where st: "async_step l p s = Some (p1, s1)"
      and rest: "async_run ls p1 s1 = Some (p', s')"
      using Cons.prems(1) by (auto split: option.splits)
    have "\<forall>ue. l \<noteq> User (Ev_submit ue)" using Cons.prems(2) by auto
    note r = async_step_rank [OF st this]
    have "rank p' + length (filter (\<lambda>l. l = Respond) ls) \<le> rank p1"
      using Cons.IH [OF rest] Cons.prems(2) by auto
    then show ?case using r by (cases "l = Respond") auto
  qed simp
  then show ?thesis using pend_rank_le by simp
qed

text \<open>C12. The save writes what the dialog held at the click: the events that only change
  the page (typing, picking another image, closing, reopening or opening another
  record's dialog) leave the service untouched and the pending handler as it was, so
  the service state at the end of the save is the one it would have been without them.\<close>

theorem save_writes_snapshot:
  assumes "async_run (map User evs) p s = Some (p', s')" "list_all local_event evs"
  shows "s' = s \<and> saga p' = saga p \<and> snd (drain p' s') = snd (drain p s)"
proof -
  have "s' = s \<and> saga p' = saga p" using assms by (rule local_run)
  then show ?thesis using drain_saga_only by metis
qed

text \<open>C13. Input given while a save is in flight is silently discarded: when the save's
  write and list query succeed, its last step closes the dialog and resets the form
  whatever the user did in the meantime (typed on, or closed the dialog and opened a
  new one), and the catalog receives the form as it was at the click.\<close>

theorem save_discards_later_input:
  assumes "svc_inv s" "submit_start ue d s = (p, s1)"
    and "selectedImage d = None" "\<not> form_invalid (formData d)" "image_url (formData d) \<noteq> []"
    and "faults s (kind_of (write_req d)) = None" "faults s K_select = None"
    and "async_run (map User evs) p s1 = Some (p2, s2)" "list_all local_event evs"
    and "drain p2 s2 = (p3, s3)"
  shows "\<not> isModalOpen (live p3) \<and> formData (live p3) = initialFormData \<and> editingPerfume (live p3) = None \<and>
         catalog s3 = catalog_write (editingPerfume d) (perfumeData (image_url (formData d)) (formData d))
                        (next_id s) (catalog s)"
proof -
  let ?f = "perfumeData (image_url (formData d)) (formData d)"
  obtain s1' where w: "write_row (editingPerfume d) ?f s = (Inr (), s1')"
    using assms(6) by (cases "editingPerfume d") (auto simp: write_row_def write_req_def svc_simps Let_def)
  have p: "p = \<lparr>live = d\<lparr>formError := [], isSaving := True\<rparr>,
                saga = Some \<lparr>snap = d, pend = Await_write (image_url (formData d)) (Inr ())\<rparr>\<rparr>"
    and s1: "s1 = s1'"
    using assms(2-5) w by (auto simp: submit_start_def issue_write_def Let_def)
  have cat: "catalog s1 = catalog_write (editingPerfume d) ?f (next_id s) (catalog s)"
    using write_row_catalog [OF assms(1) w] s1 by simp
  have flt: "faults s1 K_select = None"
    using w assms(7) s1
    by (cases "editingPerfume d") (auto simp: write_row_def svc_simps Let_def split: option.splits)
  have "s2 = s1 \<and> saga p2 = saga p" using assms(8,9) by (rule local_run)
  then have d3: "drain p2 s2 =
      (\<lparr>live = (closeModal_closure d ((live p2)\<lparr>perfumes := newest_first (perfumes_tbl s1)\<rparr>))\<lparr>isSaving := False\<rparr>,
        saga = None\<rparr>, snd (select_perfumes s1))"
    using flt p by (simp add: drain_more submit_resume_def svc_simps Let_def)
  have "catalog (snd (select_perfumes s1)) = catalog s1"
    by (simp add: catalog_def svc_simps Let_def split: option.splits)
  then show ?thesis using d3 assms(10) cat by (auto simp: closeModal_closure_def closeModal_def)
qed

text \<open>C15. Two list queries in flight can overwrite each other's result with the older
  one: whenever a save awaits the page's resumption with a list-query answer that
  contains a perfume, and the administrator deletes that perfume (shown on the page)
  before the save resumes, the delete's own refresh shows the list without it, and then
  the save's older answer replaces the list and puts it back on screen although it is
  gone from the table.\<close>

theorem stale_list_after_delete:
  assumes "saga p = Some sv" "pend sv = Await_fetch (Inr rows)" "i \<in> perfume_id ` set rows"
    and "ev_enabled (live p) (Ev_delete i True)" "faults s K_delete = None" "faults s K_select = None"
  shows "\<exists>p1 s1 p2 s2. async_step (User (Ev_delete i True)) p s = Some (p1, s1) \<and>
           i \<notin> perfume_id ` set (perfumes (live p1)) \<and>
           async_step Respond p1 s1 = Some (p2, s2) \<and> perfumes (live p2) = rows \<and>
           i \<in> perfume_id ` set (perfumes (live p2)) \<and> i \<notin> perfume_id ` set (perfumes_tbl s2)"
  using assms
  by (auto simp: handleDelete_def fetchPerfumes_def submit_resume_def closeModal_closure_def closeModal_def
      svc_simps Let_def)

section \<open>Witnesses\<close>

lemma demo_stale_fetch:
  "async_run [User (Ev_submit demo_ue), Respond] \<lparr>live = demo_stale_dash, saga = None\<rparr> demo_svc =
     Some (\<lparr>live = demo_stale_dash\<lparr>formError := [], isSaving := True\<rparr>,
             saga = Some \<lparr>snap = demo_stale_dash,
                         pend = Await_fetch (Inr (newest_first [new_row demo_form 0 1,
                                  new_row (perfumeData ''https://cdn.example/oud.jpg'' (formData demo_new_dash)) 1 2]))\<rparr>\<rparr>,
           snd (select_perfumes (snd (insert_perfume (perfumeData ''https://cdn.example/oud.jpg'' (formData demo_new_dash)) demo_svc))))"
proof -
  have c: "cents 250" by (simp add: cents_def)
  show ?thesis
    using c
    by (simp add: demo_stale_dash_def demo_new_dash_def dash_init_def openModal_def form_constraints_ok_def
        submit_start_def issue_write_def write_row_def submit_resume_def form_invalid_def demo_svc_def
        svc_simps Let_def)
qed

lemma demo_save_start:
  "submit_start demo_ue demo_new_dash demo_svc =
     (\<lparr>live = demo_new_dash\<lparr>formError := [], isSaving := True\<rparr>,
       saga = Some \<lparr>snap = demo_new_dash, pend = Await_write ''https://cdn.example/oud.jpg'' (Inr ())\<rparr>\<rparr>,
      snd (insert_perfume (perfumeData ''https://cdn.example/oud.jpg'' (formData demo_new_dash)) demo_svc))"
  by (simp add: submit_start_def issue_write_def write_row_def demo_new_dash_def openModal_def
      form_invalid_def demo_svc_def svc_simps Let_def)

lemma demo_later_run:
  "\<exists>p2. async_run (map User demo_later_input) (fst (submit_start demo_ue demo_new_dash demo_svc))
          (snd (submit_start demo_ue demo_new_dash demo_svc)) =
        Some (p2, snd (submit_start demo_ue demo_new_dash demo_svc))"
  unfolding demo_save_start
  by (simp add: demo_later_input_def demo_new_dash_def dash_init_def openModal_def
      closeModal_def handler_simps)

theorem save_response_bound_witness:
  "\<exists>p' s'. async_run [User Ev_close, Respond, Respond] (fst (submit_start demo_ue demo_new_dash demo_svc))
             (snd (submit_start demo_ue demo_new_dash demo_svc)) = Some (p', s') \<and>
     (\<forall>ue. User (Ev_submit ue) \<notin> set [User Ev_close, Respond, Respond]) \<and>
     rank p' + 2 \<le> rank (fst (submit_start demo_ue demo_new_dash demo_svc))"
proof -
  obtain p' s' where e: "async_run [User Ev_close, Respond, Respond] (fst (submit_start demo_ue demo_new_dash demo_svc))
             (snd (submit_start demo_ue demo_new_dash demo_svc)) = Some (p', s')"
    unfolding demo_save_start
    by (simp add: demo_new_dash_def dash_init_def openModal_def closeModal_def
        submit_resume_def svc_simps demo_svc_def Let_def)
  have n: "\<forall>ue. User (Ev_submit ue) \<notin> set [User Ev_close, Respond, Respond]" by simp
  show ?thesis using save_response_bound [OF e n] e n by simp
qed

theorem save_writes_snapshot_witness:
  "\<exists>p2. async_run (map User demo_later_input) (fst (submit_start demo_ue demo_new_dash demo_svc))
          (snd (submit_start demo_ue demo_new_dash demo_svc)) =
        Some (p2, snd (submit_start demo_ue demo_new_dash demo_svc)) \<and>
     list_all local_event demo_later_input \<and>
     snd (drain p2 (snd (submit_start demo_ue demo_new_dash demo_svc))) =
     snd (drain (fst (submit_start demo_ue demo_new_dash demo_svc)) (snd (submit_start demo_ue demo_new_dash demo_svc)))"
proof -
  obtain p2 where e: "async_run (map User demo_later_input) (fst (submit_start demo_ue demo_new_dash demo_svc))
          (snd (submit_start demo_ue demo_new_dash demo_svc)) = Some (p2, snd (submit_start demo_ue demo_new_dash demo_svc))"
    using demo_later_run by blast
  have l: "list_all local_event demo_later_input" by (simp add: demo_later_input_def)
  show ?thesis using save_writes_snapshot [OF e l] e l by blast
qed

theorem save_discards_later_input_witness:
  "\<exists>p2 p3 s3. async_run (map User demo_later_input) (fst (submit_start demo_ue demo_new_dash demo_svc))
          (snd (submit_start demo_ue demo_new_dash demo_svc)) =
        Some (p2, snd (submit_start demo_ue demo_new_dash demo_svc)) \<and>
     drain p2 (snd (submit_start demo_ue demo_new_dash demo_svc)) = (p3, s3) \<and>
     \<not> isModalOpen (live p3) \<and> formData (live p3) = initialFormData \<and>
     catalog s3 = (catalog demo_svc)(1 \<mapsto> perfumeData ''https://cdn.example/oud.jpg'' (formData demo_new_dash))"
proof -
  obtain p2 where e: "async_run (map User demo_later_input) (fst (submit_start demo_ue demo_new_dash demo_svc))
          (snd (submit_start demo_ue demo_new_dash demo_svc)) = Some (p2, snd (submit_start demo_ue demo_new_dash demo_svc))"
    using demo_later_run by blast
  obtain p3 s3 where dr: "drain p2 (snd (submit_start demo_ue demo_new_dash demo_svc)) = (p3, s3)"
    by (metis prod.exhaust)
  have st: "submit_start demo_ue demo_new_dash demo_svc =
      (fst (submit_start demo_ue demo_new_dash demo_svc), snd (submit_start demo_ue demo_new_dash demo_svc))"
    by simp
  have h: "selectedImage demo_new_dash = None" "\<not> form_invalid (formData demo_new_dash)"
      "image_url (formData demo_new_dash) \<noteq> []"
      "faults demo_svc (kind_of (write_req demo_new_dash)) = None" "faults demo_svc K_select = None"
      "list_all local_event demo_later_input"
    by (simp_all add: demo_new_dash_def openModal_def form_invalid_def write_req_def demo_svc_def
        demo_later_input_def)
  note r = save_discards_later_input [OF svc_inv_demo st h(1-5) e h(6) dr]
  have "next_id demo_svc = 1" "editingPerfume demo_new_dash = None" "image_url (formData demo_new_dash) = ''https://cdn.example/oud.jpg''"
    by (simp_all add: demo_svc_def demo_new_dash_def openModal_def)
  then show ?thesis using r e dr by (auto simp: catalog_write_def)
qed

theorem stale_list_after_delete_witness:
  "async_run [User (Ev_submit demo_ue), Respond] \<lparr>live = demo_stale_dash, saga = None\<rparr> demo_svc =
     Some (\<lparr>live = demo_stale_dash\<lparr>formError := [], isSaving := True\<rparr>,
             saga = Some \<lparr>snap = demo_stale_dash,
                         pend = Await_fetch (Inr (newest_first [new_row demo_form 0 1,
                                  new_row (perfumeData ''https://cdn.example/oud.jpg'' (formData demo_new_dash)) 1 2]))\<rparr>\<rparr>,
           snd (select_perfumes (snd (insert_perfume (perfumeData ''https://cdn.example/oud.jpg'' (formData demo_new_dash)) demo_svc)))) \<and>
   (\<exists>p1 s1 p2 s2. async_step (User (Ev_delete 0 True))
        \<lparr>live = demo_stale_dash\<lparr>formError := [], isSaving := True\<rparr>,
         saga = Some \<lparr>snap = demo_stale_dash,
                     pend = Await_fetch (Inr (newest_first [new_row demo_form 0 1,
                              new_row (perfumeData ''https://cdn.example/oud.jpg'' (formData demo_new_dash)) 1 2]))\<rparr>\<rparr>
        (snd (select_perfumes (snd (insert_perfume (perfumeData ''https://cdn.example/oud.jpg'' (formData demo_new_dash)) demo_svc))))
      = Some (p1, s1) \<and>
     0 \<notin> perfume_id ` set (perfumes (live p1)) \<and> async_step Respond p1 s1 = Some (p2, s2) \<and>
     perfumes (live p2) = newest_first [new_row demo_form 0 1,
       new_row (perfumeData ''https://cdn.example/oud.jpg'' (formData demo_new_dash)) 1 2] \<and>
     0 \<in> perfume_id ` set (perfumes (live p2)) \<and> 0 \<notin> perfume_id ` set (perfumes_tbl s2))"
proof
  show "async_run [User (Ev_submit demo_ue), Respond] \<lparr>live = demo_stale_dash, saga = None\<rparr> demo_svc =
     Some (\<lparr>live = demo_stale_dash\<lparr>formError := [], isSaving := True\<rparr>,
             saga = Some \<lparr>snap = demo_stale_dash,
                         pend = Await_fetch (Inr (newest_first [new_row demo_form 0 1,
                                  new_row (perfumeData ''https://cdn.example/oud.jpg'' (formData demo_new_dash)) 1 2]))\<rparr>\<rparr>,
           snd (select_perfumes (snd (insert_perfume (perfumeData ''https://cdn.example/oud.jpg'' (formData demo_new_dash)) demo_svc))))"
    by (rule demo_stale_fetch)
next
  show "\<exists>p1 s1 p2 s2. async_step (User (Ev_delete 0 True))
        \<lparr>live = demo_stale_dash\<lparr>formError := [], isSaving := True\<rparr>,
         saga = Some \<lparr>snap = demo_stale_dash,
                     pend = Await_fetch (Inr (newest_first [new_row demo_form 0 1,
                              new_row (perfumeData ''https://cdn.example/oud.jpg'' (formData demo_new_dash)) 1 2]))\<rparr>\<rparr>
        (snd (select_perfumes (snd (insert_perfume (perfumeData ''https://cdn.example/oud.jpg'' (formData demo_new_dash)) demo_svc))))
      = Some (p1, s1) \<and>
     0 \<notin> perfume_id ` set (perfumes (live p1)) \<and> async_step Respond p1 s1 = Some (p2, s2) \<and>
     perfumes (live p2) = newest_first [new_row demo_form 0 1,
       new_row (perfumeData ''https://cdn.example/oud.jpg'' (formData demo_new_dash)) 1 2] \<and>
     0 \<in> perfume_id ` set (perfumes (live p2)) \<and> 0 \<notin> perfume_id ` set (perfumes_tbl s2)"
  by (rule stale_list_after_delete [where sv = "\<lparr>snap = demo_stale_dash,
        pend = Await_fetch (Inr (newest_first [new_row demo_form 0 1,
                 new_row (perfumeData ''https://cdn.example/oud.jpg'' (formData demo_new_dash)) 1 2]))\<rparr>"])
    (simp_all add: newest_first_def new_row_def demo_stale_dash_def demo_new_dash_def dash_init_def
      openModal_def demo_svc_def svc_simps Let_def)
qed

end
