(* ===== verification/Html_Forms.thy ===== *)
theory Html_Forms
  imports Prelude
begin

text \<open>
  What the browser does with the form controls the pages declare. An
  \<open><input type="email">\<close> sanitizes its value (newlines removed, then leading and
  trailing ASCII whitespace stripped) before the page's \<open>onChange\<close> reads
  \<open>e.target.value\<close>, and suffers a type mismatch unless the value is empty or a
  valid e-mail address; a \<open>required\<close> control is missing its value while the value is
  empty. A form is submitted (its \<open>submit\<close> event fired) only when no control is
  invalid, and a form whose submit button is disabled is not submitted at all.
  The grammar is the HTML Standard's:
  \<open>1*(atext / ".") "@" label *("." label)\<close>, a label being 1 to 63 letters, digits and
  hyphens that neither starts nor ends with a hyphen.
\<close>

definition ascii_alnum :: "char \<Rightarrow> bool" where
  "ascii_alnum c \<longleftrightarrow>
     (let n = (of_char c :: nat) in (48 \<le> n \<and> n \<le> 57) \<or> (65 \<le> n \<and> n \<le> 90) \<or> (97 \<le> n \<and> n \<le> 122))"

text \<open>\<open>atext\<close> of RFC 5322 as the HTML Standard uses it, and the dot.\<close>

definition email_local_char :: "char \<Rightarrow> bool" where
  "email_local_char c \<longleftrightarrow> ascii_alnum c \<or> c \<in> set (''.!#$%&*+/=?^_`{|}~-'' @ [CHR 0x27])"

definition email_label_ok :: "string \<Rightarrow> bool" where
  "email_label_ok l \<longleftrightarrow>
     l \<noteq> [] \<and> length l \<le> 63 \<and> ascii_alnum (hd l) \<and> ascii_alnum (last l) \<and>
     list_all (\<lambda>c. ascii_alnum c \<or> c = CHR ''-'') l"

definition valid_email :: "string \<Rightarrow> bool" where
  "valid_email s \<longleftrightarrow>
     (case js_split (CHR ''@'') s of
        [loc, host] \<Rightarrow> loc \<noteq> [] \<and> list_all email_local_char loc \<and>
                      list_all email_label_ok (js_split (CHR ''.'') host)
      | _ \<Rightarrow> False)"

definition ascii_ws :: "char \<Rightarrow> bool" where
  "ascii_ws c \<longleftrightarrow> (of_char c :: nat) \<in> {9, 10, 12, 13, 32}"

definition newline :: "char \<Rightarrow> bool" where
  "newline c \<longleftrightarrow> (of_char c :: nat) \<in> {10, 13}"

definition email_sanitize :: "string \<Rightarrow> string" where
  "email_sanitize v =
     (let v' = filter (\<lambda>c. \<not> newline c) v in
      rev (dropWhile ascii_ws (rev (dropWhile ascii_ws v'))))"

definition password_sanitize :: "string \<Rightarrow> string" where
  "password_sanitize v = filter (\<lambda>c. \<not> newline c) v"

text \<open>Validity of an e-mail control (type mismatch, and value missing when it is
  \<open>required\<close>) and of a required text or password control.\<close>

definition email_control_ok :: "bool \<Rightarrow> string \<Rightarrow> bool" where
  "email_control_ok req v \<longleftrightarrow> (if v = [] then \<not> req else valid_email v)"

definition required_ok :: "string \<Rightarrow> bool" where
  "required_ok v \<longleftrightarrow> v \<noteq> []"

section \<open>Lemmas\<close>

lemma strip_both_idem:
  "rev (dropWhile P (rev (dropWhile P (rev (dropWhile P (rev (dropWhile P s))))))) =
   rev (dropWhile P (rev (dropWhile P s)))"
proof -
  let ?u = "rev (dropWhile P (rev (dropWhile P s)))"
  have "dropWhile P ?u = ?u"
    by (rule dropWhile_rev_dropWhile) (metis hd_dropWhile)
  moreover have "dropWhile P (rev ?u) = rev ?u"
    by (simp add: dropWhile_idem)
  ultimately show ?thesis by simp
qed

lemma email_sanitize_idem [simp]: "email_sanitize (email_sanitize v) = email_sanitize v"
proof -
  let ?f = "filter (\<lambda>c. \<not> newline c) v"
  have "filter (\<lambda>c. \<not> newline c) (rev (dropWhile ascii_ws (rev (dropWhile ascii_ws ?f)))) =
        rev (dropWhile ascii_ws (rev (dropWhile ascii_ws ?f)))"
    by (rule filter_True) (auto dest!: set_dropWhileD)
  then show ?thesis by (simp add: email_sanitize_def Let_def strip_both_idem)
qed

lemma password_sanitize_idem [simp]: "password_sanitize (password_sanitize v) = password_sanitize v"
  by (simp add: password_sanitize_def)

lemma set_js_split: "set s \<subseteq> insert c (\<Union>n \<in> set (js_split c s). set n)"
proof (induction s)
  case (Cons x xs)
  then show ?case by (cases "js_split c xs") (auto simp: Let_def)
qed simp

lemma email_chars_not_ws:
  "email_local_char x \<or> x = CHR ''@'' \<or> x = CHR ''.'' \<or> x = CHR ''-'' \<or> ascii_alnum x \<Longrightarrow>
   \<not> ascii_ws x \<and> \<not> newline x"
  by (auto simp: email_local_char_def ascii_alnum_def ascii_ws_def newline_def Let_def)

lemma valid_email_chars:
  assumes "valid_email v" "x \<in> set v"
  shows "\<not> ascii_ws x \<and> \<not> newline x"
proof -
  obtain loc host where sp: "js_split (CHR ''@'') v = [loc, host]" and
    l: "list_all email_local_char loc" and h: "list_all email_label_ok (js_split (CHR ''.'') host)"
    using assms(1) by (auto simp: valid_email_def split: list.splits)
  have "x = CHR ''@'' \<or> x \<in> set loc \<or> x \<in> set host"
    using set_js_split [of v "CHR ''@''"] sp assms(2) by auto
  moreover have "x = CHR ''.'' \<or> ascii_alnum x \<or> x = CHR ''-''" if "x \<in> set host"
    using set_js_split [of host "CHR ''.''"] h that by (fastforce simp: list_all_iff email_label_ok_def)
  ultimately have "email_local_char x \<or> x = CHR ''@'' \<or> x = CHR ''.'' \<or> x = CHR ''-'' \<or> ascii_alnum x"
    using l by (auto simp: list_all_iff)
  then show ?thesis by (rule email_chars_not_ws)
qed

lemma valid_email_sanitized: "valid_email v \<Longrightarrow> email_sanitize v = v"
proof -
  assume v: "valid_email v"
  then have f: "filter (\<lambda>c. \<not> newline c) v = v" by (auto simp: valid_email_chars)
  have "dropWhile ascii_ws v = v"
    using valid_email_chars [OF v, of "hd v"] by (cases "v = []") (simp_all add: dropWhile_eq_self_iff)
  moreover have "dropWhile ascii_ws (rev v) = rev v"
    using valid_email_chars [OF v, of "last v"] by (cases "v = []") (simp_all add: dropWhile_eq_self_iff hd_rev)
  ultimately show ?thesis by (simp add: email_sanitize_def f)
qed

lemma email_control_required: "email_control_ok True v \<longleftrightarrow> valid_email v"
  by (simp add: email_control_ok_def valid_email_def)

end
