(* ===== verification/Site_Layout.thy ===== *)
theory Site_Layout
  imports Navigation Html_Forms
begin

text \<open>
  The storefront's frame, \<open>src/src/components/Layout.tsx\<close>: the navigation bar's two
  flags (\<open>isMenuOpen\<close>, \<open>isScrolled\<close>), the scroll handler its effect registers on the
  window and removes on unmount, and what the bar renders. The router mounts the layout
  for \<open>/\<close> and \<open>/shop\<close> (its child routes), so the layout and its state survive a
  navigation between those two and are torn down by a navigation anywhere else.
  \<open>site\<close> tracks the current path, the mounted layout if any, and the number of scroll
  listeners registered on the window. The unrouted \<open>src/src/App.tsx\<close> carries an
  older copy of the same bar whose links point at \<open>#\<close>.
\<close>

section \<open>The navigation bar\<close>

record layout =
  isMenuOpen :: bool
  isScrolled :: bool

definition layout_init :: layout where
  "layout_init = \<lparr>isMenuOpen = False, isScrolled = False\<rparr>"

text \<open>\<open>handleScroll\<close> (lines 10--12): \<open>window.scrollY > 20\<close>; the menu button's
  \<open>onClick\<close> (line 39).\<close>

definition handleScroll :: "rat \<Rightarrow> layout \<Rightarrow> layout" where
  "handleScroll y l = l\<lparr>isScrolled := 20 < y\<rparr>"

definition toggleMenu :: "layout \<Rightarrow> layout" where
  "toggleMenu l = l\<lparr>isMenuOpen := \<not> isMenuOpen l\<rparr>"

datatype menu_icon = Icon_X | Icon_Menu

record nav_view =
  nav_class :: string
  nav_icon :: menu_icon
  nav_desktop :: "string list"
  nav_mobile :: "string list"

text \<open>The bar (lines 21--57): its class, the menu button's icon, the desktop links and
  the mobile menu's links, shown only while the menu is open.\<close>

definition render_nav :: "layout \<Rightarrow> nav_view" where
  "render_nav l =
     \<lparr>nav_class = ''fixed w-full z-50 transition-all duration-500 '' @
        (if isScrolled l then ''nav-scrolled glossy-card'' else ''nav-default bg-transparent''),
      nav_icon = (if isMenuOpen l then Icon_X else Icon_Menu),
      nav_desktop = layout_links,
      nav_mobile = (if isMenuOpen l then layout_links else [])\<rparr>"

section \<open>The layout on the site\<close>

text \<open>The router's tree (\<open>main.tsx\<close>, lines 16--30): the paths rendered inside the
  layout.\<close>

definition in_layout :: "string \<Rightarrow> bool" where
  "in_layout p \<longleftrightarrow> route_of p = P_Home \<or> route_of p = P_Shop"

record site =
  path :: string
  lay :: "layout option"
  listeners :: nat

text \<open>Loading the site at a path: the layout mounts with its initial state and its
  effect registers the scroll listener (lines 9--16).\<close>

definition site_load :: "string \<Rightarrow> site" where
  "site_load p =
     (if in_layout p then \<lparr>path = p, lay = Some layout_init, listeners = 1\<rparr>
      else \<lparr>path = p, lay = None, listeners = 0\<rparr>)"

text \<open>A navigation: staying inside the layout keeps it and its state; leaving runs
  the effect's cleanup (\<open>removeEventListener\<close>, line 15); entering mounts a fresh
  layout and registers the listener again.\<close>

definition site_go :: "string \<Rightarrow> site \<Rightarrow> site" where
  "site_go p st =
     (case (lay st, in_layout p) of
        (Some l, True) \<Rightarrow> st\<lparr>path := p\<rparr>
      | (Some l, False) \<Rightarrow> st\<lparr>path := p, lay := None, listeners := listeners st - 1\<rparr>
      | (None, True) \<Rightarrow> st\<lparr>path := p, lay := Some layout_init, listeners := listeners st + 1\<rparr>
      | (None, False) \<Rightarrow> st\<lparr>path := p\<rparr>)"

datatype site_event = S_scroll rat | S_toggle | S_link string | S_visit string | S_subscribe string

text \<open>What a visitor can do: scroll (each registered listener runs the handler), press
  the menu button or follow a link of the bar while the layout is shown (the mobile
  links only while the menu is open, the desktop links always), or go to any address.\<close>

fun site_step :: "site_event \<Rightarrow> site \<Rightarrow> site" where
  "site_step (S_scroll y) st =
     (case lay st of Some l \<Rightarrow> st\<lparr>lay := Some (handleScroll y l)\<rparr> | None \<Rightarrow> st)"
| "site_step S_toggle st = (case lay st of Some l \<Rightarrow> st\<lparr>lay := Some (toggleMenu l)\<rparr> | None \<Rightarrow> st)"
| "site_step (S_link p) st =
     (case lay st of Some l \<Rightarrow> if p \<in> set layout_links then site_go p st else st | None \<Rightarrow> st)"
| "site_step (S_visit p) st = site_go p st"
| "site_step (S_subscribe v) st =
     (if lay st \<noteq> None \<and> route_of (path st) = P_Home \<and> email_control_ok False (email_sanitize v)
      then site_load (path st) else st)"

inductive site_reach :: "site \<Rightarrow> bool" where
  loaded: "site_reach (site_load p)"
| step: "site_reach st \<Longrightarrow> site_reach (site_step e st)"

section \<open>The legacy header of \<open>App.tsx\<close>\<close>

text \<open>\<open>App\<close> (lines 4--60) is not routed. Its bar has the same flags and handlers; its
  five links are anchors to \<open>#\<close>, which change no route.\<close>

definition app_handleScroll :: "rat \<Rightarrow> layout \<Rightarrow> layout" where
  "app_handleScroll y l = l\<lparr>isScrolled := 20 < y\<rparr>"

definition app_toggleMenu :: "layout \<Rightarrow> layout" where
  "app_toggleMenu l = l\<lparr>isMenuOpen := \<not> isMenuOpen l\<rparr>"

definition app_links :: "(string \<times> string) list" where
  "app_links = map (\<lambda>x. (x, ''#'')) [''Home'', ''Collections'', ''New Arrivals'', ''About Us'', ''Contact'']"

section \<open>Properties\<close>

text \<open>C36. The layout's effect cleans up after itself: in every state the site reaches by
  scrolling, pressing the menu button, following links and visiting addresses, the
  window holds exactly one scroll listener while the layout is shown and none while it
  is not, so mounting and unmounting it any number of times never stacks handlers.\<close>

theorem site_reach_one_listener:
  "site_reach st \<Longrightarrow> listeners st = (if lay st = None then 0 else 1)"
proof (induction rule: site_reach.induct)
  case (loaded p)
  then show ?case by (simp add: site_load_def)
next
  case (step st e)
  then show ?case by (cases e) (auto simp: site_go_def site_load_def split: option.splits bool.splits)
qed

text \<open>C37. Following a link of the open mobile menu to a page inside the layout keeps
  the menu open over the new page: no handler closes it, and the router keeps the
  layout and its state mounted.\<close>

theorem mobile_link_keeps_menu_open:
  assumes "lay st = Some l" "isMenuOpen l" "p \<in> set layout_links" "in_layout p"
  shows "lay (site_step (S_link p) st) = Some l \<and> nav_mobile (render_nav l) = layout_links"
  using assms by (simp add: site_go_def render_nav_def)

text \<open>C20. The home page's newsletter form subscribes nobody: pressing Subscribe with a
  valid address (or none) only reloads the site at the same path, which mounts a fresh
  layout (menu closed, bar not scrolled, one scroll listener) and keeps no trace of the
  address; an invalid address is refused by the browser and changes nothing.\<close>

theorem newsletter_submit_reloads:
  assumes "lay st \<noteq> None" "route_of (path st) = P_Home"
  shows "(valid_email v \<or> v = [] \<longrightarrow>
            site_step (S_subscribe v) st = \<lparr>path = path st, lay = Some layout_init, listeners = 1\<rparr>) \<and>
         (email_sanitize v \<noteq> [] \<and> \<not> valid_email (email_sanitize v) \<longrightarrow> site_step (S_subscribe v) st = st)"
  using assms
  by (auto simp: valid_email_sanitized email_control_ok_def site_load_def in_layout_def
      email_sanitize_def [of "[]"])

section \<open>Witnesses\<close>

theorem mobile_link_keeps_menu_open_witness:
  "lay (site_step S_toggle (site_load ''/'')) = Some (toggleMenu layout_init) \<and>
   isMenuOpen (toggleMenu layout_init) \<and> ''/shop'' \<in> set layout_links \<and> in_layout ''/shop'' \<and>
   lay (site_step (S_link ''/shop'') (site_step S_toggle (site_load ''/''))) = Some (toggleMenu layout_init)"
proof -
  have h: "lay (site_step S_toggle (site_load ''/'')) = Some (toggleMenu layout_init)"
      "isMenuOpen (toggleMenu layout_init)" "''/shop'' \<in> set layout_links" "in_layout ''/shop''"
    by (simp_all add: site_load_def in_layout_def route_of_def toggleMenu_def layout_init_def layout_links_def)
  show ?thesis using mobile_link_keeps_menu_open [OF h] h by blast
qed

theorem site_reach_one_listener_witness:
  "site_reach (site_step (S_visit ''/shop'') (site_step (S_visit ''/admin/login'') (site_load ''/''))) \<and>
   listeners (site_step (S_visit ''/shop'') (site_step (S_visit ''/admin/login'') (site_load ''/''))) = 1"
proof -
  have r: "site_reach (site_step (S_visit ''/shop'') (site_step (S_visit ''/admin/login'') (site_load ''/'')))"
    by (intro site_reach.step site_reach.loaded)
  have "lay (site_step (S_visit ''/shop'') (site_step (S_visit ''/admin/login'') (site_load ''/''))) \<noteq> None"
    by (simp add: site_go_def site_load_def in_layout_def route_of_def)
  then show ?thesis using site_reach_one_listener [OF r] r by simp
qed

theorem newsletter_submit_reloads_witness:
  "site_step (S_subscribe ''ann@example.com'') (site_step S_toggle (site_load ''/'')) =
     \<lparr>path = ''/'', lay = Some layout_init, listeners = 1\<rparr> \<and>
   site_step (S_subscribe ''ann'') (site_step S_toggle (site_load ''/'')) = site_step S_toggle (site_load ''/'')"
proof -
  let ?st = "site_step S_toggle (site_load ''/'')"
  have h: "lay ?st \<noteq> None" "route_of (path ?st) = P_Home"
    by (simp_all add: site_load_def in_layout_def route_of_def)
  have v: "valid_email ''ann@example.com''" "email_sanitize ''ann'' \<noteq> []" "\<not> valid_email (email_sanitize ''ann'')"
    by code_simp+
  show ?thesis using newsletter_submit_reloads [OF h, of "''ann@example.com''"] newsletter_submit_reloads [OF h, of "''ann''"] v
    by (simp add: site_load_def)
qed

end
