(* ===== verification/Markup.thy ===== *)
theory Markup
  imports Prelude
begin

text \<open>
  The element trees the pages render, and the HTML Standard's content model as a
  well-formedness judgement on them. A node is an element (its tag, its attributes as
  written in the JSX, its children) or a text run; \<open>Icon\<close> stands for a
  \<open>lucide-react\<close> icon component, which renders one \<open>svg\<close> (phrasing content);
  \<open>Num\<close> is a text run showing a JavaScript number (the engine's conversion of the
  number to a string is not modelled). A
  router \<open>Link\<close> renders an \<open>a\<close> element whose \<open>href\<close> is its \<open>to\<close>. React's
  \<open>key\<close> is not rendered and is left out.
\<close>

datatype tag = Div | Section | Nav | Footer | Form | H1 | H2 | H3 | H4 | H5 | Para | Span | Label
  | Img | Input | Button | Anchor

datatype attr = Class string | Href string | Src string | Alt string | Type string
  | Placeholder string | Id string | For string | Required | Disabled bool | Value string
  | AutoComplete string | OnClick string | OnSubmit string | OnChange string | Style string

datatype node = El tag "attr list" "node list" | Txt string | Icon string | Num rat

text \<open>All nodes of a tree, the tree itself first (document order).\<close>

primrec nodes :: "node \<Rightarrow> node list" and nodes_list :: "node list \<Rightarrow> node list" where
  "nodes (El t as cs) = El t as cs # nodes_list cs"
| "nodes (Txt s) = [Txt s]"
| "nodes (Icon i) = [Icon i]"
| "nodes (Num r) = [Num r]"
| "nodes_list [] = []"
| "nodes_list (c # cs) = nodes c @ nodes_list cs"

fun tag_of :: "node \<Rightarrow> tag option" where
  "tag_of (El t _ _) = Some t"
| "tag_of _ = None"

fun attrs_of :: "node \<Rightarrow> attr list" where
  "attrs_of (El _ as _) = as"
| "attrs_of _ = []"

text \<open>Interactive content: \<open>a\<close> with an \<open>href\<close>, \<open>button\<close>, \<open>input\<close> (none of the pages
  declares a hidden one) and \<open>label\<close>.\<close>

definition has_href :: "attr list \<Rightarrow> bool" where
  "has_href as \<longleftrightarrow> list_ex (\<lambda>a. case a of Href _ \<Rightarrow> True | _ \<Rightarrow> False) as"

fun interactive :: "node \<Rightarrow> bool" where
  "interactive (El Anchor as _) = has_href as"
| "interactive (El Button _ _) = True"
| "interactive (El Input _ _) = True"
| "interactive (El Label _ _) = True"
| "interactive _ = False"

definition no_interactive :: "node list \<Rightarrow> bool" where
  "no_interactive cs \<longleftrightarrow> \<not> list_ex interactive (nodes_list cs)"

definition no_form :: "node list \<Rightarrow> bool" where
  "no_form cs \<longleftrightarrow> \<not> list_ex (\<lambda>n. tag_of n = Some Form) (nodes_list cs)"

text \<open>Phrasing content (text, icons, images, inputs, and buttons, labels and links
  whose children are phrasing) and flow content (phrasing content, the sectioning and
  grouping elements, headings and paragraphs holding phrasing content, forms holding
  no form, and links, transparent, in a flow context). Buttons and links hold no
  interactive content.\<close>

primrec phrasing :: "node \<Rightarrow> bool" and phrasing_list :: "node list \<Rightarrow> bool" where
  "phrasing (El t as cs) =
     (case t of
        Img \<Rightarrow> cs = []
      | Input \<Rightarrow> cs = []
      | Button \<Rightarrow> phrasing_list cs \<and> no_interactive cs
      | Label \<Rightarrow> phrasing_list cs \<and> no_interactive cs
      | Anchor \<Rightarrow> phrasing_list cs \<and> no_interactive cs
      | Span \<Rightarrow> phrasing_list cs
      | _ \<Rightarrow> False)"
| "phrasing (Txt s) = True"
| "phrasing (Icon i) = True"
| "phrasing (Num r) = True"
| "phrasing_list [] = True"
| "phrasing_list (c # cs) = (phrasing c \<and> phrasing_list cs)"

primrec flow :: "node \<Rightarrow> bool" and flow_list :: "node list \<Rightarrow> bool" where
  "flow (El t as cs) =
     (case t of
        Div \<Rightarrow> flow_list cs
      | Section \<Rightarrow> flow_list cs
      | Nav \<Rightarrow> flow_list cs
      | Footer \<Rightarrow> flow_list cs
      | Form \<Rightarrow> flow_list cs \<and> no_form cs
      | Anchor \<Rightarrow> flow_list cs \<and> no_interactive cs
      | H1 \<Rightarrow> phrasing_list cs
      | H2 \<Rightarrow> phrasing_list cs
      | H3 \<Rightarrow> phrasing_list cs
      | H4 \<Rightarrow> phrasing_list cs
      | H5 \<Rightarrow> phrasing_list cs
      | Para \<Rightarrow> phrasing_list cs
      | _ \<Rightarrow> phrasing (El t as cs))"
| "flow (Txt s) = True"
| "flow (Icon i) = True"
| "flow (Num r) = True"
| "flow_list [] = True"
| "flow_list (c # cs) = (flow c \<and> flow_list cs)"

text \<open>The link targets of a tree, in document order, and its click handlers.\<close>

definition hrefs :: "node \<Rightarrow> string list" where
  "hrefs n = concat (map (\<lambda>m. List.map_filter (\<lambda>a. case a of Href h \<Rightarrow> Some h | _ \<Rightarrow> None) (attrs_of m)) (nodes n))"

text \<open>Elements styled as clickable (\<open>cursor-pointer\<close>) with neither a link target nor
  a click handler on themselves or inside.\<close>

definition acts :: "node \<Rightarrow> bool" where
  "acts n \<longleftrightarrow> list_ex (\<lambda>m. list_ex (\<lambda>a. case a of Href _ \<Rightarrow> True | OnClick _ \<Rightarrow> True | _ \<Rightarrow> False) (attrs_of m)) (nodes n)"

definition pointer_styled :: "node \<Rightarrow> bool" where
  "pointer_styled n \<longleftrightarrow> list_ex (\<lambda>a. case a of Class c \<Rightarrow> js_includes c ''cursor-pointer'' | _ \<Rightarrow> False) (attrs_of n)"

text \<open>Buttons that do nothing when pressed: no click handler and not a submit button
  (every button of the pages without \<open>type\<close> is outside a form).\<close>

definition inert_button :: "node \<Rightarrow> bool" where
  "inert_button n \<longleftrightarrow>
     tag_of n = Some Button \<and>
     \<not> list_ex (\<lambda>a. case a of OnClick _ \<Rightarrow> True | Type t \<Rightarrow> t = ''submit'' | _ \<Rightarrow> False) (attrs_of n)"

definition inert_buttons :: "node \<Rightarrow> node list" where
  "inert_buttons n = filter inert_button (nodes n)"

definition dead_pointers :: "node \<Rightarrow> node list" where
  "dead_pointers n = filter (\<lambda>m. pointer_styled m \<and> \<not> acts m) (nodes n)"

section \<open>Lemmas\<close>

text \<open>The judgements and queries distribute over lists of children.\<close>

lemma nodes_list_append [simp]: "nodes_list (xs @ ys) = nodes_list xs @ nodes_list ys"
  by (induction xs) simp_all

lemma nodes_list_concat: "nodes_list cs = concat (map nodes cs)"
  by (induction cs) simp_all

lemma inert_buttons_El:
  "inert_buttons (El t as cs) = filter inert_button [El t as cs] @ concat (map inert_buttons cs)"
  by (simp add: inert_buttons_def [abs_def] nodes_list_concat filter_concat comp_def)

lemma concat_map_concat: "concat (map f (concat xss)) = concat (map (\<lambda>xs. concat (map f xs)) xss)"
  by (induction xss) simp_all

lemma hrefs_El:
  "hrefs (El t as cs) =
     List.map_filter (\<lambda>a. case a of Href h \<Rightarrow> Some h | _ \<Rightarrow> None) as @ concat (map hrefs cs)"
  by (simp add: hrefs_def [abs_def] nodes_list_concat concat_map_concat comp_def)

lemma hrefs_leaf [simp]:
  "hrefs (Txt s) = []" "hrefs (Icon i) = []" "hrefs (Num r) = []"
  by (simp_all add: hrefs_def List.map_filter_def)

lemma inert_buttons_leaf [simp]:
  "inert_buttons (Txt s) = []" "inert_buttons (Icon i) = []" "inert_buttons (Num r) = []"
  by (simp_all add: inert_buttons_def inert_button_def)

lemma dead_pointers_El:
  "dead_pointers (El t as cs) =
     filter (\<lambda>m. pointer_styled m \<and> \<not> acts m) [El t as cs] @ concat (map dead_pointers cs)"
  by (simp add: dead_pointers_def [abs_def] nodes_list_concat filter_concat comp_def)

lemma nodes_list_map: "nodes_list (map f xs) = concat (map (\<lambda>x. nodes (f x)) xs)"
  by (induction xs) simp_all

lemma flow_list_append [simp]: "flow_list (xs @ ys) \<longleftrightarrow> flow_list xs \<and> flow_list ys"
  by (induction xs) simp_all

lemma flow_list_map [simp]: "flow_list (map f xs) \<longleftrightarrow> list_all (\<lambda>x. flow (f x)) xs"
  by (induction xs) simp_all

lemma phrasing_list_map [simp]: "phrasing_list (map f xs) \<longleftrightarrow> list_all (\<lambda>x. phrasing (f x)) xs"
  by (induction xs) simp_all

end
