(* ===== verification/Login_UI.thy ===== *)
theory Login_UI
  imports Auth_Gate Html_Forms
begin

text \<open>
  The sign-in page of \<open>src/src/pages/AdminLogin.tsx\<close> as the visitor uses it: the two
  controlled inputs (lines 91--99 and 106--114), the form whose \<open>onSubmit\<close> is
  \<open>handleLogin\<close> (line 86) behind the browser's constraint validation and the
  \<open>disabled={loading}\<close> submit button (lines 117--123), and what the page renders
  (lines 67--128). The page's events form a reachability relation from its mount
  (\<open>checkSession\<close> found no session) that ends when the page navigates away.
\<close>

section \<open>Inputs and submission\<close>

text \<open>The \<open>onChange\<close> handlers of lines 95 and 110 store \<open>e.target.value\<close>, the
  value the browser sanitized for an e-mail and a password control.\<close>

definition onEmailChange :: "string \<Rightarrow> login \<Rightarrow> login" where
  "onEmailChange v l = l\<lparr>login_email := email_sanitize v\<rparr>"

definition onPasswordChange :: "string \<Rightarrow> login \<Rightarrow> login" where
  "onPasswordChange v l = l\<lparr>login_password := password_sanitize v\<rparr>"

text \<open>The form's constraints: the e-mail input is \<open>type="email"\<close> and \<open>required\<close>,
  the password input \<open>required\<close>.\<close>

definition login_form_valid :: "login \<Rightarrow> bool" where
  "login_form_valid l \<longleftrightarrow> email_control_ok True (login_email l) \<and> required_ok (login_password l)"

text \<open>Pressing Sign In (or Enter in a field): nothing while the button is disabled;
  the browser reports the first invalid control and fires no \<open>submit\<close> event while the
  constraints fail; otherwise \<open>handleLogin\<close> runs.\<close>

definition login_submit :: "timestamp \<Rightarrow> login \<Rightarrow> svc \<Rightarrow> login \<times> svc \<times> string option" where
  "login_submit now l s =
     (if login_loading l then (l, s, None)
      else if \<not> login_form_valid l then (l, s, None)
      else handleLogin now l s)"

section \<open>Rendering\<close>

record login_view =
  lv_alert :: "string option"
  lv_email :: string
  lv_password :: string
  lv_button :: string
  lv_disabled :: bool

text \<open>The alert box is rendered when \<open>error\<close> is a non-empty string (line 79); the
  button reads ``Signing in...'' and is disabled while \<open>loading\<close>.\<close>

definition render_login :: "login \<Rightarrow> login_view" where
  "render_login l =
     \<lparr>lv_alert = (if login_error l = [] then None else Some (login_error l)),
      lv_email = login_email l, lv_password = login_password l,
      lv_button = (if login_loading l then ''Signing in...'' else ''Sign In''),
      lv_disabled = login_loading l\<rparr>"

section \<open>The page's events\<close>

datatype login_event = L_email string | L_password string | L_submit timestamp

fun login_step :: "login_event \<Rightarrow> login \<Rightarrow> svc \<Rightarrow> login \<times> svc \<times> string option" where
  "login_step (L_email v) l s = (onEmailChange v l, s, None)"
| "login_step (L_password v) l s = (onPasswordChange v l, s, None)"
| "login_step (L_submit now) l s = login_submit now l s"

text \<open>The states of a mounted sign-in page: it mounts with empty fields when
  \<open>checkSession\<close> finds no session, and stays mounted while no event navigates.\<close>

inductive login_reach :: "svc \<Rightarrow> login \<Rightarrow> svc \<Rightarrow> bool" for s0 :: svc where
  mount: "checkSession s0 = None \<Longrightarrow> login_reach s0 login_init s0"
| step: "login_reach s0 l s \<Longrightarrow> login_step ev l s = (l', s', None) \<Longrightarrow> login_reach s0 l' s'"

text \<open>Running a sequence of events on the mounted page; \<open>None\<close> once an event
  navigates away.\<close>

fun login_run :: "login_event list \<Rightarrow> login \<Rightarrow> svc \<Rightarrow> (login \<times> svc) option" where
  "login_run [] l s = Some (l, s)"
| "login_run (ev # evs) l s =
     (case login_step ev l s of (l', s', None) \<Rightarrow> login_run evs l' s' | _ \<Rightarrow> None)"

text \<open>The e-mail carried by a request to the service, if any.\<close>

fun req_email :: "request \<Rightarrow> string option" where
  "req_email (Auth_sign_in e) = Some e"
| "req_email (Q_admin_by_email e) = Some e"
| "req_email (Q_touch_admin e) = Some e"
| "req_email _ = None"

definition email_typed :: "request \<Rightarrow> bool" where
  "email_typed r \<longleftrightarrow> (case req_email r of Some e \<Rightarrow> valid_email e | None \<Rightarrow> True)"

text \<open>A visitor who pastes the identity \<open>guest@fragrance.com\<close> with surrounding
  blanks, first submits with an empty password, then with the right one.\<close>

definition demo_login_events :: "login_event list" where
  "demo_login_events =
     [L_email '' guest@fragrance.com '', L_submit 5, L_password ''guest'', L_submit 7]"

section \<open>Properties\<close>

lemma handleLogin_frame:
  assumes "handleLogin now l s = (l', s', nav)"
  shows "(\<exists>new. calls s' = calls s @ new \<and> (\<forall>r \<in> set new. req_email r = None \<or> req_email r = Some (login_email l))) \<and>
         login_email l' = login_email l \<and> login_password l' = login_password l \<and> \<not> login_loading l' \<and>
         faults s' = faults s"
  using assms
  by (auto simp: handleLogin_def login_fail_def svc_simps Let_def split: option.splits if_splits sum.splits prod.splits)

lemma handleLogin_stays_signed_out:
  assumes "handleLogin now l s = (l', s', None)" "session s = None" "faults s K_sign_out = None"
  shows "session s' = None"
  using assms
  by (auto simp: handleLogin_def login_fail_def svc_simps Let_def split: option.splits if_splits sum.splits prod.splits)

text \<open>C16. The sign-in page's values are typed: on the mounted page the stored e-mail
  and password are always values the browser's sanitization leaves unchanged, the page
  is idle between events, and every request it sends to the service that carries an
  e-mail (sign-in, administrator lookup, last-login update) carries a valid e-mail
  address in the HTML Standard's sense.\<close>

theorem login_reach_typed:
  "login_reach s0 l s \<Longrightarrow>
     email_sanitize (login_email l) = login_email l \<and> password_sanitize (login_password l) = login_password l \<and>
     \<not> login_loading l \<and> (\<exists>new. calls s = calls s0 @ new \<and> list_all email_typed new)"
proof (induction rule: login_reach.induct)
  case mount
  then show ?case by (simp add: login_init_def email_sanitize_def password_sanitize_def)
next
  case (step l s ev l' s')
  show ?case
  proof (cases ev)
    case (L_submit now)
    show ?thesis
    proof (cases "login_loading l \<or> \<not> login_form_valid l")
      case True
      with step L_submit show ?thesis by (auto simp: login_submit_def split: if_splits)
    next
      case False
      then have v: "valid_email (login_email l)"
        by (simp add: login_form_valid_def email_control_required)
      from False step.hyps(2) L_submit have h: "handleLogin now l s = (l', s', None)"
        by (simp add: login_submit_def)
      from handleLogin_frame [OF h] obtain new where
        n: "calls s' = calls s @ new" "\<forall>r \<in> set new. req_email r = None \<or> req_email r = Some (login_email l)"
        and f: "login_email l' = login_email l" "login_password l' = login_password l" "\<not> login_loading l'"
        by blast
      from n(2) v have "list_all email_typed new"
        by (auto simp: list_all_iff email_typed_def split: option.splits)
      with step.IH n(1) f show ?thesis by auto
    qed
  qed (use step in \<open>auto simp: onEmailChange_def onPasswordChange_def\<close>)
qed

lemma login_step_faults:
  "login_step ev l s = (l', s', nav) \<Longrightarrow> faults s' = faults s"
  by (cases ev) (auto simp: onEmailChange_def onPasswordChange_def login_submit_def
      dest!: handleLogin_frame [THEN conjunct2, THEN conjunct2, THEN conjunct2, THEN conjunct2] split: if_splits)

text \<open>C17. While the sign-in page stays mounted nobody is signed in: the page mounts
  only without a session, rejected credentials create none, and an identity that is
  not an administrator is signed out again, as long as the sign-out request goes
  through (the service's failure modes do not change on the page).\<close>

theorem login_page_signed_out:
  "login_reach s0 l s \<Longrightarrow> faults s0 K_sign_out = None \<Longrightarrow> session s = None \<and> faults s = faults s0"
proof (induction rule: login_reach.induct)
  case mount
  then show ?case by (simp add: checkSession_def get_session_def split: option.splits)
next
  case (step l s ev l' s')
  then have "session s = None" "faults s K_sign_out = None" "faults s' = faults s0"
    using login_step_faults [OF step.hyps(2)] by auto
  with step.hyps(2) show ?case
    by (cases ev) (auto simp: onEmailChange_def onPasswordChange_def login_submit_def
        dest!: handleLogin_stays_signed_out split: if_splits)
qed
lemma login_run_reach:
  "login_reach s0 l s \<Longrightarrow> login_run evs l s = Some (l', s') \<Longrightarrow> login_reach s0 l' s'"
proof (induction evs arbitrary: l s)
  case (Cons ev evs)
  then show ?case
    by (cases "login_step ev l s") (auto intro: login_reach.step split: option.splits)
qed simp

lemma demo_login_run:
  "login_run demo_login_events login_init demo_svc =
     Some (login_init\<lparr>login_email := ''guest@fragrance.com'', login_password := ''guest'',
                      login_error := ''Unauthorized access''\<rparr>,
           demo_svc\<lparr>calls := [Auth_sign_in ''guest@fragrance.com'', Q_admin_by_email ''guest@fragrance.com'',
                                Auth_sign_out]\<rparr>)"
  by (simp add: demo_login_events_def onEmailChange_def onPasswordChange_def login_submit_def
      login_form_valid_def email_control_ok_def required_ok_def valid_email_def email_label_ok_def
      email_local_char_def ascii_alnum_def email_sanitize_def password_sanitize_def ascii_ws_def newline_def
      handleLogin_def login_fail_def svc_simps demo_svc_def login_init_def js_lower_def lower_char_def Let_def)
section \<open>Witnesses\<close>

lemma demo_login_reach:
  "login_reach demo_svc
     (login_init\<lparr>login_email := ''guest@fragrance.com'', login_password := ''guest'',
                 login_error := ''Unauthorized access''\<rparr>)
     (demo_svc\<lparr>calls := [Auth_sign_in ''guest@fragrance.com'', Q_admin_by_email ''guest@fragrance.com'',
                          Auth_sign_out]\<rparr>)"
proof -
  have "login_reach demo_svc login_init demo_svc"
    by (rule login_reach.mount) (simp add: checkSession_def get_session_def demo_svc_def)
  then show ?thesis using login_run_reach demo_login_run by blast
qed

theorem login_reach_typed_witness:
  "list_all email_typed [Auth_sign_in ''guest@fragrance.com'', Q_admin_by_email ''guest@fragrance.com'',
                         Auth_sign_out] \<and>
   email_sanitize ''guest@fragrance.com'' = ''guest@fragrance.com''"
  using login_reach_typed [OF demo_login_reach] by (simp add: demo_svc_def)

theorem login_page_signed_out_witness:
  "faults demo_svc K_sign_out = None \<and> session (demo_svc\<lparr>calls := [Auth_sign_in ''guest@fragrance.com'', Q_admin_by_email ''guest@fragrance.com'',
                                Auth_sign_out]\<rparr>) = None"
  using login_page_signed_out [OF demo_login_reach] by (simp add: demo_svc_def)

end
