(* ===== verification/Site_Pages.thy ===== *)
theory Site_Pages
  imports Site_Layout Markup Login_UI
begin

text \<open>
  The markup of the storefront's pages as element trees (\<open>Markup\<close>): the layout of
  \<open>src/src/components/Layout.tsx\<close> with its navigation bar, the routed page in its
  \<open>Outlet\<close> and its footer; the home page \<open>src/src/pages/Home.tsx\<close>; the shop
  \<open>src/src/pages/Shop.tsx\<close>; the sign-in page
  \<open>src/src/pages/AdminLogin.tsx\<close>; and the unrouted \<open>src/src/App.tsx\<close>. Class names
  are kept as written, since the footer's clickable look comes from them. The home
  page's newsletter form has no \<open>onSubmit\<close>: the browser submits it itself, a GET to
  the page's own address, which reloads the site.
\<close>

section \<open>The layout\<close>

definition nav_items :: "(string \<times> string) list" where
  "nav_items = [(''/'', ''Home''), (''/shop'', ''Collections''), (''/new-arrivals'', ''New Arrivals''),
                (''/about'', ''About Us''), (''/contact'', ''Contact'')]"

text \<open>The bar (lines 21--57): the brand link, the five desktop links, the menu button
  and, while the menu is open, the five mobile links.\<close>

definition nav_markup :: "layout \<Rightarrow> node" where
  "nav_markup l =
     El Nav [Class (nav_class (render_nav l))]
       ([El Div [Class ''max-w-7xl mx-auto px-4 sm:px-6 lg:px-8'']
          [El Div [Class ''flex justify-between items-center h-20'']
            [El Anchor [Href ''/'', Class ''text-3xl font-cormorant font-bold''] [Txt ''FRAGRANCE''],
             El Div [Class ''hidden md:flex space-x-8'']
               (map (\<lambda>(h, t). El Anchor [Href h, Class ''nav-link font-inter text-sm tracking-wide''] [Txt t]) nav_items),
             El Button [Class ''md:hidden rounded-full w-10 h-10 flex items-center justify-center border border-stone-200'',
                        OnClick ''toggleMenu'']
               [Icon (if isMenuOpen l then ''X'' else ''Menu'')]]]] @
        (if isMenuOpen l then
           [El Div [Class ''md:hidden'']
             [El Div [Class ''px-2 pt-2 pb-3 space-y-1 glossy-card rounded-3xl mx-4 mt-2'']
               (map (\<lambda>(h, t). El Anchor [Href h, Class ''block px-6 py-3 text-base font-medium nav-link rounded-full hover:bg-white/50'']
                                 [Txt t]) nav_items)]]
         else []))"

text \<open>The footer (lines 62--115): brand, contact lines, four quick links rendered as
  paragraphs, three social icons.\<close>

definition quick_links :: "string list" where
  "quick_links = [''FAQ'', ''Shipping'', ''Returns'', ''Privacy Policy'']"

definition layout_footer :: node where
  "layout_footer =
     El Footer [Class ''bg-stone-900 text-white py-16 rounded-t-[3rem]'']
       [El Div [Class ''max-w-7xl mx-auto px-4 grid md:grid-cols-4 gap-12'']
         [El Div []
           [El H4 [Class ''font-cormorant text-2xl mb-6''] [Txt ''FRAGRANCE''],
            El Para [Class ''text-stone-400 text-sm''] [Txt ''Crafting exceptional fragrances that capture moments and memories.'']],
          El Div []
           [El H5 [Class ''font-cormorant text-xl mb-4''] [Txt ''Contact''],
            El Div [Class ''space-y-4 text-stone-400'']
              [El Para [Class ''flex items-center gap-2''] [Icon ''MapPin'', Txt ''123 Luxury Lane, Paris''],
               El Para [Class ''flex items-center gap-2''] [Icon ''Phone'', Txt ''+33 1 23 45 67 89''],
               El Para [Class ''flex items-center gap-2''] [Icon ''Mail'', Txt ''contact@fragrance.com'']]],
          El Div []
           [El H5 [Class ''font-cormorant text-xl mb-4''] [Txt ''Quick Links''],
            El Div [Class ''space-y-2 text-stone-400'']
              (map (\<lambda>q. El Para [Class ''hover:text-white cursor-pointer''] [Txt q]) quick_links)],
          El Div []
           [El H5 [Class ''font-cormorant text-xl mb-4''] [Txt ''Follow Us''],
            El Div [Class ''flex space-x-4'']
              [El Div [Class ''social-icon''] [Icon ''Instagram''],
               El Div [Class ''social-icon''] [Icon ''Facebook''],
               El Div [Class ''social-icon''] [Icon ''Twitter'']]]]]"

text \<open>The layout around the routed page's nodes (lines 18--117).\<close>

definition layout_page :: "layout \<Rightarrow> node list \<Rightarrow> node" where
  "layout_page l outlet = El Div [Class ''min-h-screen bg-cream''] (nav_markup l # outlet @ [layout_footer])"

section \<open>The home page\<close>

definition featured_products :: "(string \<times> string \<times> string) list" where
  "featured_products =
     [(featured_names ! 0, ''https://images.unsplash.com/photo-1588405748880-12d1d2a59f75?auto=format&fit=crop&q=80'', ''$285''),
      (featured_names ! 1, ''https://images.unsplash.com/photo-1590736969955-71cc94901144?auto=format&fit=crop&q=80'', ''$320''),
      (featured_names ! 2, ''https://images.unsplash.com/photo-1594035910387-fea47794261f?auto=format&fit=crop&q=80'', ''$295'')]"

definition hero_image :: node where
  "hero_image =
     El Div [Class ''absolute inset-0'']
       [El Img [Src ''https://images.unsplash.com/photo-1615634260167-c8cdede054de?auto=format&fit=crop&q=80'',
                Alt ''Luxury perfume bottles'', Class ''w-full h-full object-cover''] [],
        El Div [Class ''absolute inset-0 hero-gradient''] []]"

text \<open>The hero (lines 8--30), whose call to action is a router link to the shop.\<close>

definition home_hero :: node where
  "home_hero =
     El Section [Class ''relative h-screen'']
       [hero_image,
        El Div [Class ''relative max-w-7xl mx-auto px-4 h-full flex items-center'']
          [El Div [Class ''max-w-xl glossy-card p-12 rounded-3xl'']
            [El H2 [Class ''text-6xl font-cormorant font-light mb-6''] [Txt ''Discover Your Signature Scent''],
             El Para [Class ''text-lg mb-8 font-inter font-light'']
               [Txt ''Explore our curated collection of luxury fragrances, each telling its own unique story.''],
             El Anchor [Href ''/shop'', Class ''btn-primary inline-block''] [Txt ''Shop Collection'']]]]"

text \<open>A product card: an image and the name and price; on the home page it is a
  router link (line 54), in \<open>App\<close> a plain \<open>div\<close> (line 109).\<close>

definition card_body :: "string \<times> string \<times> string \<Rightarrow> node list" where
  "card_body p =
     (case p of (nm, img, pr) \<Rightarrow>
       [El Div [Class ''relative overflow-hidden rounded-3xl'']
          [El Img [Src img, Alt nm,
                   Class ''w-full h-[400px] object-cover transition-transform duration-700 group-hover:scale-105''] []],
        El Div [Class ''p-6''] [El H4 [Class ''font-cormorant text-xl''] [Txt nm], El Para [Class ''text-gold''] [Txt pr]]])"

definition home_card :: "string \<times> string \<times> string \<Rightarrow> node" where
  "home_card p = El Anchor [Href (featured_link (fst p)), Class ''group cursor-pointer product-card''] (card_body p)"

definition featured_section :: "node list \<Rightarrow> node" where
  "featured_section cards =
     El Section [Class ''py-24 bg-white'']
       [El Div [Class ''max-w-7xl mx-auto px-4'']
         [El H3 [Class ''text-4xl font-cormorant text-center mb-16''] [Txt ''Featured Collections''],
          El Div [Class ''grid md:grid-cols-3 gap-8''] cards]]"

text \<open>The newsletter (lines 73--92): an e-mail input with no name, no \<open>required\<close> and
  no handler, in a form with no \<open>onSubmit\<close>.\<close>

definition newsletter_section :: node where
  "newsletter_section =
     El Section [Class ''py-24 bg-cream'']
       [El Div [Class ''max-w-xl mx-auto px-4 text-center'']
         [El Div [Class ''glossy-card p-12 rounded-3xl'']
           [El H3 [Class ''text-4xl font-cormorant mb-6''] [Txt ''Join Our World''],
            El Para [Class ''mb-8 text-stone-600'']
              [Txt ''Subscribe to receive exclusive updates, early access to new collections, and personalized fragrance recommendations.''],
            El Form [Class ''flex flex-col sm:flex-row gap-4'']
              [El Input [Type ''email'', Placeholder ''Enter your email'', Class ''newsletter-input''] [],
               El Button [Type ''submit'', Class ''btn-primary whitespace-nowrap''] [Txt ''Subscribe'']]]]]"

definition home_page :: "node list" where
  "home_page = [home_hero, featured_section (map home_card featured_products), newsletter_section]"

section \<open>The shop page\<close>

text \<open>A product card of the grid (\<open>Shop.tsx\<close>, lines 110--138): image, name,
  category, price (the text \<open>$\<close> followed by the number), description, one tag per
  note, and an Add to Cart button with no handler.\<close>

definition add_to_cart :: node where
  "add_to_cart = El Button [Class ''w-full btn-primary mt-6''] [Txt ''Add to Cart'']"

definition shop_card :: "perfume \<Rightarrow> node" where
  "shop_card p =
     El Div [Class ''group product-card'']
       [El Div [Class ''relative overflow-hidden rounded-3xl'', Style ''height: 400px'']
          [El Img [Src (image_url p), Alt (name p),
                   Class ''w-full h-full object-cover transition-transform duration-700 group-hover:scale-105''] []],
        El Div [Class ''p-6'']
          [El Div [Class ''flex justify-between items-start mb-2'']
             [El Div []
                [El H3 [Class ''font-cormorant text-xl mb-1''] [Txt (name p)],
                 El Para [Class ''text-sm text-stone-500''] [Txt (category p)]],
              El Para [Class ''text-gold font-medium''] [Txt ''$'', Num (price p)]],
           El Para [Class ''text-stone-600 text-sm mb-4''] [Txt (description p)],
           El Div [Class ''flex flex-wrap gap-2'']
             (map (\<lambda>n. El Span [Class ''text-xs px-3 py-1 rounded-full bg-stone-100''] [Txt n]) (notes_list p)),
           add_to_cart]]"

text \<open>The heading and the search and filter bar (lines 47--90): the search box, the
  mobile Filters toggle, and one button per category, dark for the selected one.\<close>

definition shop_controls :: "shop \<Rightarrow> node list" where
  "shop_controls sh =
     [El Div [Class ''text-center mb-16'']
        [El H1 [Class ''text-5xl font-cormorant mb-4''] [Txt ''Our Collection''],
         El Para [Class ''text-stone-600 max-w-2xl mx-auto'']
           [Txt ''Discover our curated selection of luxury fragrances, each carefully crafted to tell a unique story.'']],
      El Div [Class ''mb-12'']
        [El Div [Class ''flex flex-col md:flex-row gap-4 items-center justify-between'']
          [El Div [Class ''relative flex-1 max-w-md'']
             [Icon ''Search'',
              El Input [Type ''text'', Placeholder ''Search fragrances...'',
                        Class ''w-full pl-12 pr-4 py-3 rounded-full border border-stone-200 focus:border-stone-400 outline-none'',
                        Value (searchQuery sh), OnChange ''setSearchQuery''] []],
           El Button [OnClick ''setShowFilters'',
                      Class ''md:hidden flex items-center gap-2 px-4 py-2 rounded-full border border-stone-200'']
             [Icon ''Filter'', Txt ''Filters''],
           El Div [Class ((if showFilters sh then ''flex'' else ''hidden'') @ '' md:flex gap-2 flex-wrap'')]
             (map (\<lambda>c. El Button [OnClick (''setSelectedCategory '' @ c),
                                 Class (''px-6 py-2 rounded-full transition-colors '' @
                                        (if selectedCategory sh = c then ''bg-stone-800 text-white''
                                         else ''bg-white border border-stone-200 hover:border-stone-400''))]
                       [Txt c]) CATEGORIES)]]]"

text \<open>The page (lines 44--151): the controls, then the blocks \<open>render_shop\<close> selects:
  spinner, error message, product grid, no-results note.\<close>

definition shop_markup :: "shop \<Rightarrow> node" where
  "shop_markup sh =
     El Div [Class ''pt-32 pb-24'']
       [El Div [Class ''max-w-7xl mx-auto px-4'']
         (shop_controls sh @
          (if v_spinner (render_shop sh)
           then [El Div [Class ''flex justify-center items-center py-12''] [Icon ''Loader2'']] else []) @
          (case v_error (render_shop sh) of
             Some e \<Rightarrow> [El Div [Class ''text-center py-12''] [El Para [Class ''text-red-600''] [Txt e]]]
           | None \<Rightarrow> []) @
          (case v_grid (render_shop sh) of
             Some ps \<Rightarrow> [El Div [Class ''grid md:grid-cols-2 lg:grid-cols-3 gap-8''] (map shop_card ps)]
           | None \<Rightarrow> []) @
          (if v_no_results (render_shop sh)
           then [El Div [Class ''text-center py-12'']
                  [El Para [Class ''text-stone-600''] [Txt ''No perfumes found matching your criteria.'']]]
           else []))]"

section \<open>The sign-in page\<close>

text \<open>\<open>AdminLogin\<close>'s markup (lines 67--128): the lock badge, the title, the alert
  while \<open>error\<close> is non-empty, and the form with its two labelled inputs and the
  submit button.\<close>

definition login_markup :: "login \<Rightarrow> node" where
  "login_markup l =
     El Div [Class ''min-h-screen bg-cream flex items-center justify-center p-4'']
       [El Div [Class ''w-full max-w-md'']
         [El Div [Class ''glossy-card p-8 rounded-3xl'']
           ([El Div [Class ''flex justify-center mb-8'']
              [El Div [Class ''w-16 h-16 bg-stone-800 rounded-full flex items-center justify-center''] [Icon ''Lock'']],
             El H1 [Class ''text-3xl font-cormorant text-center mb-8''] [Txt ''Admin Login'']] @
            (case lv_alert (render_login l) of
               None \<Rightarrow> []
             | Some msg \<Rightarrow> [El Div [Class ''mb-6 p-4 bg-red-50 rounded-2xl flex items-center gap-2 text-red-600'']
                               [Icon ''AlertCircle'', El Para [Class ''text-sm''] [Txt msg]]]) @
            [El Form [OnSubmit ''handleLogin'', Class ''space-y-6'']
              [El Div []
                [El Label [For ''email'', Class ''block text-sm font-medium text-stone-700 mb-2''] [Txt ''Email Address''],
                 El Input [Id ''email'', Type ''email'', Value (lv_email (render_login l)), OnChange ''setEmail'',
                           Class ''w-full px-4 py-3 rounded-full border border-stone-200 focus:border-stone-400 outline-none transition-colors'',
                           Required, AutoComplete ''email''] []],
               El Div []
                [El Label [For ''password'', Class ''block text-sm font-medium text-stone-700 mb-2''] [Txt ''Password''],
                 El Input [Id ''password'', Type ''password'', Value (lv_password (render_login l)), OnChange ''setPassword'',
                           Class ''w-full px-4 py-3 rounded-full border border-stone-200 focus:border-stone-400 outline-none transition-colors'',
                           Required, AutoComplete ''current-password''] []],
               El Button [Type ''submit'', Disabled (lv_disabled (render_login l)),
                          Class ''w-full btn-primary disabled:opacity-50 disabled:cursor-not-allowed'']
                 [Txt (lv_button (render_login l))]]])]]"

section \<open>The legacy \<open>App\<close>\<close>

text \<open>\<open>App\<close>'s bar (lines 20--60): a heading instead of the brand link, anchors to
  \<open>#\<close>.\<close>

definition app_nav :: "layout \<Rightarrow> node" where
  "app_nav a =
     El Nav [Class (nav_class (render_nav a))]
       ([El Div [Class ''max-w-7xl mx-auto px-4 sm:px-6 lg:px-8'']
          [El Div [Class ''flex justify-between items-center h-20'']
            [El H1 [Class ''text-3xl font-cormorant font-bold''] [Txt ''FRAGRANCE''],
             El Div [Class ''hidden md:flex space-x-8'']
               (map (\<lambda>(t, h). El Anchor [Href h, Class ''nav-link font-inter text-sm tracking-wide''] [Txt t]) app_links),
             El Button [Class ''md:hidden rounded-full w-10 h-10 flex items-center justify-center border border-stone-200'',
                        OnClick ''toggleMenu'']
               [Icon (if isMenuOpen a then ''X'' else ''Menu'')]]]] @
        (if isMenuOpen a then
           [El Div [Class ''md:hidden'']
             [El Div [Class ''px-2 pt-2 pb-3 space-y-1 glossy-card rounded-3xl mx-4 mt-2'']
               (map (\<lambda>(t, h). El Anchor [Href h, Class ''block px-6 py-3 text-base font-medium nav-link rounded-full hover:bg-white/50'']
                                 [Txt t]) app_links)]]
         else []))"

text \<open>The hero (lines 63--85), whose Shop Collection is a button with no handler.\<close>

definition app_hero :: node where
  "app_hero =
     El Section [Class ''relative h-screen'']
       [hero_image,
        El Div [Class ''relative max-w-7xl mx-auto px-4 h-full flex items-center'']
          [El Div [Class ''max-w-xl glossy-card p-12 rounded-3xl'']
            [El H2 [Class ''text-6xl font-cormorant font-light mb-6''] [Txt ''Discover Your Signature Scent''],
             El Para [Class ''text-lg mb-8 font-inter font-light'']
               [Txt ''Explore our curated collection of luxury fragrances, each telling its own unique story.''],
             El Button [Class ''btn-primary''] [Txt ''Shop Collection'']]]]"

text \<open>The featured products of lines 92--107. The file stores the second name's
  \<open>\<acute>e\<close> as the two characters U+00C3 U+00A9 (its UTF-8 bytes read as Latin-1).\<close>

definition app_products :: "(string \<times> string \<times> string) list" where
  "app_products =
     [(featured_names ! 0, ''https://images.unsplash.com/photo-1588405748880-12d1d2a59f75?auto=format&fit=crop&q=80'', ''$285''),
      (''Nuit Myst'' @ [CHR 0xC3, CHR 0xA9] @ ''rieuse'',
       ''https://images.unsplash.com/photo-1590736969955-71cc94901144?auto=format&fit=crop&q=80'', ''$320''),
      (featured_names ! 2, ''https://images.unsplash.com/photo-1594035910387-fea47794261f?auto=format&fit=crop&q=80'', ''$295'')]"

definition app_card :: "string \<times> string \<times> string \<Rightarrow> node" where
  "app_card p = El Div [Class ''group cursor-pointer product-card''] (card_body p)"

text \<open>The newsletter (lines 128--147) and the footer (lines 150--203), copies of the
  home page's and the layout's.\<close>

definition app_newsletter :: node where
  "app_newsletter =
     El Section [Class ''py-24 bg-cream'']
       [El Div [Class ''max-w-xl mx-auto px-4 text-center'']
         [El Div [Class ''glossy-card p-12 rounded-3xl'']
           [El H3 [Class ''text-4xl font-cormorant mb-6''] [Txt ''Join Our World''],
            El Para [Class ''mb-8 text-stone-600'']
              [Txt ''Subscribe to receive exclusive updates, early access to new collections, and personalized fragrance recommendations.''],
            El Form [Class ''flex flex-col sm:flex-row gap-4'']
              [El Input [Type ''email'', Placeholder ''Enter your email'', Class ''newsletter-input''] [],
               El Button [Type ''submit'', Class ''btn-primary whitespace-nowrap''] [Txt ''Subscribe'']]]]]"

definition app_footer :: node where
  "app_footer =
     El Footer [Class ''bg-stone-900 text-white py-16 rounded-t-[3rem]'']
       [El Div [Class ''max-w-7xl mx-auto px-4 grid md:grid-cols-4 gap-12'']
         [El Div []
           [El H4 [Class ''font-cormorant text-2xl mb-6''] [Txt ''FRAGRANCE''],
            El Para [Class ''text-stone-400 text-sm''] [Txt ''Crafting exceptional fragrances that capture moments and memories.'']],
          El Div []
           [El H5 [Class ''font-cormorant text-xl mb-4''] [Txt ''Contact''],
            El Div [Class ''space-y-4 text-stone-400'']
              [El Para [Class ''flex items-center gap-2''] [Icon ''MapPin'', Txt ''123 Luxury Lane, Paris''],
               El Para [Class ''flex items-center gap-2''] [Icon ''Phone'', Txt ''+33 1 23 45 67 89''],
               El Para [Class ''flex items-center gap-2''] [Icon ''Mail'', Txt ''contact@fragrance.com'']]],
          El Div []
           [El H5 [Class ''font-cormorant text-xl mb-4''] [Txt ''Quick Links''],
            El Div [Class ''space-y-2 text-stone-400'']
              (map (\<lambda>q. El Para [Class ''hover:text-white cursor-pointer''] [Txt q])
                 [''FAQ'', ''Shipping'', ''Returns'', ''Privacy Policy''])],
          El Div []
           [El H5 [Class ''font-cormorant text-xl mb-4''] [Txt ''Follow Us''],
            El Div [Class ''flex space-x-4'']
              [El Div [Class ''social-icon''] [Icon ''Instagram''],
               El Div [Class ''social-icon''] [Icon ''Facebook''],
               El Div [Class ''social-icon''] [Icon ''Twitter'']]]]]"

definition app_page :: "layout \<Rightarrow> node" where
  "app_page a =
     El Div [Class ''min-h-screen bg-cream'']
       [app_nav a, app_hero, featured_section (map app_card app_products), app_newsletter, app_footer]"

section \<open>Properties\<close>

text \<open>The bar's two flags take four values; a statement about every layout follows
  from the four.\<close>

lemma layout_cases4:
  assumes "Q \<lparr>isMenuOpen = True, isScrolled = True\<rparr>" "Q \<lparr>isMenuOpen = True, isScrolled = False\<rparr>"
    "Q \<lparr>isMenuOpen = False, isScrolled = True\<rparr>" "Q \<lparr>isMenuOpen = False, isScrolled = False\<rparr>"
  shows "Q a"
proof (cases a)
  case (fields x y)
  then show ?thesis using assms by (cases x; cases y) simp_all
qed

text \<open>Each query on a page is the query on its parts: the bar (for the four layouts),
  the routed page's nodes, and the footer, each computed once.\<close>

lemma flow_layout_page: "flow (layout_page l outlet) \<longleftrightarrow> flow (nav_markup l) \<and> flow_list outlet \<and> flow layout_footer"
  by (simp add: layout_page_def)
lemma nav_markup_facts:
  "flow (nav_markup l) \<and> dead_pointers (nav_markup l) = [] \<and> inert_buttons (nav_markup l) = [] \<and>
   hrefs (nav_markup l) = ''/'' # map fst nav_items @ (if isMenuOpen l then map fst nav_items else [])"
  by (rule layout_cases4 [where a = l]; code_simp)
lemma footer_facts:
  "flow layout_footer \<and> inert_buttons layout_footer = [] \<and> hrefs layout_footer = [] \<and>
   dead_pointers layout_footer = map (\<lambda>q. El Para [Class ''hover:text-white cursor-pointer''] [Txt q]) quick_links"
  by code_simp
lemma home_facts:
  "flow_list home_page \<and> concat (map dead_pointers home_page) = [] \<and> concat (map inert_buttons home_page) = [] \<and>
   concat (map hrefs home_page) = ''/shop'' # map featured_link featured_names"
  by code_simp
lemma shop_card_facts:
  "flow (shop_card p) \<and> inert_buttons (shop_card p) = [add_to_cart] \<and> hrefs (shop_card p) = []"
  by (simp add: shop_card_def inert_buttons_El hrefs_El inert_button_def add_to_cart_def
      no_interactive_def List.map_filter_simps comp_def list_all_iff)

lemma shop_controls_facts:
  "flow_list (shop_controls sh) \<and> concat (map inert_buttons (shop_controls sh)) = [] \<and>
   concat (map hrefs (shop_controls sh)) = []"
  by (simp add: shop_controls_def CATEGORIES_def inert_buttons_El hrefs_El inert_button_def
      no_interactive_def has_href_def List.map_filter_simps)

lemma shop_markup_facts:
  "flow (shop_markup sh) \<and>
   inert_buttons (shop_markup sh) = map (\<lambda>_. add_to_cart) (case v_grid (render_shop sh) of Some ps \<Rightarrow> ps | None \<Rightarrow> []) \<and>
   hrefs (shop_markup sh) = []"
proof -
  have c: "concat (map (inert_buttons \<circ> shop_card) ps) = map (\<lambda>_. add_to_cart) ps" for ps
    using shop_card_facts by (induction ps) auto
  have ctl: "flow_list (shop_controls sh)" "concat (map inert_buttons (shop_controls sh)) = []"
      "concat (map hrefs (shop_controls sh)) = []"
    using shop_controls_facts by blast+
  show ?thesis
    by (simp add: shop_markup_def inert_buttons_El hrefs_El inert_button_def List.map_filter_simps c ctl
        shop_card_facts list_all_iff split: option.splits)
qed
lemma layout_page_queries:
  "dead_pointers (layout_page l outlet) =
     dead_pointers (nav_markup l) @ concat (map dead_pointers outlet) @ dead_pointers layout_footer"
  "inert_buttons (layout_page l outlet) =
     inert_buttons (nav_markup l) @ concat (map inert_buttons outlet) @ inert_buttons layout_footer"
  "hrefs (layout_page l outlet) = hrefs (nav_markup l) @ concat (map hrefs outlet) @ hrefs layout_footer"
  by (simp_all add: layout_page_def dead_pointers_El inert_buttons_El hrefs_El pointer_styled_def
      inert_button_def List.map_filter_simps)

lemma login_markup_flow: "flow (login_markup lg)"
  by (simp add: login_markup_def render_login_def no_interactive_def no_form_def has_href_def
      split: option.splits)

lemma app_copies: "app_footer = layout_footer \<and> app_newsletter = newsletter_section"
  by (simp add: app_footer_def layout_footer_def quick_links_def app_newsletter_def newsletter_section_def)

lemma app_nav_facts: "flow (app_nav a) \<and> dead_pointers (app_nav a) = []"
  by (rule layout_cases4 [where a = a]; code_simp)

lemma app_body_facts:
  "flow_list [app_hero, featured_section (map app_card app_products), newsletter_section] \<and>
   concat (map dead_pointers [app_hero, featured_section (map app_card app_products), newsletter_section]) =
     map app_card app_products"
  by code_simp

lemma app_page_parts:
  "flow (app_page a) \<longleftrightarrow>
     flow (app_nav a) \<and> flow_list [app_hero, featured_section (map app_card app_products), newsletter_section] \<and>
     flow layout_footer"
  "dead_pointers (app_page a) =
     dead_pointers (app_nav a) @
     concat (map dead_pointers [app_hero, featured_section (map app_card app_products), newsletter_section]) @
     dead_pointers layout_footer"
  by (simp_all add: app_page_def app_copies dead_pointers_El pointer_styled_def)

lemma app_names_differ: "map fst app_products \<noteq> featured_names"
  by (simp add: app_products_def featured_names_def)

text \<open>C18. Every page rendered as markup here is well formed under the HTML content
  model, in every state: the home page and the shop inside the layout (menu open or
  closed, bar scrolled or not; the shop loading, failed or showing any list of
  perfumes), the sign-in page (with or without its alert, idle or signing in), and the
  legacy \<open>App\<close>. No link or button contains another control, headings and
  paragraphs hold only phrasing content, and no form is nested in a form. The admin
  console is modelled by its view records (\<open>Dashboard_UI\<close>), not as markup, and is
  not covered.\<close>

theorem site_pages_well_formed:
  "flow (layout_page l home_page) \<and> flow (layout_page l [shop_markup sh]) \<and>
   flow (login_markup lg) \<and> flow (app_page a)"
  using nav_markup_facts [of l] footer_facts home_facts shop_markup_facts [of sh] login_markup_flow [of lg]
    app_nav_facts [of a] app_body_facts
  by (simp add: flow_layout_page app_page_parts)

text \<open>C19. Some controls do nothing: the footer's four quick links (FAQ, Shipping,
  Returns, Privacy Policy) are styled as clickable (\<open>cursor-pointer\<close>) but have
  neither a link target nor a click handler, and are the only such elements of the
  home page (the legacy \<open>App\<close> adds its three product cards); every product card
  the shop shows carries an Add to Cart button with no handler, and those are the
  only buttons of the shop page that do nothing.\<close>

theorem inert_controls:
  "dead_pointers (layout_page l home_page) =
     map (\<lambda>q. El Para [Class ''hover:text-white cursor-pointer''] [Txt q]) quick_links \<and>
   dead_pointers (app_page a) =
     map app_card app_products @ map (\<lambda>q. El Para [Class ''hover:text-white cursor-pointer''] [Txt q]) quick_links \<and>
   inert_buttons (layout_page l [shop_markup sh]) =
     map (\<lambda>_. add_to_cart) (case v_grid (render_shop sh) of Some ps \<Rightarrow> ps | None \<Rightarrow> [])"
  using nav_markup_facts [of l] footer_facts home_facts shop_markup_facts [of sh] app_nav_facts [of a]
    app_body_facts
  by (simp add: layout_page_queries app_page_parts)

text \<open>C35. Of the link targets the home page renders (the brand, the bar, the mobile
  menu while open, the hero's call to action and the three featured cards), the router
  matches only \<open>/\<close> and \<open>/shop\<close>: three of the bar's links and every featured card
  lead to the router's error page.\<close>

theorem home_page_unrouted_links:
  "filter (\<lambda>p. route_of p = P_NotFound) (hrefs (layout_page l home_page)) =
     [''/new-arrivals'', ''/about'', ''/contact''] @
     (if isMenuOpen l then [''/new-arrivals'', ''/about'', ''/contact''] else []) @
     [''/shop/l-essence-du-printemps'', ''/shop/nuit-myst-rieuse'', ''/shop/jardin-secret'']"
proof -
  have "filter (\<lambda>p. route_of p = P_NotFound) (map fst nav_items) = [''/new-arrivals'', ''/about'', ''/contact'']"
    "filter (\<lambda>p. route_of p = P_NotFound) (map featured_link featured_names) =
       [''/shop/l-essence-du-printemps'', ''/shop/nuit-myst-rieuse'', ''/shop/jardin-secret'']"
    "route_of ''/'' \<noteq> P_NotFound" "route_of ''/shop'' \<noteq> P_NotFound"
    by code_simp+
  then show ?thesis
    using nav_markup_facts [of l] footer_facts home_facts
    by (simp add: layout_page_queries)
qed

end
