(* ===== verification/Strict_Mode.thy ===== *)
theory Strict_Mode
  imports Site_Layout
begin

text \<open>
  The entry point \<open>src/src/main.tsx\<close>: the development-mode hint of lines 11--14 and
  the \<open>StrictMode\<close> wrapper of lines 45--49. In development React's strict mode mounts
  every component, runs its effects, simulates an unmount (running the effects'
  cleanups) and runs the effects again on the same state. The effects of this program
  start requests without cancelling them in a cleanup, so both runs' requests are
  issued and both runs' callbacks set state and navigate.
\<close>

text \<open>An environment variable is \<open>None\<close> when undefined; it is falsy when undefined
  or empty.\<close>

definition env_falsy :: "string option \<Rightarrow> bool" where
  "env_falsy v \<longleftrightarrow> (case v of None \<Rightarrow> True | Some x \<Rightarrow> x = [])"

definition dev_hint :: "bool \<Rightarrow> string option \<Rightarrow> string option \<Rightarrow> string option" where
  "dev_hint dev url key =
     (if dev \<and> (env_falsy url \<or> env_falsy key)
      then Some ''Please connect to Supabase using the \"Connect to Supabase\" button in the top right corner.''
      else None)"

text \<open>The dashboard's mount under strict mode: both effect runs, in order, on the same
  state; the navigations each run requests.\<close>

definition strict_mount_dashboard :: "svc \<Rightarrow> dash \<times> svc \<times> string option list" where
  "strict_mount_dashboard s =
     (case mount_dashboard s of (d1, s1, nav1) \<Rightarrow>
        (case checkAdmin d1 s1 of (d2, s2, nav2) \<Rightarrow>
           (case fetchPerfumes d2 s2 of (d3, s3) \<Rightarrow> (d3, s3, [nav1, nav2]))))"

section \<open>Properties\<close>

text \<open>C28. The dashboard's mount does not depend on how its two effects' requests are
  scheduled: the two concurrent requests (\<open>checkAdmin\<close>, \<open>fetchPerfumes\<close>) give the
  same page state, navigation and service state, up to the order of the logged
  requests, in either completion order; and strict mode's second run of the effects
  leaves the page state and the service state as one run does, navigates the same way
  twice, and only repeats the mount's requests in the log.\<close>

theorem mount_dashboard_order_and_repeat:
  "fst (mount_dashboard s) = fst (mount_dashboard_alt s) \<and>
   snd (snd (mount_dashboard s)) = snd (snd (mount_dashboard_alt s)) \<and>
   (fst (snd (mount_dashboard s)))\<lparr>calls := []\<rparr> = (fst (snd (mount_dashboard_alt s)))\<lparr>calls := []\<rparr> \<and>
   mset (calls (fst (snd (mount_dashboard s)))) = mset (calls (fst (snd (mount_dashboard_alt s)))) \<and>
   fst (strict_mount_dashboard s) = fst (mount_dashboard s) \<and>
   snd (snd (strict_mount_dashboard s)) = [snd (snd (mount_dashboard s)), snd (snd (mount_dashboard s))] \<and>
   (fst (snd (strict_mount_dashboard s)))\<lparr>calls := []\<rparr> = (fst (snd (mount_dashboard s)))\<lparr>calls := []\<rparr> \<and>
   calls (fst (snd (strict_mount_dashboard s))) =
     calls (fst (snd (mount_dashboard s))) @ drop (length (calls s)) (calls (fst (snd (mount_dashboard s))))"
proof (intro conjI)
  show "fst (mount_dashboard s) = fst (mount_dashboard_alt s)"
   and "snd (snd (mount_dashboard s)) = snd (snd (mount_dashboard_alt s))"
   and "(fst (snd (mount_dashboard s)))\<lparr>calls := []\<rparr> = (fst (snd (mount_dashboard_alt s)))\<lparr>calls := []\<rparr>"
   and "mset (calls (fst (snd (mount_dashboard s)))) = mset (calls (fst (snd (mount_dashboard_alt s))))"
    by (auto simp: mount_dashboard_def mount_dashboard_alt_def checkAdmin_def fetchPerfumes_def
        svc_simps Let_def add_mset_commute split: option.splits sum.splits prod.splits)
  show "fst (strict_mount_dashboard s) = fst (mount_dashboard s)"
   and "snd (snd (strict_mount_dashboard s)) = [snd (snd (mount_dashboard s)), snd (snd (mount_dashboard s))]"
   and "(fst (snd (strict_mount_dashboard s)))\<lparr>calls := []\<rparr> = (fst (snd (mount_dashboard s)))\<lparr>calls := []\<rparr>"
   and "calls (fst (snd (strict_mount_dashboard s))) =
          calls (fst (snd (mount_dashboard s))) @ drop (length (calls s)) (calls (fst (snd (mount_dashboard s))))"
    by (auto simp: strict_mount_dashboard_def mount_dashboard_def checkAdmin_def fetchPerfumes_def
        svc_simps Let_def split: option.splits sum.splits prod.splits)
qed

end
