(* ===== verification/Spec2Isabelle.thy ===== *)
theory Spec2Isabelle
  imports Catalog_Refinement Dashboard_Async Site_Pages Strict_Mode
begin

text \<open>
  \<^bold>\<open>A verification library for the Fragrance storefront and admin console.\<close>

  \<^bold>\<open>The program.\<close> A React/TypeScript single-page application
  (\<open>src/src\<close>). The public side (\<open>main.tsx\<close> router, \<open>components/Layout.tsx\<close>,
  \<open>pages/Home.tsx\<close>, \<open>pages/Shop.tsx\<close>) reads the perfume catalog; the admin
  side (\<open>pages/AdminLogin.tsx\<close>, \<open>pages/AdminDashboard.tsx\<close>) signs administrators
  in and creates, edits and deletes catalog entries with an image upload. All durable
  state lives in a hosted backend (tables \<open>perfumes\<close> and \<open>admin_users\<close>, password
  authentication, the \<open>perfume-images\<close> bucket) reached through the client of
  \<open>lib/supabase.ts\<close>. Components interact only through that service and through
  navigation between routes.

  \<^bold>\<open>Theories.\<close>
  \<^item> \<open>Prelude\<close>: the JavaScript built-ins the handlers use (\<open>trim\<close>, \<open>split\<close>,
    \<open>join\<close>, \<open>toLowerCase\<close>, \<open>includes\<close>), thrown values, shared list lemmas, and
    the \<open>svc_simps\<close> / \<open>handler_simps\<close> collections.
  \<^item> \<open>Perfume_Types\<close>: \<open>types/perfume.ts\<close> (\<open>Perfume\<close>, \<open>PerfumeFormData\<close> as a
    record extension), the \<open>admin_users\<close> row, the picked \<open>File\<close>.
  \<^item> \<open>Backend\<close>: the remote service as the record \<open>svc\<close>, one function per request
    kind, each logging itself in \<open>calls\<close> and failing as the fault map \<open>faults\<close>
    dictates. It is modelled from the specification (section 6), not from code of the
    repository. Its invariant \<open>svc_inv\<close> (distinct identifiers, timestamps in the
    past) is kept by every request; the abstraction \<open>catalog\<close> reads the table as a
    map and the write requests refine map update and deletion
    (\<open>catalog_insert\<close>, \<open>catalog_update\<close>, \<open>catalog_delete\<close>); the read path
    returns the newest row first (\<open>newest_first_insert_hd\<close>).
  \<^item> \<open>Dashboard\<close>: \<open>AdminDashboard.tsx\<close>. The React state is the record \<open>dash\<close>;
    every handler (\<open>checkAdmin\<close>, \<open>fetchPerfumes\<close>, \<open>handleLogout\<close>,
    \<open>handleImageChange\<close>, \<open>uploadImage\<close>, \<open>openModal\<close>, \<open>closeModal\<close>,
    \<open>handleSubmit\<close> split at the code's own stages into \<open>resolveImage\<close> and
    \<open>persist\<close>, \<open>handleDelete\<close>, the notes input's \<open>onNotesChange\<close>) is a function
    of the state its closure captured and the service. The theorems: validation before
    any request; all-or-nothing writes against the abstract \<open>catalog_write\<close>; the
    new record heads the refreshed list; no upload without a picked file; delete only
    after confirmation; monotone upload progress ending at 100 and cleared; the notes
    pipeline, its roundtrip through the controlled input, and the loss of a typed space.
  \<^item> \<open>Auth_Gate\<close>: \<open>AdminLogin.tsx\<close> (\<open>checkSession\<close>, \<open>handleLogin\<close>) and the
    properties of the dashboard's \<open>checkAdmin\<close>: an authenticated non-administrator
    is signed out again with "Unauthorized access"; only administrators are sent to the
    dashboard; rejected credentials change
    nothing; the entry check fails closed. Two departures from the specification are
    proved: a failed sign-out keeps the unauthorized session, and the typed (not the
    authenticated) email is looked up, so a capitalised email is refused.
  \<^item> \<open>Shop\<close>: \<open>Shop.tsx\<close> as the record \<open>shop\<close>, its fetch, the filter
    \<open>filteredPerfumes\<close> and the render decision \<open>render_shop\<close>: the search ignores
    letter case and matches name or description, the category buttons exclude other
    categories; the page after mounting shows the table newest first or the error, and
    never writes.
  \<^item> \<open>Navigation\<close>: the router of \<open>main.tsx\<close> (\<open>route_of\<close>), each page's mount
    effect (\<open>enter\<close>) and \<open>follow\<close>, which follows navigations with a fuel bound.
    Fuel: an administrator settles on the dashboard within 2 steps, a visitor without
    session on the sign-in page within 2; for a signed-in non-administrator no fuel is
    enough (\<open>follow n\<close> is \<open>None\<close> for every \<open>n\<close>). The home page's featured
    links and three navigation-bar links lead to no route.
  \<^item> \<open>Dashboard_UI\<close>: the dashboard as an interactive page. \<open>render_dash\<close> and
    \<open>render_modal\<close> translate its JSX (lines 220--495); the remaining input handlers
    (\<open>onNameChange\<close>, \<open>onCategoryChange\<close>, \<open>onPriceChange\<close>,
    \<open>onDescriptionChange\<close>) and the browser's constraint validation of the form
    (\<open>form_constraints_ok\<close>: \<open>required\<close>, \<open>min\<close>, \<open>step\<close>) complete the handlers of
    \<open>Dashboard\<close>. The datatype \<open>dash_event\<close> lists what a user can do, \<open>ev_enabled\<close>
    when the rendered page offers it, \<open>dash_event_step\<close> the handler it runs; the
    inductive \<open>dash_reach\<close> is the set of states reachable after a mount that let the
    visitor stay, and \<open>run_events\<close> an executable interpreter of event sequences proved
    to describe the same states. Over reachable states: the console is idle between
    events, with a pristine form behind a closed dialog; the catalog stays well formed
    (names, images, categories of the form's list, positive prices in whole cents, no
    blank notes), which needs the form's constraints since the handler alone admits a
    negative price; the header greets the matching administrator. A submission issues
    its requests in the order upload, write, refresh and stops at the first failure. A
    second picked image leaks the first object URL.
  \<^item> \<open>Catalog_Refinement\<close>: the specification's abstract views and their refinement by
    the code. \<open>cat_step\<close> is the catalog lifecycle of section 3 (keep, create under a
    fresh identifier, replace an existing entry whole, delete) and every event of the
    dashboard performs at most one such step under the abstraction \<open>catalog\<close>. \<open>gate_spec\<close> is the
    three-way gate of section 9 (authorized, unauthorized, service error), and
    \<open>checkAdmin\<close> implements it, collapsing the last two at the call site, when the
    administrator table holds at most one row per email. The upload-then-write saga
    leaves an orphaned object when the write fails after the upload.
  \<^item> \<open>Dashboard_Async\<close>: \<open>handleSubmit\<close> split at its \<open>await\<close>s. \<open>submit_start\<close> is
    its synchronous part up to the first request, \<open>submit_resume\<close> each continuation
    after a response; the pending continuation keeps the closure's snapshot of the
    state at the click (\<open>snap\<close>) while its setters write the page's current state
    (\<open>live\<close>). \<open>async_step\<close> interleaves user events, progress events and responses;
    \<open>drain\<close> answers the awaited requests in a row and terminates by the number of
    stages left (\<open>rank\<close>, at most 3). Without interleaving the split handler is the
    atomic one of \<open>Dashboard\<close>, so the atomic results carry over; with interleaving a
    save always completes after at most three responses, writes the form as it was at
    the click, and on success closes whatever dialog is open then, discarding input
    given meanwhile; a delete during the save's list query lets the older answer put
    the deleted perfume back on screen.
  \<^item> \<open>Site_Layout\<close>: \<open>Layout.tsx\<close>'s navigation bar (\<open>handleScroll\<close>,
    \<open>toggleMenu\<close>, \<open>render_nav\<close>) and its life on the site (\<open>site_go\<close>: the router
    keeps the layout between \<open>/\<close> and \<open>/shop\<close> and unmounts it elsewhere). In every
    reachable state exactly one scroll listener is registered while the layout is
    shown and none otherwise; a link of the open mobile menu leaves the menu open.
    The unrouted \<open>App.tsx\<close> header is modelled beside it. The home page's
    newsletter form, which has no handler, is the event \<open>S_subscribe\<close>: the browser
    submits it to the page's own address, so a valid (or empty) address only reloads
    the site with a fresh layout and the address goes nowhere.
  \<^item> \<open>Strict_Mode\<close>: \<open>main.tsx\<close>'s development hint (\<open>dev_hint\<close>, the
    message logged when a connection variable is missing) and its \<open>StrictMode\<close>
    wrapper, which in development runs each mount effect a second time on the same
    state (\<open>strict_mount_dashboard\<close>). The dashboard's mount is robust to both
    scheduling freedoms: its two concurrent requests commute, and a second run only
    repeats the requests and the navigation.
  \<^item> \<open>Html_Forms\<close>: what the browser does with the controls the pages declare: the
    value sanitization of e-mail and password inputs (\<open>email_sanitize\<close>), the HTML
    Standard's grammar of a valid e-mail address (\<open>valid_email\<close>, executable over the
    address's \<open>@\<close> and \<open>.\<close> pieces), and constraint validation
    (\<open>email_control_ok\<close>, \<open>required_ok\<close>). A valid address is a sanitized value.
  \<^item> \<open>Login_UI\<close>: \<open>AdminLogin.tsx\<close> as a page: the inputs' \<open>onChange\<close>
    (\<open>onEmailChange\<close>, \<open>onPasswordChange\<close>), the submission behind the form's
    constraints and the disabled button (\<open>login_submit\<close>), the render
    (\<open>render_login\<close>), and the page's reachable states \<open>login_reach\<close> from a mount
    without session until it navigates (with the executable \<open>login_run\<close>). Over them:
    the page's values are typed (sanitized fields, every e-mail sent to the service a
    valid address), and nobody is signed in while the page is shown, as long as
    sign-out requests go through.
  \<^item> \<open>Markup\<close> and \<open>Site_Pages\<close>: rendered element trees (\<open>node\<close>) with the HTML
    content model as a judgement (\<open>flow\<close>, \<open>phrasing\<close>: no control inside a link or
    button, phrasing content in headings and paragraphs, no nested form), and the
    markup of the layout (\<open>nav_markup\<close>, \<open>layout_footer\<close>, \<open>layout_page\<close> around
    the routed page's nodes), the home page (\<open>home_page\<close>), the shop
    (\<open>shop_markup\<close>, its cards \<open>shop_card\<close>, the blocks chosen by \<open>render_shop\<close>), the
    sign-in page (\<open>login_markup\<close>) and the legacy \<open>App\<close> (\<open>app_page\<close>), class names
    as written. Queries on a page decompose over its bar, routed page and footer
    (\<open>layout_page_queries\<close>), so the four layouts are examined on the bar alone. Every
    page is well formed in every state; the footer's quick links are styled clickable
    but inert and every shop card's Add to Cart button has no handler; of the home
    page's link targets only \<open>/\<close> and \<open>/shop\<close> are routed. \<open>App.tsx\<close> stores one featured name double-encoded.

  \<^bold>\<open>Modelling choices.\<close> In \<open>Dashboard\<close> and \<open>Dashboard_UI\<close> a handler's
  \<open>await\<close> chain is one step; \<open>Dashboard_Async\<close> splits \<open>handleSubmit\<close> at its
  \<open>await\<close>s and proves the one-step view exact when nothing interleaves. The submit
  button is disabled while saving, so a second submission cannot start. A request is
  answered when it is issued; the page sees the answer when the handler resumes. Service
  failures are inputs (the fault map), so every theorem holds for every pattern of
  failures; the random file name and the progress events of
  an upload are inputs too (\<open>upload_env\<close>). Prices are rationals (JavaScript numbers
  from a decimal input), identifiers and timestamps natural numbers. Strings are byte
  strings of 8-bit characters holding the UTF-16 code units the source's literals
  denote (all below 256 here); \<open>trim\<close> and \<open>toLowerCase\<close> act on ASCII. The
  markup keeps tags, attributes, text and handler names; an icon component is one
  node, React keys are dropped, and every case split of a rendered page is over the
  four values of the layout's two flags (\<open>layout_cases4\<close>). Navigation is followed with
  fuel (\<open>follow\<close>), since the router's redirects may cycle; the slug of a featured
  link terminates by the length of the remaining name.

  \<^bold>\<open>Not modelled.\<close> \<open>tailwind.config.js\<close> (styling); the table and dialog
  markup of the dashboard, whose render decisions are modelled as view records
  instead; the string a JavaScript number renders as (a price is the node
  \<open>Num\<close>); the \<open>createRoot\<close> call of \<open>main.tsx\<close> (DOM I/O); strict mode's
  second run of the other pages' effects (the layout's cleanup removes its listener
  before the second registration; the sign-in page checks the session twice). The hosted service is modelled by its request contracts only.
  Handlers other than \<open>handleSubmit\<close> that \<open>await\<close> (\<open>checkAdmin\<close>,
  \<open>fetchPerfumes\<close>, \<open>handleDelete\<close>, \<open>handleLogin\<close>) run to completion in one
  step; \<open>Dashboard_Async\<close> shows for the save what interleaving adds. On the sign-in
  page only the submit button is disabled while signing in, and \<open>handleLogin\<close>
  reads the fields its closure captured, so input typed meanwhile does not affect it.

  \<^bold>\<open>Plan for the next steps.\<close> The delete handler split at its \<open>await\<close>s like
  the save; the dashboard's markup as element trees.
\<close>

end
